theory Spec2Isabelle
  imports Main
begin

section \<open>The GraphQL document model of augment.js\<close>

text \<open>
  The engine works on the AST nodes of graphql-js.  A type reference is a named type under
  list and non-null wrapper layers; a directive is a name with named arguments (only the
  \<open>value.value\<close> string of an argument is ever read); a field definition carries its
  arguments, its type and its directives.
\<close>

datatype gtype = NamedType string | ListType gtype | NonNullType gtype

record directive =
  d_name :: string
  d_arguments :: "(string \<times> string) list"

record input_value =
  iv_name :: string
  iv_type :: gtype
  iv_directives :: "directive list"

record field_def =
  f_name :: string
  f_arguments :: "input_value list"
  f_type :: gtype
  f_directives :: "directive list"

datatype kind =
    ObjectTypeDefinition
  | InputObjectTypeDefinition
  | EnumTypeDefinition
  | ScalarTypeDefinition
  | InterfaceTypeDefinition
  | UnionTypeDefinition
  | DirectiveDefinition

text \<open>
  A definition without a \<open>fields\<close> (or \<open>values\<close>) property is modelled with the empty
  list.  \<open>parse\<close> returns a \<open>Document\<close> node; augment.js stores most generated types as
  that document (only the temporal types are stored as \<open>definitions[0]\<close>), so an entry of
  the type map is either a definition or a document.
\<close>

record type_def =
  t_kind :: kind
  t_name :: string
  t_fields :: "field_def list"
  t_directives :: "directive list"
  t_values :: "string list"

datatype ast_node = Definition type_def | Document "type_def list"

text \<open>
  The type map is a JavaScript object: its keys are unique and keep their insertion order
  (\<open>Object.keys\<close>, \<open>Object.entries\<close>).  Assigning to an existing key keeps the key's
  position; assigning to a new key appends it.
\<close>

type_synonym type_map = "(string \<times> ast_node) list"

definition getType :: "type_map \<Rightarrow> string \<Rightarrow> ast_node option" where
  "getType typeMap name = map_of typeMap name"

fun setType :: "type_map \<Rightarrow> string \<Rightarrow> ast_node \<Rightarrow> type_map" where
  "setType [] name node = [(name, node)]"
| "setType ((k, v) # typeMap) name node =
     (if k = name then (k, node) # typeMap else (k, v) # setType typeMap name node)"

text \<open>Every \<open>throw\<close> and every runtime error of the source is a value.\<close>

datatype error =
    RelationTypeMissingFrom string
      \<comment> \<open>Relationship type N has a 'to' field but no corresponding 'from' field\<close>
  | RelationTypeMissingTo string
      \<comment> \<open>Relationship type N has a 'from' field but no corresponding 'to' field\<close>
  | ReferenceError string
      \<comment> \<open>an identifier that is not in scope is evaluated\<close>
  | TypeError string
      \<comment> \<open>a property of \<open>undefined\<close> is read\<close>
  | SyntaxError string
      \<comment> \<open>\<open>parse\<close> refuses the generated text\<close>

definition bindE :: "error + 'a \<Rightarrow> ('a \<Rightarrow> error + 'b) \<Rightarrow> error + 'b" where
  "bindE m f = (case m of Inl e \<Rightarrow> Inl e | Inr x \<Rightarrow> f x)"

fun foldE :: "('a \<Rightarrow> 's \<Rightarrow> error + 's) \<Rightarrow> 'a list \<Rightarrow> 's \<Rightarrow> error + 's" where
  "foldE f [] s = Inr s"
| "foldE f (x # xs) s = (case f x s of Inl e \<Rightarrow> Inl e | Inr s' \<Rightarrow> foldE f xs s')"

subsection \<open>Helpers imported from utils.js\<close>

text \<open>
  Modelled from the spec: utils.js is not among the source files.  \<open>_getNamedType\<close>
  strips the list and non-null wrapper layers to the named leaf type; \<open>_isListType\<close>
  says whether one of these layers is a list; \<open>isNonNullType\<close> says whether the field is
  required.
\<close>

fun getNamedType :: "gtype \<Rightarrow> string" where
  "getNamedType (NamedType n) = n"
| "getNamedType (ListType t) = getNamedType t"
| "getNamedType (NonNullType t) = getNamedType t"

fun isListType :: "gtype \<Rightarrow> bool" where
  "isListType (NamedType n) = False"
| "isListType (ListType t) = True"
| "isListType (NonNullType t) = isListType t"

fun isNonNullType :: "gtype \<Rightarrow> bool" where
  "isNonNullType (NonNullType t) = True"
| "isNonNullType t = False"

text \<open>
  Modelled from the spec: the directive lookups of utils.js return the first directive of
  the given name, or \<open>undefined\<close>.
\<close>

definition findDirective :: "directive list \<Rightarrow> string \<Rightarrow> directive option" where
  "findDirective ds name = find (\<lambda>e. d_name e = name) ds"

definition getFieldDirective :: "field_def \<Rightarrow> string \<Rightarrow> directive option" where
  "getFieldDirective field name = findDirective (f_directives field) name"

fun getTypeDirective :: "ast_node \<Rightarrow> string \<Rightarrow> directive option" where
  "getTypeDirective (Definition d) name = findDirective (t_directives d) name"
| "getTypeDirective (Document ds) name = None"

definition isBasicScalar :: "string \<Rightarrow> bool" where
  "isBasicScalar name = (name \<in> set [''ID'', ''String'', ''Float'', ''Int'', ''Boolean''])"

fun isKind :: "ast_node option \<Rightarrow> kind \<Rightarrow> bool" where
  "isKind (Some (Definition d)) k = (t_kind d = k)"
| "isKind node k = False"

text \<open>
  Modelled from the spec: \<open>isTemporalType\<close> recognises the names of the five structured
  temporal output types (augment.js appends \<open>Input\<close> to a name it accepts).
\<close>

definition isTemporalType :: "string \<Rightarrow> bool" where
  "isTemporalType name = (name \<in> set [''_Neo4jTime'', ''_Neo4jDate'', ''_Neo4jDateTime'',
     ''_Neo4jLocalTime'', ''_Neo4jLocalDateTime''])"

definition hasField :: "type_def \<Rightarrow> string \<Rightarrow> bool" where
  "hasField d name = (find (\<lambda>e. f_name e = name) (t_fields d) \<noteq> None)"

text \<open>
  Modelled from the spec: a node type is an object type that is neither a root operation
  type nor a relationship type (it has no relation directive and no \<open>from\<close> or \<open>to\<close>
  field).
\<close>

fun isNodeType :: "ast_node option \<Rightarrow> bool" where
  "isNodeType (Some (Definition d)) =
     (t_kind d = ObjectTypeDefinition \<and> t_name d \<noteq> ''Query'' \<and> t_name d \<noteq> ''Mutation''
      \<and> findDirective (t_directives d) ''relation'' = None
      \<and> \<not> hasField d ''from'' \<and> \<not> hasField d ''to'')"
| "isNodeType node = False"

text \<open>
  Modelled from the spec: \<open>getPrimaryKey\<close> (utils.js) is not among the source files.  The
  spec names the first required field of type \<open>ID\<close> as the key.  augment.js takes the
  key to be possibly of another type (\<open>decideFieldType\<close> on the key's type in
  \<open>possiblyAddTypeInput\<close>, \<open>transformManagedFieldTypes\<close> on the argument of the
  Delete mutation): the helper of neo4j-graphql-js looks, among the fields that are not
  ignored, for the first field other than \<open>_id\<close> whose type is required and named \<open>ID\<close>
  (a required list of \<open>ID\<close> included), then for the first field other than \<open>_id\<close> whose
  type is named \<open>ID\<close>, then for the first field whose named type is called
  \<open>NonNullType\<close>, then for the first field other than \<open>_id\<close>.  It returns \<open>undefined\<close>
  when none of these exists.
\<close>

definition firstNonNullAndIdFieldOf :: "field_def list \<Rightarrow> field_def option" where
  "firstNonNullAndIdFieldOf flds =
     find (\<lambda>e. f_name e \<noteq> ''_id'' \<and> isNonNullType (f_type e)
                \<and> getNamedType (f_type e) = ''ID'') flds"

definition firstIdFieldOf :: "field_def list \<Rightarrow> field_def option" where
  "firstIdFieldOf flds = find (\<lambda>e. f_name e \<noteq> ''_id'' \<and> getNamedType (f_type e) = ''ID'') flds"

definition firstNonNullFieldOf :: "field_def list \<Rightarrow> field_def option" where
  "firstNonNullFieldOf flds = find (\<lambda>e. getNamedType (f_type e) = ''NonNullType'') flds"

definition firstFieldOf :: "field_def list \<Rightarrow> field_def option" where
  "firstFieldOf flds = find (\<lambda>e. f_name e \<noteq> ''_id'') flds"

definition getPrimaryKey :: "type_def \<Rightarrow> field_def option" where
  "getPrimaryKey d =
     (let flds = filter (\<lambda>field. getFieldDirective field ''neo4j_ignore'' = None) (t_fields d)
      in case firstNonNullAndIdFieldOf flds of
           Some pk \<Rightarrow> Some pk
         | None \<Rightarrow>
             (case firstIdFieldOf flds of
                Some pk \<Rightarrow> Some pk
              | None \<Rightarrow>
                  (case firstNonNullFieldOf flds of
                     Some pk \<Rightarrow> Some pk
                   | None \<Rightarrow> firstFieldOf flds)))"

text \<open>
  \<open>createOperationMap\<close> indexes the fields of a root type by name: an object whose keys
  are in the order of their first definition, each with the last field of that name.
\<close>

fun setOperation :: "(string \<times> field_def) list \<Rightarrow> string \<Rightarrow> field_def \<Rightarrow> (string \<times> field_def) list" where
  "setOperation [] name field = [(name, field)]"
| "setOperation ((k, v) # m) name field =
     (if k = name then (k, field) # m else (k, v) # setOperation m name field)"

fun createOperationMap :: "ast_node option \<Rightarrow> (string \<times> field_def) list" where
  "createOperationMap (Some (Definition d)) =
     foldl (\<lambda>acc t. setOperation acc (f_name t) t) [] (t_fields d)"
| "createOperationMap node = []"

subsection \<open>Configuration\<close>

text \<open>
  \<open>excludeIgnoredTypes\<close> (utils.js) computes the configuration once, before any stage
  runs; the model takes the configuration it returns.  An operation is switched by a
  boolean or carries the set of excluded type names.  The authorization hook
  \<open>possiblyAddScopeDirective\<close> (auth.js) is a parameter: given entity kind, operation
  kind, type name and related type name it returns a directive or \<open>undefined\<close>.
\<close>

datatype operation_config = OperationBoolean bool | OperationExclude "string list"

datatype temporal_option =
    TemporalUndefined
  | TemporalBoolean bool
  | TemporalObject "bool option" "bool option" "bool option" "bool option" "bool option"

record temporal_config =
  tc_time :: bool
  tc_date :: bool
  tc_datetime :: bool
  tc_localtime :: bool
  tc_localdatetime :: bool

record config =
  c_query :: operation_config
  c_mutation :: operation_config
  c_temporal :: temporal_option
  possiblyAddScopeDirective :: "string \<Rightarrow> string \<Rightarrow> string \<Rightarrow> string option \<Rightarrow> directive option"

datatype root_type = QueryOperation | MutationOperation

definition operationConfig :: "config \<Rightarrow> root_type \<Rightarrow> operation_config" where
  "operationConfig cfg rootType =
     (case rootType of QueryOperation \<Rightarrow> c_query cfg | MutationOperation \<Rightarrow> c_mutation cfg)"

definition shouldAugmentType :: "config \<Rightarrow> root_type \<Rightarrow> string \<Rightarrow> bool" where
  "shouldAugmentType cfg rootType type =
     (case operationConfig cfg rootType of
        OperationBoolean b \<Rightarrow> b
      | OperationExclude excluded \<Rightarrow> (if type \<noteq> [] then type \<notin> set excluded else False))"

definition shouldAugmentRelationField :: "config \<Rightarrow> root_type \<Rightarrow> string \<Rightarrow> string \<Rightarrow> bool" where
  "shouldAugmentRelationField cfg rootType fromName toName =
     (shouldAugmentType cfg rootType fromName \<and> shouldAugmentType cfg rootType toName)"

definition fieldIsNotIgnored :: "field_def \<Rightarrow> bool" where
  "fieldIsNotIgnored field = (getFieldDirective field ''neo4j_ignore'' = None)"

definition isNotSystemField :: "string \<Rightarrow> bool" where
  "isNotSystemField name = (name \<noteq> ''_id'' \<and> name \<noteq> ''to'' \<and> name \<noteq> ''from'')"

section \<open>Seeding the root operation types\<close>

definition possiblyAddObjectType :: "type_map \<Rightarrow> string \<Rightarrow> type_map" where
  "possiblyAddObjectType typeMap name =
     (if getType typeMap name = None
      then setType typeMap name (Definition \<lparr>t_kind = ObjectTypeDefinition, t_name = name,
             t_fields = [], t_directives = [], t_values = []\<rparr>)
      else typeMap)"

text \<open>
  \<open>hasNonExcludedNodeType\<close> returns what \<open>Array.find\<close> returns: the first key whose type
  is a node type that the policy permits, or \<open>undefined\<close>.  A definition always has a
  name node, so \<open>type.name\<close> is truthy there.
\<close>

definition nodeName :: "ast_node option \<Rightarrow> string" where
  "nodeName node = (case node of Some (Definition d) \<Rightarrow> t_name d | _ \<Rightarrow> [])"

definition hasNonExcludedNodeType :: "string list \<Rightarrow> type_map \<Rightarrow> root_type \<Rightarrow> config \<Rightarrow> string option" where
  "hasNonExcludedNodeType types typeMap rootType cfg =
     find (\<lambda>e. isNodeType (getType typeMap e)
                \<and> shouldAugmentType cfg rootType (nodeName (getType typeMap e))) types"

text \<open>The found key is used as a condition: the empty string is falsy.\<close>

definition truthyKey :: "string option \<Rightarrow> bool" where
  "truthyKey r = (case r of None \<Rightarrow> False | Some k \<Rightarrow> k \<noteq> [])"

definition initializeOperationTypes :: "type_map \<Rightarrow> config \<Rightarrow> type_map" where
  "initializeOperationTypes typeMap cfg =
     (let types = map fst typeMap;
          typeMap1 = (if truthyKey (hasNonExcludedNodeType types typeMap QueryOperation cfg)
                      then possiblyAddObjectType typeMap ''Query'' else typeMap);
          typeMap2 = (if truthyKey (hasNonExcludedNodeType types typeMap1 MutationOperation cfg)
                      then possiblyAddObjectType typeMap1 ''Mutation'' else typeMap1)
      in typeMap2)"

section \<open>Normalising relationship types\<close>

text \<open>
  \<open>toUpperCase\<close> on the characters of a GraphQL name, which are ASCII letters, digits and
  the underscore.
\<close>

definition toUpperCaseChar :: "char \<Rightarrow> char" where
  "toUpperCaseChar c =
     (let n = (of_char c :: nat) in if 97 \<le> n \<and> n \<le> 122 then char_of (n - 32) else c)"

fun transformRelationChars :: "nat \<Rightarrow> string \<Rightarrow> string" where
  "transformRelationChars t [] = []"
| "transformRelationChars t (c # cs) =
     (if c = toUpperCaseChar c \<and> t > 0
      then CHR ''_'' # toUpperCaseChar c # transformRelationChars (Suc t) cs
      else toUpperCaseChar c # transformRelationChars (Suc t) cs)"

definition transformRelationName :: "type_def \<Rightarrow> string" where
  "transformRelationName relatedAstNode = transformRelationChars 0 (t_name relatedAstNode)"

text \<open>
  The relation directive with its three arguments.
\<close>

definition relationDirective :: "string \<Rightarrow> string \<Rightarrow> string \<Rightarrow> directive" where
  "relationDirective name fromName toName =
     \<lparr>d_name = ''relation'',
      d_arguments = [(''name'', name), (''from'', fromName), (''to'', toName)]\<rparr>"

text \<open>
  \<open>parseDirectiveSdl\<close> (utils.js) hands the text of one directive to the GraphQL parser.
  \<open>addRelationTypeDirectives\<close> writes the relation name into that text without quotes, so
  the parser reads it as a value of its own.  Where the name is one name token (letters,
  digits and underscores, not starting with a digit) or one number token (an integer or a
  float of the GraphQL grammar), the text denotes the relation directive with that name.
  Any other name is taken as refused by the parser, which throws a syntax error: a name
  of two words such as \<open>ACTED IN\<close>, an empty name, a name with a hyphen or a dot.  The
  names of the \<open>from\<close> and \<open>to\<close> types are the names of parsed types.
\<close>

definition isDigit :: "char \<Rightarrow> bool" where
  "isDigit c = (let n = (of_char c :: nat) in 48 \<le> n \<and> n \<le> 57)"

definition isNameStart :: "char \<Rightarrow> bool" where
  "isNameStart c =
     (let n = (of_char c :: nat) in (65 \<le> n \<and> n \<le> 90) \<or> (97 \<le> n \<and> n \<le> 122) \<or> n = 95)"

definition isNameToken :: "string \<Rightarrow> bool" where
  "isNameToken s =
     (case s of [] \<Rightarrow> False
      | c # cs \<Rightarrow> isNameStart c \<and> list_all (\<lambda>e. isNameStart e \<or> isDigit e) cs)"

definition isDigits :: "string \<Rightarrow> bool" where
  "isDigits s = (s \<noteq> [] \<and> list_all isDigit s)"

definition isIntegerPart :: "string \<Rightarrow> bool" where
  "isIntegerPart s = (s = ''0'' \<or> (isDigits s \<and> hd s \<noteq> CHR ''0''))"

definition isExponentPart :: "string \<Rightarrow> bool" where
  "isExponentPart s =
     (case s of [] \<Rightarrow> False
      | c # cs \<Rightarrow> (c = CHR ''e'' \<or> c = CHR ''E'')
                  \<and> (case cs of [] \<Rightarrow> False
                       | d # ds \<Rightarrow> if d = CHR ''+'' \<or> d = CHR ''-'' then isDigits ds else isDigits cs))"

definition isNumberToken :: "string \<Rightarrow> bool" where
  "isNumberToken s =
     (let unsigned = (case s of [] \<Rightarrow> [] | c # cs \<Rightarrow> if c = CHR ''-'' then cs else s);
          integerPart = takeWhile isDigit unsigned;
          rest = dropWhile isDigit unsigned
      in isIntegerPart integerPart
         \<and> (rest = [] \<or> isExponentPart rest
              \<or> (case rest of [] \<Rightarrow> False
                   | c # cs \<Rightarrow> c = CHR ''.'' \<and> isDigits (takeWhile isDigit cs)
                               \<and> (dropWhile isDigit cs = [] \<or> isExponentPart (dropWhile isDigit cs)))))"

definition isValueToken :: "string \<Rightarrow> bool" where
  "isValueToken s = (isNameToken s \<or> isNumberToken s)"

definition parseDirectiveSdl :: "string \<Rightarrow> string \<Rightarrow> string \<Rightarrow> error + directive" where
  "parseDirectiveSdl relationName fromTypeName toTypeName =
     (if isValueToken relationName
      then Inr (relationDirective relationName fromTypeName toTypeName)
      else Inl (SyntaxError relationName))"

definition findField :: "field_def list \<Rightarrow> string \<Rightarrow> field_def option" where
  "findField flds name = find (\<lambda>e. f_name e = name) flds"

fun findIndex :: "('a \<Rightarrow> bool) \<Rightarrow> 'a list \<Rightarrow> nat option" where
  "findIndex p [] = None"
| "findIndex p (x # xs) =
     (if p x then Some 0 else (case findIndex p xs of None \<Rightarrow> None | Some i \<Rightarrow> Some (Suc i)))"

definition normalizeRelationType :: "type_def \<Rightarrow> field_def \<Rightarrow> field_def \<Rightarrow> error + type_def" where
  "normalizeRelationType astNode from to =
     (let fromTypeName = getNamedType (f_type from);
          toTypeName = getNamedType (f_type to);
          directives = t_directives astNode
      in case findIndex (\<lambda>e. d_name e = ''relation'') directives of
           Some typeDirectiveIndex \<Rightarrow>
             (let args = d_arguments (directives ! typeDirectiveIndex);
                  relationName = (case find (\<lambda>e. fst e = ''name'') args of
                                    Some nameArg \<Rightarrow> snd nameArg
                                  | None \<Rightarrow> transformRelationName astNode)
              in bindE (parseDirectiveSdl relationName fromTypeName toTypeName)
                   (\<lambda>parsed. Inr (astNode\<lparr>t_directives := directives[typeDirectiveIndex := parsed]\<rparr>)))
         | None \<Rightarrow>
             bindE (parseDirectiveSdl (transformRelationName astNode) fromTypeName toTypeName)
               (\<lambda>parsed. Inr (astNode\<lparr>t_directives := directives @ [parsed]\<rparr>)))"

text \<open>The body of the \<open>forEach\<close> over the keys of the type map.\<close>

definition addRelationTypeDirective :: "string \<Rightarrow> type_map \<Rightarrow> error + type_map" where
  "addRelationTypeDirective typeName typeMap =
     (case getType typeMap typeName of
        None \<Rightarrow> Inl (TypeError ''kind'')
      | Some (Document ds) \<Rightarrow> Inr typeMap
      | Some (Definition astNode) \<Rightarrow>
          (if t_kind astNode = ObjectTypeDefinition then
             (case (findField (t_fields astNode) ''to'', findField (t_fields astNode) ''from'') of
                (Some to, None) \<Rightarrow> Inl (RelationTypeMissingFrom (t_name astNode))
              | (None, Some from) \<Rightarrow> Inl (RelationTypeMissingTo (t_name astNode))
              | (Some to, Some from) \<Rightarrow>
                  bindE (normalizeRelationType astNode from to)
                    (\<lambda>normalized. Inr (setType typeMap typeName (Definition normalized)))
              | (None, None) \<Rightarrow> Inr typeMap)
           else Inr typeMap))"

definition addRelationTypeDirectives :: "type_map \<Rightarrow> error + type_map" where
  "addRelationTypeDirectives typeMap = foldE addRelationTypeDirective (map fst typeMap) typeMap"

section \<open>Temporal types\<close>

definition decideTemporalConfig :: "config \<Rightarrow> temporal_config" where
  "decideTemporalConfig cfg =
     (case c_temporal cfg of
        TemporalUndefined \<Rightarrow>
          \<lparr>tc_time = True, tc_date = True, tc_datetime = True, tc_localtime = True,
           tc_localdatetime = True\<rparr>
      | TemporalBoolean b \<Rightarrow>
          \<lparr>tc_time = b, tc_date = b, tc_datetime = b, tc_localtime = b, tc_localdatetime = b\<rparr>
      | TemporalObject t d dt lt ldt \<Rightarrow>
          \<lparr>tc_time = (t \<noteq> Some False), tc_date = (d \<noteq> Some False),
           tc_datetime = (dt \<noteq> Some False), tc_localtime = (lt \<noteq> Some False),
           tc_localdatetime = (ldt \<noteq> Some False)\<rparr>)"

definition intField :: "string \<Rightarrow> field_def" where
  "intField name = \<lparr>f_name = name, f_arguments = [], f_type = NamedType ''Int'', f_directives = []\<rparr>"

definition stringField :: "string \<Rightarrow> field_def" where
  "stringField name = \<lparr>f_name = name, f_arguments = [], f_type = NamedType ''String'', f_directives = []\<rparr>"

definition temporalType :: "kind \<Rightarrow> string \<Rightarrow> field_def list \<Rightarrow> ast_node" where
  "temporalType k name flds =
     Definition \<lparr>t_kind = k, t_name = name, t_fields = flds, t_directives = [], t_values = []\<rparr>"

definition timeFields :: "field_def list" where
  "timeFields = map intField [''hour'', ''minute'', ''second'', ''millisecond'', ''microsecond'',
     ''nanosecond'']"

definition timeInputFields :: "field_def list" where
  "timeInputFields = map intField [''hour'', ''minute'', ''second'', ''nanosecond'', ''millisecond'',
     ''microsecond'']"

definition dateFields :: "field_def list" where
  "dateFields = map intField [''year'', ''month'', ''day'']"

definition addTemporalPair :: "bool \<Rightarrow> string \<Rightarrow> field_def list \<Rightarrow> field_def list \<Rightarrow> type_map \<Rightarrow> type_map" where
  "addTemporalPair enabled name flds inputFields typeMap =
     (if enabled
      then setType (setType typeMap name (temporalType ObjectTypeDefinition name flds))
             (name @ ''Input'') (temporalType InputObjectTypeDefinition (name @ ''Input'') inputFields)
      else typeMap)"

definition temporalTypes :: "type_map \<Rightarrow> temporal_config \<Rightarrow> type_map" where
  "temporalTypes typeMap types =
     (let tz = [stringField ''timezone'', stringField ''formatted''];
          fm = [stringField ''formatted''];
          typeMap1 = addTemporalPair (tc_time types) ''_Neo4jTime''
                       (timeFields @ tz) (timeInputFields @ tz) typeMap;
          typeMap2 = addTemporalPair (tc_date types) ''_Neo4jDate''
                       (dateFields @ fm) (dateFields @ fm) typeMap1;
          typeMap3 = addTemporalPair (tc_datetime types) ''_Neo4jDateTime''
                       (dateFields @ timeFields @ tz) (dateFields @ timeFields @ tz) typeMap2;
          typeMap4 = addTemporalPair (tc_localtime types) ''_Neo4jLocalTime''
                       (timeFields @ fm) (timeFields @ fm) typeMap3;
          typeMap5 = addTemporalPair (tc_localdatetime types) ''_Neo4jLocalDateTime''
                       (dateFields @ timeFields @ fm) (dateFields @ timeFields @ fm) typeMap4
      in typeMap5)"

text \<open>
  \<open>transformTemporalTypeName (type, config, isArgument)\<close>: on a wrapper layer the source
  calls itself with two arguments only, so \<open>isArgument\<close> is \<open>undefined\<close> below a wrapper.
\<close>

definition temporalName :: "string \<Rightarrow> bool \<Rightarrow> string" where
  "temporalName name isArgument = name @ (if isArgument then ''Input'' else [])"

fun transformTemporalTypeName :: "gtype \<Rightarrow> temporal_config \<Rightarrow> bool \<Rightarrow> gtype" where
  "transformTemporalTypeName (ListType t) cfg isArgument =
     ListType (transformTemporalTypeName t cfg False)"
| "transformTemporalTypeName (NonNullType t) cfg isArgument =
     NonNullType (transformTemporalTypeName t cfg False)"
| "transformTemporalTypeName (NamedType n) cfg isArgument =
     (if n = ''Time'' then
        (if tc_time cfg then NamedType (temporalName ''_Neo4jTime'' isArgument) else NamedType n)
      else if n = ''Date'' then
        (if tc_date cfg then NamedType (temporalName ''_Neo4jDate'' isArgument) else NamedType n)
      else if n = ''DateTime'' then
        (if tc_datetime cfg then NamedType (temporalName ''_Neo4jDateTime'' isArgument)
         else NamedType n)
      else if n = ''LocalTime'' then
        (if tc_localtime cfg then NamedType (temporalName ''_Neo4jLocalTime'' isArgument)
         else NamedType n)
      else if n = ''LocalDateTime'' then
        (if tc_localdatetime cfg then NamedType (temporalName ''_Neo4jLocalDateTime'' isArgument)
         else NamedType n)
      else NamedType n)"

definition transformTemporalFieldArgs :: "field_def \<Rightarrow> temporal_config \<Rightarrow> field_def" where
  "transformTemporalFieldArgs field cfg =
     field\<lparr>f_arguments :=
       map (\<lambda>arg. arg\<lparr>iv_type := transformTemporalTypeName (iv_type arg) cfg True\<rparr>)
         (f_arguments field)\<rparr>"

definition transformTemporalField :: "temporal_config \<Rightarrow> field_def \<Rightarrow> field_def" where
  "transformTemporalField cfg field =
     transformTemporalFieldArgs
       (field\<lparr>f_type := transformTemporalTypeName (f_type field) cfg False\<rparr>) cfg"

definition transformTemporalEntry :: "temporal_config \<Rightarrow> string \<times> ast_node \<Rightarrow> string \<times> ast_node" where
  "transformTemporalEntry cfg entry =
     (case entry of
        (t, Definition d) \<Rightarrow>
          (if t_kind d = ObjectTypeDefinition \<and> \<not> isTemporalType t
           then (t, Definition (d\<lparr>t_fields := map (transformTemporalField cfg) (t_fields d)\<rparr>))
           else (t, Definition d))
      | (t, Document ds) \<Rightarrow> (t, Document ds))"

definition transformTemporalFields :: "type_map \<Rightarrow> temporal_config \<Rightarrow> type_map" where
  "transformTemporalFields typeMap cfg = map (transformTemporalEntry cfg) typeMap"

definition addTemporalTypes :: "type_map \<Rightarrow> config \<Rightarrow> type_map" where
  "addTemporalTypes typeMap cfg =
     (let types = decideTemporalConfig cfg
      in transformTemporalFields (temporalTypes typeMap types) types)"

section \<open>Arguments of list-returning fields\<close>

definition possiblyAddArgument :: "input_value list \<Rightarrow> string \<Rightarrow> string \<Rightarrow> input_value list" where
  "possiblyAddArgument args fieldName fieldType =
     (if findIndex (\<lambda>e. iv_name e = fieldName) args = None
      then args @ [\<lparr>iv_name = fieldName, iv_type = NamedType fieldType, iv_directives = []\<rparr>]
      else args)"

text \<open>
  \<open>possiblyAddOrderingArgument (args, fieldName)\<close> is called with the name of the value
  type; the source looks for an argument of that name and pushes \<open>orderBy\<close>.
\<close>

definition possiblyAddOrderingArgument :: "input_value list \<Rightarrow> string \<Rightarrow> input_value list" where
  "possiblyAddOrderingArgument args fieldName =
     (if findIndex (\<lambda>e. iv_name e = fieldName) args = None
      then args @ [\<lparr>iv_name = ''orderBy'',
                     iv_type = ListType (NamedType (''_'' @ fieldName @ ''Ordering'')),
                     iv_directives = []\<rparr>]
      else args)"

definition addListAndFilterArguments :: "field_def \<Rightarrow> string \<Rightarrow> field_def" where
  "addListAndFilterArguments field valueTypeName =
     (let args = f_arguments field;
          args1 = (if isListType (f_type field)
                   then possiblyAddOrderingArgument
                          (possiblyAddArgument (possiblyAddArgument args ''first'' ''Int'')
                             ''offset'' ''Int'') valueTypeName
                   else args);
          args2 = (if getFieldDirective field ''cypher'' = None
                   then possiblyAddArgument args1 ''filter'' (''_'' @ valueTypeName @ ''Filter'')
                   else args1)
      in field\<lparr>f_arguments := args2\<rparr>)"

section \<open>Augmenting one type\<close>

definition nodeIdField :: field_def where
  "nodeIdField = \<lparr>f_name = ''_id'', f_arguments = [], f_type = NamedType ''String'',
                  f_directives = []\<rparr>"

definition addOrReplaceNodeIdField :: "type_def \<Rightarrow> field_def list" where
  "addOrReplaceNodeIdField astNode =
     (let flds = t_fields astNode
      in case findIndex (\<lambda>e. f_name e = ''_id'') flds of
           Some index \<Rightarrow> (if fieldIsNotIgnored (flds ! index) then flds[index := nodeIdField]
                           else flds)
         | None \<Rightarrow> flds @ [nodeIdField])"

definition possiblyAddTypeFieldArguments :: "type_def \<Rightarrow> type_map \<Rightarrow> config \<Rightarrow> field_def list" where
  "possiblyAddTypeFieldArguments astNode typeMap cfg =
     map (\<lambda>field.
            (let relationTypeName = getNamedType (f_type field);
                 relationType = getType typeMap relationTypeName
             in if fieldIsNotIgnored field
                   \<and> shouldAugmentType cfg QueryOperation relationTypeName
                   \<and> isNodeType relationType
                   \<and> (getFieldDirective field ''relation'' \<noteq> None
                        \<or> getFieldDirective field ''cypher'' \<noteq> None)
                then addListAndFilterArguments field relationTypeName
                else field))
         (t_fields astNode)"

fun augmentType :: "ast_node \<Rightarrow> type_map \<Rightarrow> config \<Rightarrow> ast_node" where
  "augmentType (Definition astNode) typeMap cfg =
     (if isNodeType (Some (Definition astNode)) then
        (let astNode1 = (if shouldAugmentType cfg QueryOperation (t_name astNode)
                         then astNode\<lparr>t_fields := addOrReplaceNodeIdField astNode\<rparr>
                         else astNode)
         in Definition (astNode1\<lparr>t_fields := possiblyAddTypeFieldArguments astNode1 typeMap cfg\<rparr>))
      else Definition astNode)"
| "augmentType (Document ds) typeMap cfg = Document ds"

text \<open>
  \<open>typeMap[root].fields.push (field)\<close>: a \<open>TypeError\<close> when the root type is missing or
  has no field list.
\<close>

definition pushRootField :: "type_map \<Rightarrow> string \<Rightarrow> field_def \<Rightarrow> error + type_map" where
  "pushRootField typeMap root field =
     (case getType typeMap root of
        Some (Definition d) \<Rightarrow>
          Inr (setType typeMap root (Definition (d\<lparr>t_fields := t_fields d @ [field]\<rparr>)))
      | _ \<Rightarrow> Inl (TypeError ''fields''))"

definition authDirectives :: "config \<Rightarrow> string \<Rightarrow> string \<Rightarrow> string \<Rightarrow> string option \<Rightarrow> directive list" where
  "authDirectives cfg entityType operationType typeName relatedTypeName =
     (case possiblyAddScopeDirective cfg entityType operationType typeName relatedTypeName of
        None \<Rightarrow> []
      | Some d \<Rightarrow> [d])"

definition createQueryArguments :: "type_def \<Rightarrow> type_map \<Rightarrow> input_value list" where
  "createQueryArguments astNode typeMap =
     concat (map (\<lambda>t.
       (if fieldIsNotIgnored t then
          (let valueTypeName = getNamedType (f_type t);
               valueType = getType typeMap valueTypeName
           in if isBasicScalar valueTypeName \<or> isKind valueType EnumTypeDefinition
                 \<or> isKind valueType ScalarTypeDefinition
              then [\<lparr>iv_name = f_name t, iv_type = NamedType valueTypeName, iv_directives = []\<rparr>]
              else if isTemporalType valueTypeName
              then [\<lparr>iv_name = f_name t, iv_type = NamedType (valueTypeName @ ''Input''),
                     iv_directives = []\<rparr>]
              else [])
        else [])) (t_fields astNode))"

text \<open>Every stage reads \<open>astNode.name.value\<close> first: a document has no name.\<close>

fun possiblyAddQuery :: "ast_node \<Rightarrow> type_map \<Rightarrow> config \<Rightarrow> error + type_map" where
  "possiblyAddQuery (Document ds) typeMap cfg = Inl (TypeError ''value'')"
| "possiblyAddQuery (Definition astNode) typeMap cfg =
     (let typeName = t_name astNode;
          queryMap = createOperationMap (getType typeMap ''Query'')
      in if isNodeType (Some (Definition astNode)) \<and> shouldAugmentType cfg QueryOperation typeName
         then (if map_of queryMap typeName = None
               then pushRootField typeMap ''Query''
                      \<lparr>f_name = typeName,
                       f_arguments = createQueryArguments astNode typeMap,
                       f_type = ListType (NamedType typeName),
                       f_directives = authDirectives cfg ''node'' ''Read'' typeName None\<rparr>
               else Inr typeMap)
         else Inr typeMap)"

definition createOrderingFields :: "type_def \<Rightarrow> type_map \<Rightarrow> string list" where
  "createOrderingFields astNode typeMap =
     concat (map (\<lambda>field.
       (let valueTypeName = getNamedType (f_type field);
            valueType = getType typeMap valueTypeName
        in if \<not> isListType (f_type field) \<and> fieldIsNotIgnored field
              \<and> (isBasicScalar valueTypeName \<or> isKind valueType EnumTypeDefinition
                   \<or> isTemporalType valueTypeName)
           then [f_name field @ ''_asc'', f_name field @ ''_desc'']
           else [])) (t_fields astNode))"

fun possiblyAddOrderingEnum :: "ast_node \<Rightarrow> type_map \<Rightarrow> config \<Rightarrow> error + type_map" where
  "possiblyAddOrderingEnum (Document ds) typeMap cfg = Inl (TypeError ''value'')"
| "possiblyAddOrderingEnum (Definition astNode) typeMap cfg =
     (let typeName = t_name astNode
      in if isNodeType (Some (Definition astNode)) \<and> shouldAugmentType cfg QueryOperation typeName
         then (let name = ''_'' @ typeName @ ''Ordering'';
                   values = createOrderingFields astNode typeMap
               in if getType typeMap name = None \<and> values \<noteq> []
                  then Inr (setType typeMap name
                         (Definition \<lparr>t_kind = EnumTypeDefinition, t_name = name, t_fields = [],
                            t_directives = [], t_values = values\<rparr>))
                  else Inr typeMap)
         else Inr typeMap)"

section \<open>Input types\<close>

definition decideFieldType :: "string \<Rightarrow> string" where
  "decideFieldType name = (if isTemporalType name then name @ ''Input'' else name)"

text \<open>
  \<open>transformManagedFieldTypes\<close> rewrites the printed text of an argument; the model
  applies it to the named leaf type of the argument, where the names of the structured
  temporal types stand.
\<close>

definition transformManagedName :: "string \<Rightarrow> string" where
  "transformManagedName name = (if isTemporalType name then name @ ''Input'' else name)"

fun transformManagedType :: "gtype \<Rightarrow> gtype" where
  "transformManagedType (NamedType n) = NamedType (transformManagedName n)"
| "transformManagedType (ListType t) = ListType (transformManagedType t)"
| "transformManagedType (NonNullType t) = NonNullType (transformManagedType t)"

definition transformManagedFieldTypes :: "input_value list \<Rightarrow> input_value list" where
  "transformManagedFieldTypes flds =
     map (\<lambda>field. field\<lparr>iv_type := transformManagedType (iv_type field)\<rparr>) flds"

text \<open>
  The property fields a mutation or a relationship input takes: basic scalars, enums,
  custom scalars and temporal types.
\<close>

definition isInputValueType :: "type_map \<Rightarrow> string \<Rightarrow> bool" where
  "isInputValueType typeMap valueTypeName =
     (isBasicScalar valueTypeName
      \<or> isKind (getType typeMap valueTypeName) EnumTypeDefinition
      \<or> isKind (getType typeMap valueTypeName) ScalarTypeDefinition
      \<or> isTemporalType valueTypeName)"

definition buildRelationTypeInputFields :: "field_def list \<Rightarrow> type_map \<Rightarrow> input_value list" where
  "buildRelationTypeInputFields flds typeMap =
     transformManagedFieldTypes
       (concat (map (\<lambda>t.
          (if fieldIsNotIgnored t \<and> isNotSystemField (f_name t)
              \<and> getFieldDirective t ''cypher'' = None
              \<and> isInputValueType typeMap (getNamedType (f_type t))
           then [\<lparr>iv_name = f_name t, iv_type = f_type t, iv_directives = []\<rparr>]
           else [])) flds))"

text \<open>
  \<open>parse\<close> of the text of one input or object type: the document of that definition.  A
  type with no field between its braces is refused by the parser.
\<close>

definition inputValueField :: "input_value \<Rightarrow> field_def" where
  "inputValueField v = \<lparr>f_name = iv_name v, f_arguments = [], f_type = iv_type v,
                        f_directives = iv_directives v\<rparr>"

definition parseTypeDefinition :: "kind \<Rightarrow> string \<Rightarrow> directive list \<Rightarrow> field_def list \<Rightarrow> error + ast_node" where
  "parseTypeDefinition k name directives flds =
     (if flds = [] then Inl (SyntaxError name)
      else Inr (Document [\<lparr>t_kind = k, t_name = name, t_fields = flds,
                           t_directives = directives, t_values = []\<rparr>]))"

definition hasSomePropertyField :: "type_def \<Rightarrow> bool" where
  "hasSomePropertyField d =
     (find (\<lambda>e. f_name e \<noteq> ''from'' \<and> f_name e \<noteq> ''to'') (t_fields d) \<noteq> None)"

fun possiblyAddTypeInput :: "ast_node \<Rightarrow> type_map \<Rightarrow> config \<Rightarrow> error + type_map" where
  "possiblyAddTypeInput (Document ds) typeMap cfg = Inl (TypeError ''value'')"
| "possiblyAddTypeInput (Definition astNode) typeMap cfg =
     (let typeName = t_name astNode
      in if shouldAugmentType cfg MutationOperation typeName then
           (let inputName = ''_'' @ typeName @ ''Input''
            in if isNodeType (Some (Definition astNode)) then
                 (if getType typeMap inputName = None then
                    (case getPrimaryKey astNode of
                       Some pk \<Rightarrow>
                         bindE (parseTypeDefinition InputObjectTypeDefinition inputName []
                                  [\<lparr>f_name = f_name pk, f_arguments = [],
                                    f_type = NonNullType (NamedType
                                      (decideFieldType (getNamedType (f_type pk)))),
                                    f_directives = []\<rparr>])
                           (\<lambda>node. Inr (setType typeMap inputName node))
                     | None \<Rightarrow> Inr typeMap)
                  else Inr typeMap)
               else if getTypeDirective (Definition astNode) ''relation'' \<noteq> None then
                 (if getType typeMap inputName = None then
                    (case findField (t_fields astNode) ''from'' of
                       None \<Rightarrow> Inl (TypeError ''kind'')
                     | Some fromField \<Rightarrow>
                         (case findField (t_fields astNode) ''to'' of
                            None \<Rightarrow> Inl (TypeError ''kind'')
                          | Some toField \<Rightarrow>
                              (if hasSomePropertyField astNode
                                  \<and> shouldAugmentRelationField cfg MutationOperation
                                       (getNamedType (f_type fromField))
                                       (getNamedType (f_type toField))
                               then bindE (parseTypeDefinition InputObjectTypeDefinition inputName []
                                             (map inputValueField
                                                (buildRelationTypeInputFields (t_fields astNode) typeMap)))
                                      (\<lambda>node. Inr (setType typeMap inputName node))
                               else Inr typeMap)))
                  else Inr typeMap)
               else Inr typeMap)
         else Inr typeMap)"

section \<open>Filter input types\<close>

definition filterField :: "string \<Rightarrow> gtype \<Rightarrow> field_def" where
  "filterField name type = \<lparr>f_name = name, f_arguments = [], f_type = type, f_directives = []\<rparr>"

definition filterGroup :: "string \<Rightarrow> string \<Rightarrow> (string \<times> bool) list \<Rightarrow> field_def list" where
  "filterGroup fieldName typeName operators =
     map (\<lambda>(suffix, isList).
            filterField (fieldName @ suffix)
              (if isList then ListType (NonNullType (NamedType typeName)) else NamedType typeName))
         operators"

definition fieldFilters :: "field_def \<Rightarrow> type_map \<Rightarrow> config \<Rightarrow> field_def list" where
  "fieldFilters t typeMap cfg =
     (let fieldName = f_name t;
          valueTypeName = getNamedType (f_type t);
          isList = isListType (f_type t);
          valueType = getType typeMap valueTypeName;
          equality = [([], False), (''_not'', False), (''_in'', True), (''_not_in'', True)]
      in if \<not> isList then
           (if valueTypeName = ''ID'' \<or> valueTypeName = ''String'' then
              filterGroup fieldName valueTypeName
                (equality @ [(''_contains'', False), (''_not_contains'', False),
                   (''_starts_with'', False), (''_not_starts_with'', False),
                   (''_ends_with'', False), (''_not_ends_with'', False)])
            else if valueTypeName = ''Int'' \<or> valueTypeName = ''Float'' then
              filterGroup fieldName valueTypeName
                (equality @ [(''_lt'', False), (''_lte'', False), (''_gt'', False), (''_gte'', False)])
            else if valueTypeName = ''Boolean'' then
              filterGroup fieldName valueTypeName [([], False), (''_not'', False)]
            else if isKind valueType EnumTypeDefinition then
              filterGroup fieldName valueTypeName equality
            else if isKind valueType ObjectTypeDefinition
                    \<and> getFieldDirective t ''relation'' \<noteq> None
                    \<and> shouldAugmentType cfg QueryOperation valueTypeName then
              filterGroup fieldName (''_'' @ valueTypeName @ ''Filter'') equality
            else [])
         else if isKind valueType ObjectTypeDefinition
                 \<and> getFieldDirective t ''relation'' \<noteq> None
                 \<and> shouldAugmentType cfg QueryOperation valueTypeName then
           filterGroup fieldName (''_'' @ valueTypeName @ ''Filter'')
             (equality @ [(''_some'', False), (''_none'', False), (''_single'', False),
                (''_every'', False)])
         else [])"

definition buildFilterFields :: "string \<Rightarrow> type_def \<Rightarrow> type_map \<Rightarrow> config \<Rightarrow> field_def list" where
  "buildFilterFields filterType astNode typeMap cfg =
     [filterField ''AND'' (ListType (NamedType filterType)),
      filterField ''OR'' (ListType (NamedType filterType))]
     @ concat (map (\<lambda>t.
         (if fieldIsNotIgnored t \<and> isNotSystemField (f_name t)
             \<and> getFieldDirective t ''cypher'' = None
          then fieldFilters t typeMap cfg else [])) (t_fields astNode))"

fun possiblyAddFilterInput :: "ast_node \<Rightarrow> type_map \<Rightarrow> config \<Rightarrow> error + type_map" where
  "possiblyAddFilterInput (Document ds) typeMap cfg = Inl (TypeError ''value'')"
| "possiblyAddFilterInput (Definition astNode) typeMap cfg =
     (let typeName = t_name astNode
      in if isNodeType (Some (Definition astNode)) \<and> shouldAugmentType cfg QueryOperation typeName
         then (let name = ''_'' @ typeName @ ''Filter'';
                   filterFields = buildFilterFields name astNode typeMap cfg
               in if getType typeMap name = None \<and> filterFields \<noteq> []
                  then bindE (parseTypeDefinition InputObjectTypeDefinition name [] filterFields)
                         (\<lambda>node. Inr (setType typeMap name node))
                  else Inr typeMap)
         else Inr typeMap)"

section \<open>Node mutations\<close>

text \<open>
  \<open>buildInputValueDefinitions\<close> (utils.js) parses the printed arguments back; the model
  keeps each argument as name, type and directives.
\<close>

definition isMutationArgumentField :: "type_map \<Rightarrow> field_def \<Rightarrow> bool" where
  "isMutationArgumentField typeMap t =
     (isNotSystemField (f_name t) \<and> getFieldDirective t ''cypher'' = None
      \<and> isInputValueType typeMap (getNamedType (f_type t)))"

fun createMutationFields :: "type_map \<Rightarrow> bool \<Rightarrow> field_def list \<Rightarrow> input_value list" where
  "createMutationFields typeMap firstIdField [] = []"
| "createMutationFields typeMap firstIdField (t # ts) =
     (if fieldIsNotIgnored t \<and> isMutationArgumentField typeMap t then
        (if isNonNullType (f_type t) \<and> \<not> isListType (f_type t)
            \<and> getNamedType (f_type t) = ''ID'' \<and> \<not> firstIdField
         then \<lparr>iv_name = f_name t, iv_type = NamedType (getNamedType (f_type t)),
                iv_directives = []\<rparr> # createMutationFields typeMap True ts
         else \<lparr>iv_name = f_name t, iv_type = f_type t, iv_directives = f_directives t\<rparr>
                # createMutationFields typeMap firstIdField ts)
      else createMutationFields typeMap firstIdField ts)"

definition buildCreateMutationArguments :: "type_def \<Rightarrow> type_map \<Rightarrow> input_value list" where
  "buildCreateMutationArguments astNode typeMap =
     transformManagedFieldTypes (createMutationFields typeMap False (t_fields astNode))"

definition stripNonNull :: "gtype \<Rightarrow> gtype" where
  "stripNonNull type = (case type of NonNullType t \<Rightarrow> t | _ \<Rightarrow> type)"

definition buildUpdateMutationArguments :: "field_def \<Rightarrow> type_def \<Rightarrow> type_map \<Rightarrow> input_value list" where
  "buildUpdateMutationArguments primaryKey astNode typeMap =
     (let primaryKeyName = f_name primaryKey;
          parsedPrimaryKeyField =
            \<lparr>iv_name = primaryKeyName,
             iv_type = NonNullType (NamedType (getNamedType (f_type primaryKey))),
             iv_directives = []\<rparr>;
          mutationArgs =
            concat (map (\<lambda>t.
              (if fieldIsNotIgnored t \<and> f_name t \<noteq> primaryKeyName
                  \<and> isMutationArgumentField typeMap t
               then [\<lparr>iv_name = f_name t, iv_type = stripNonNull (f_type t), iv_directives = []\<rparr>]
               else [])) (t_fields astNode))
      in if mutationArgs \<noteq> []
         then transformManagedFieldTypes (parsedPrimaryKeyField # mutationArgs)
         else mutationArgs)"

definition buildDeleteMutationArguments :: "field_def \<Rightarrow> input_value list" where
  "buildDeleteMutationArguments primaryKey =
     transformManagedFieldTypes
       [\<lparr>iv_name = f_name primaryKey,
         iv_type = NonNullType (NamedType (getNamedType (f_type primaryKey))),
         iv_directives = []\<rparr>]"

text \<open>
  \<open>buildMutationArguments\<close> is a \<open>switch\<close> whose \<open>Update\<close> case falls through to the
  \<open>Delete\<close> case when there is no primary key, and the function ends without a \<open>return\<close>
  after it: the result is \<open>undefined\<close> (\<open>None\<close>) then.
\<close>

datatype mutation_type = Create | Update | Delete

definition mutationTypeName :: "mutation_type \<Rightarrow> string" where
  "mutationTypeName m = (case m of Create \<Rightarrow> ''Create'' | Update \<Rightarrow> ''Update'' | Delete \<Rightarrow> ''Delete'')"

definition buildMutationArguments :: "mutation_type \<Rightarrow> type_def \<Rightarrow> type_map \<Rightarrow> input_value list option" where
  "buildMutationArguments mutationType astNode typeMap =
     (let primaryKey = getPrimaryKey astNode
      in case mutationType of
           Create \<Rightarrow> Some (buildCreateMutationArguments astNode typeMap)
         | Update \<Rightarrow>
             (case primaryKey of
                Some pk \<Rightarrow> Some (buildUpdateMutationArguments pk astNode typeMap)
              | None \<Rightarrow> None)
         | Delete \<Rightarrow>
             (case primaryKey of
                Some pk \<Rightarrow> Some (buildDeleteMutationArguments pk)
              | None \<Rightarrow> None))"

definition possiblyAddTypeMutation ::
  "mutation_type \<Rightarrow> type_def \<Rightarrow> type_map \<Rightarrow> (string \<times> field_def) list \<Rightarrow> config \<Rightarrow> error + type_map" where
  "possiblyAddTypeMutation mutationType astNode typeMap mutationMap cfg =
     (let typeName = t_name astNode;
          mutationName = mutationTypeName mutationType @ typeName
      in if map_of mutationMap mutationName = None then
           (case buildMutationArguments mutationType astNode typeMap of
              None \<Rightarrow> Inl (TypeError ''length'')
            | Some args \<Rightarrow>
                (if args \<noteq> []
                 then pushRootField typeMap ''Mutation''
                        \<lparr>f_name = mutationName, f_arguments = args, f_type = NamedType typeName,
                         f_directives = authDirectives cfg ''node''
                                          (mutationTypeName mutationType) typeName None\<rparr>
                 else Inr typeMap))
         else Inr typeMap)"

fun possiblyAddTypeMutations :: "ast_node \<Rightarrow> type_map \<Rightarrow> config \<Rightarrow> error + type_map" where
  "possiblyAddTypeMutations (Document ds) typeMap cfg = Inl (TypeError ''value'')"
| "possiblyAddTypeMutations (Definition astNode) typeMap cfg =
     (let typeName = t_name astNode
      in if shouldAugmentType cfg MutationOperation typeName then
           (let mutationMap = createOperationMap (getType typeMap ''Mutation'')
            in if isNodeType (Some (Definition astNode))
                  \<and> shouldAugmentType cfg MutationOperation typeName
               then bindE (possiblyAddTypeMutation Create astNode typeMap mutationMap cfg)
                      (\<lambda>typeMap1.
                    bindE (possiblyAddTypeMutation Update astNode typeMap1 mutationMap cfg)
                      (\<lambda>typeMap2.
                    possiblyAddTypeMutation Delete astNode typeMap2 mutationMap cfg))
               else Inr typeMap)
         else Inr typeMap)"

section \<open>Relationship fields\<close>

definition capitalize :: "string \<Rightarrow> string" where
  "capitalize name = (case name of [] \<Rightarrow> [] | c # cs \<Rightarrow> toUpperCaseChar c # cs)"

definition namedInput :: "string \<Rightarrow> gtype \<Rightarrow> input_value" where
  "namedInput name type = \<lparr>iv_name = name, iv_type = type, iv_directives = []\<rparr>"

definition mutationMetaDirective :: "string \<Rightarrow> string \<Rightarrow> string \<Rightarrow> directive" where
  "mutationMetaDirective relationName fromName toName =
     \<lparr>d_name = ''MutationMeta'',
      d_arguments = [(''relationship'', relationName), (''from'', fromName), (''to'', toName)]\<rparr>"

text \<open>
  Modelled from the spec: \<open>getRelationMutationPayloadFieldsFromAst\<close> (utils.js) gives
  the property fields of the relationship, that is its fields other than \<open>from\<close> and
  \<open>to\<close>.
\<close>

definition getRelationMutationPayloadFieldsFromAst :: "type_def \<Rightarrow> field_def list" where
  "getRelationMutationPayloadFieldsFromAst relatedAstNode =
     filter (\<lambda>e. f_name e \<noteq> ''to'' \<and> f_name e \<noteq> ''from'') (t_fields relatedAstNode)"

definition plainField :: "string \<Rightarrow> gtype \<Rightarrow> field_def" where
  "plainField name type = \<lparr>f_name = name, f_arguments = [], f_type = type, f_directives = []\<rparr>"

text \<open>
  One round of the \<open>forEach\<close> over \<open>['Add', 'Remove']\<close>.  \<open>parseFieldSdl\<close> (utils.js)
  parses the text of the mutation field; the model builds the field the text denotes.
\<close>

definition relationMutationField ::
  "string \<Rightarrow> string \<Rightarrow> string \<Rightarrow> string \<Rightarrow> string \<Rightarrow> type_def \<Rightarrow> bool \<Rightarrow> directive list \<Rightarrow> field_def" where
  "relationMutationField mutationName payloadTypeName fromName toName relationName relatedAstNode
       shouldUseRelationDataArgument auth =
     \<lparr>f_name = mutationName,
      f_arguments =
        [namedInput ''from'' (NonNullType (NamedType (''_'' @ fromName @ ''Input''))),
         namedInput ''to'' (NonNullType (NamedType (''_'' @ toName @ ''Input'')))]
        @ (if shouldUseRelationDataArgument
           then [namedInput ''data''
                   (NonNullType (NamedType (''_'' @ t_name relatedAstNode @ ''Input'')))]
           else []),
      f_type = NamedType payloadTypeName,
      f_directives = mutationMetaDirective relationName fromName toName # auth\<rparr>"

definition addRelationMutation ::
  "string \<Rightarrow> string \<Rightarrow> string \<Rightarrow> string \<Rightarrow> string \<Rightarrow> (string \<times> field_def) list \<Rightarrow> string
     \<Rightarrow> type_def \<Rightarrow> bool \<Rightarrow> config \<Rightarrow> type_map \<Rightarrow> error + type_map" where
  "addRelationMutation action typeName capitalizedFieldName fromName toName mutationMap relationName
       relatedAstNode relationHasProps cfg typeMap =
     (let mutationName = action @ typeName @ capitalizedFieldName
      in if map_of mutationMap mutationName = None then
           (let payloadTypeName = ''_'' @ mutationName @ ''Payload'';
                shouldUseRelationDataArgument =
                  (relationHasProps \<and> hasSomePropertyField relatedAstNode \<and> action = ''Add'');
                auth = authDirectives cfg ''relation'' action typeName (Some toName)
            in bindE (pushRootField typeMap ''Mutation''
                        (relationMutationField mutationName payloadTypeName fromName toName
                           relationName relatedAstNode shouldUseRelationDataArgument auth))
                 (\<lambda>typeMap1.
                    if getType typeMap1 payloadTypeName = None then
                      bindE (parseTypeDefinition ObjectTypeDefinition payloadTypeName
                               [relationDirective relationName fromName toName]
                               ([plainField ''from'' (NamedType fromName),
                                 plainField ''to'' (NamedType toName)]
                                @ (if shouldUseRelationDataArgument
                                   then getRelationMutationPayloadFieldsFromAst relatedAstNode
                                   else [])))
                        (\<lambda>node. Inr (setType typeMap1 payloadTypeName node))
                    else Inr typeMap1))
         else Inr typeMap)"

definition possiblyAddRelationMutationField ::
  "string \<Rightarrow> string \<Rightarrow> string \<Rightarrow> string \<Rightarrow> (string \<times> field_def) list \<Rightarrow> type_map \<Rightarrow> string
     \<Rightarrow> type_def \<Rightarrow> bool \<Rightarrow> config \<Rightarrow> error + type_map" where
  "possiblyAddRelationMutationField typeName capitalizedFieldName fromName toName mutationMap typeMap
       relationName relatedAstNode relationHasProps cfg =
     foldE (\<lambda>action. addRelationMutation action typeName capitalizedFieldName fromName toName
                        mutationMap relationName relatedAstNode relationHasProps cfg)
       [''Add'', ''Remove''] typeMap"

text \<open>
  \<open>validateRelationTypeDirectedFields\<close> builds its message from \<open>field\<close> and
  \<open>relatedAstNode\<close>, which are neither parameters nor variables of the module: evaluating
  the message raises a \<open>ReferenceError\<close> for \<open>field\<close>.
\<close>

definition validateRelationTypeDirectedFields :: "string \<Rightarrow> string \<Rightarrow> string \<Rightarrow> error + bool" where
  "validateRelationTypeDirectedFields typeName fromName toName =
     (if fromName \<noteq> toName \<and> toName \<noteq> typeName \<and> fromName \<noteq> typeName
      then Inl (ReferenceError ''field'')
      else Inr True)"

text \<open>
  \<open>getFieldArgumentsFromAst (field, typeName)\<close> is called without its third parameter,
  so it prints the arguments the field has.
\<close>

definition getFieldArgumentsFromAst :: "field_def \<Rightarrow> string \<Rightarrow> input_value list" where
  "getFieldArgumentsFromAst field typeName = f_arguments field"

text \<open>
  The last \<open>from\<close> and the last \<open>to\<close> field of the relationship type give \<open>fromValue\<close>
  and \<open>toValue\<close>; a missing one is \<open>undefined\<close>.
\<close>

definition lastFieldType :: "field_def list \<Rightarrow> string \<Rightarrow> string option" where
  "lastFieldType flds name =
     (case findField (rev flds) name of None \<Rightarrow> None | Some t \<Rightarrow> Some (getNamedType (f_type t)))"

definition printName :: "string option \<Rightarrow> string" where
  "printName v = (case v of None \<Rightarrow> ''undefined'' | Some n \<Rightarrow> n)"

definition wrapList :: "bool \<Rightarrow> gtype \<Rightarrow> gtype" where
  "wrapList isList type = (if isList then ListType type else type)"

definition possiblyAddRelationTypeFieldPayload ::
  "type_def \<Rightarrow> string \<Rightarrow> string \<Rightarrow> type_map \<Rightarrow> field_def \<Rightarrow> error + (type_map \<times> field_def)" where
  "possiblyAddRelationTypeFieldPayload relationAstNode capitalizedFieldName typeName typeMap field =
     (let fieldTypeName = ''_'' @ typeName @ capitalizedFieldName
      in if getType typeMap fieldTypeName = None then
           (if findDirective (t_directives relationAstNode) ''relation'' \<noteq> None then
              (let flds = t_fields relationAstNode;
                   fromValue = lastFieldType flds ''from'';
                   toValue = lastFieldType flds ''to'';
                   relationTypePayloadFields =
                     filter (\<lambda>t. f_name t \<noteq> ''from'' \<and> f_name t \<noteq> ''to'') flds
               in if fromValue \<noteq> None \<and> fromValue \<noteq> Some [] \<and> fromValue = toValue then
                    (let fieldIsList = isListType (f_type field);
                         fieldArgs = getFieldArgumentsFromAst field typeName
                     in bindE (parseTypeDefinition ObjectTypeDefinition (fieldTypeName @ ''Directions'')
                                 (t_directives relationAstNode)
                                 [\<lparr>f_name = ''from'', f_arguments = fieldArgs,
                                   f_type = wrapList fieldIsList (NamedType fieldTypeName),
                                   f_directives = []\<rparr>,
                                  \<lparr>f_name = ''to'', f_arguments = fieldArgs,
                                   f_type = wrapList fieldIsList (NamedType fieldTypeName),
                                   f_directives = []\<rparr>])
                          (\<lambda>directions.
                        bindE (parseTypeDefinition ObjectTypeDefinition fieldTypeName
                                 (t_directives relationAstNode)
                                 (relationTypePayloadFields
                                  @ [plainField (printName fromValue) (NamedType (printName fromValue))]))
                          (\<lambda>payload.
                        Inr (setType (setType typeMap (fieldTypeName @ ''Directions'') directions)
                               fieldTypeName payload,
                             field\<lparr>f_arguments := []\<rparr>))))
                  else
                    bindE (parseTypeDefinition ObjectTypeDefinition fieldTypeName
                             (t_directives relationAstNode)
                             (relationTypePayloadFields
                              @ (if Some typeName = toValue
                                 then [plainField (printName fromValue) (NamedType (printName fromValue))]
                                 else if Some typeName = fromValue
                                 then [plainField (printName toValue) (NamedType (printName toValue))]
                                 else [])))
                      (\<lambda>payload. Inr (setType typeMap fieldTypeName payload, field)))
            else Inr (typeMap, field))
         else Inr (typeMap, field))"

definition replaceRelationTypeValue :: "string \<Rightarrow> string \<Rightarrow> field_def \<Rightarrow> string \<Rightarrow> string \<Rightarrow> field_def" where
  "replaceRelationTypeValue fromName toName field capitalizedFieldName typeName =
     (let isList = isListType (f_type field);
          type = NamedType (''_'' @ typeName @ capitalizedFieldName
                            @ (if fromName = toName then ''Directions'' else []))
      in field\<lparr>f_type := (if isList \<and> fromName \<noteq> toName then ListType type else type)\<rparr>)"

text \<open>
  The arguments of the relation directive are read with \<open>find (...).value.value\<close>: a
  missing argument is a \<open>TypeError\<close>.
\<close>

definition directiveArgument :: "directive \<Rightarrow> string \<Rightarrow> error + string" where
  "directiveArgument d name =
     (case find (\<lambda>e. fst e = name) (d_arguments d) of
        None \<Rightarrow> Inl (TypeError ''value'')
      | Some a \<Rightarrow> Inr (snd a))"

definition handleRelationTypeDirective ::
  "type_def \<Rightarrow> string \<Rightarrow> field_def list \<Rightarrow> nat \<Rightarrow> string \<Rightarrow> directive \<Rightarrow> config \<Rightarrow> type_map
     \<Rightarrow> (string \<times> field_def) list \<Rightarrow> error + (type_map \<times> field_def list)" where
  "handleRelationTypeDirective relatedAstNode typeName flds fieldIndex capitalizedFieldName
       relationTypeDirective cfg typeMap mutationMap =
     bindE (directiveArgument relationTypeDirective ''name'') (\<lambda>relationName.
     bindE (directiveArgument relationTypeDirective ''from'') (\<lambda>fromName.
     bindE (directiveArgument relationTypeDirective ''to'') (\<lambda>toName.
     bindE (if shouldAugmentRelationField cfg MutationOperation fromName toName
            then bindE (validateRelationTypeDirectedFields typeName fromName toName)
                   (\<lambda>valid. possiblyAddRelationMutationField typeName capitalizedFieldName
                               fromName toName mutationMap typeMap relationName relatedAstNode
                               True cfg)
            else Inr typeMap) (\<lambda>typeMap1.
     bindE (possiblyAddRelationTypeFieldPayload relatedAstNode capitalizedFieldName typeName
              typeMap1 (flds ! fieldIndex)) (\<lambda>(typeMap2, field).
     Inr (typeMap2,
          flds[fieldIndex := replaceRelationTypeValue fromName toName field
                               capitalizedFieldName typeName]))))))"

text \<open>
  Modelled from the spec: \<open>getRelationName\<close> and \<open>getRelationDirection\<close> (utils.js) read
  the \<open>name\<close> and \<open>direction\<close> arguments of a field's relation directive; the owner of
  the field is the \<open>from\<close> side unless the direction is inbound.
\<close>

definition getRelationName :: "directive \<Rightarrow> string" where
  "getRelationName d = printName (map_option snd (find (\<lambda>e. fst e = ''name'') (d_arguments d)))"

definition getRelationDirection :: "directive \<Rightarrow> string option" where
  "getRelationDirection d = map_option snd (find (\<lambda>e. fst e = ''direction'') (d_arguments d))"

definition handleRelationFieldDirective ::
  "type_def \<Rightarrow> string \<Rightarrow> string \<Rightarrow> string \<Rightarrow> directive \<Rightarrow> (string \<times> field_def) list \<Rightarrow> type_map
     \<Rightarrow> config \<Rightarrow> error + type_map" where
  "handleRelationFieldDirective relatedAstNode typeName capitalizedFieldName fieldValueName
       relationFieldDirective mutationMap typeMap cfg =
     (if shouldAugmentRelationField cfg MutationOperation typeName fieldValueName then
        (let relationName = getRelationName relationFieldDirective;
             direction = getRelationDirection relationFieldDirective;
             inbound = (direction = Some ''IN'' \<or> direction = Some ''in'');
             fromName = (if inbound then fieldValueName else typeName);
             toName = (if inbound then typeName else fieldValueName)
         in possiblyAddRelationMutationField typeName capitalizedFieldName fromName toName
              mutationMap typeMap relationName relatedAstNode False cfg)
      else Inr typeMap)"

text \<open>
  One round of the loop of \<open>handleRelationFields\<close> over the field indices.  The loop
  works on the field array of the type, which it updates in place.
\<close>

definition handleRelationField ::
  "string \<Rightarrow> (string \<times> field_def) list \<Rightarrow> config \<Rightarrow> nat \<Rightarrow> type_map \<times> field_def list
     \<Rightarrow> error + (type_map \<times> field_def list)" where
  "handleRelationField typeName mutationMap cfg fieldIndex state =
     (case state of (typeMap, flds) \<Rightarrow>
       (let field = flds ! fieldIndex
        in if fieldIsNotIgnored field then
             (let fieldValueName = getNamedType (f_type field);
                  capitalizedFieldName = capitalize (f_name field)
              in case getType typeMap fieldValueName of
                   None \<Rightarrow> Inr (typeMap, flds)
                 | Some (Document ds) \<Rightarrow> Inr (typeMap, flds)
                 | Some (Definition relatedAstNode) \<Rightarrow>
                     (if isNodeType (Some (Definition relatedAstNode)) then
                        (case getFieldDirective field ''relation'' of
                           Some relationFieldDirective \<Rightarrow>
                             bindE (handleRelationFieldDirective relatedAstNode typeName
                                      capitalizedFieldName fieldValueName relationFieldDirective
                                      mutationMap typeMap cfg)
                               (\<lambda>typeMap1. Inr (typeMap1, flds))
                         | None \<Rightarrow> Inr (typeMap, flds))
                      else
                        (case getTypeDirective (Definition relatedAstNode) ''relation'' of
                           Some relationTypeDirective \<Rightarrow>
                             handleRelationTypeDirective relatedAstNode typeName flds fieldIndex
                               capitalizedFieldName relationTypeDirective cfg typeMap mutationMap
                         | None \<Rightarrow> Inr (typeMap, flds))))
           else Inr (typeMap, flds)))"

text \<open>
  The updated field array belongs to the type's entry as long as no payload type was
  stored under the entry's own key.
\<close>

definition storeFields :: "type_map \<Rightarrow> string \<Rightarrow> field_def list \<Rightarrow> type_map" where
  "storeFields typeMap key flds =
     (case getType typeMap key of
        Some (Definition d) \<Rightarrow> setType typeMap key (Definition (d\<lparr>t_fields := flds\<rparr>))
      | _ \<Rightarrow> typeMap)"

fun handleRelationFields :: "string \<Rightarrow> ast_node \<Rightarrow> type_map \<Rightarrow> config \<Rightarrow> error + type_map" where
  "handleRelationFields key (Document ds) typeMap cfg = Inl (TypeError ''value'')"
| "handleRelationFields key (Definition astNode) typeMap cfg =
     (let mutationMap = createOperationMap (getType typeMap ''Mutation'');
          typeName = t_name astNode;
          flds = t_fields astNode
      in if isNodeType (Some (Definition astNode)) then
           bindE (foldE (handleRelationField typeName mutationMap cfg) [0 ..< length flds]
                    (typeMap, flds))
             (\<lambda>(typeMap1, flds1). Inr (storeFields typeMap1 key flds1))
         else Inr typeMap)"

section \<open>The pipeline\<close>

definition augmentQueryField :: "type_map \<Rightarrow> config \<Rightarrow> field_def \<Rightarrow> field_def" where
  "augmentQueryField typeMap cfg field =
     (let valueTypeName = getNamedType (f_type field);
          valueType = getType typeMap valueTypeName
      in if isNodeType valueType \<and> shouldAugmentType cfg QueryOperation valueTypeName
         then addListAndFilterArguments field valueTypeName
         else field)"

definition augmentQueryArguments :: "type_map \<Rightarrow> config \<Rightarrow> type_map" where
  "augmentQueryArguments typeMap cfg =
     (let queryMap = createOperationMap (getType typeMap ''Query'')
      in if queryMap \<noteq> [] then
           (case getType typeMap ''Query'' of
              Some (Definition d) \<Rightarrow>
                setType typeMap ''Query''
                  (Definition (d\<lparr>t_fields := map (\<lambda>e. augmentQueryField typeMap cfg (snd e)) queryMap\<rparr>))
            | _ \<Rightarrow> typeMap)
         else typeMap)"

text \<open>
  Modelled from the spec: \<open>addDirectiveDeclarations\<close> (utils.js) stores the declarations
  of the directives the engine introduces: the computed-field marker, the relationship
  marker and the relationship-mutation metadata marker.
\<close>

definition directiveDeclaration :: "string \<Rightarrow> ast_node" where
  "directiveDeclaration name =
     Definition \<lparr>t_kind = DirectiveDefinition, t_name = name, t_fields = [], t_directives = [],
                 t_values = []\<rparr>"

definition addDirectiveDeclarations :: "type_map \<Rightarrow> config \<Rightarrow> type_map" where
  "addDirectiveDeclarations typeMap cfg =
     foldl (\<lambda>m name. setType m name (directiveDeclaration name)) typeMap
       [''cypher'', ''relation'', ''MutationMeta'']"

text \<open>
  One round of the \<open>forEach\<close> over \<open>Object.entries (typeMap)\<close>.  The entries are taken
  once, before the first round; \<open>type\<close> is the object that stood under \<open>name\<close> then and
  that the rounds before have updated in place.  It still stands under \<open>name\<close> unless a
  round stored a generated document there, and documents are never updated.
\<close>

definition currentNode :: "type_map \<Rightarrow> string \<Rightarrow> ast_node \<Rightarrow> ast_node" where
  "currentNode typeMap name type =
     (case getType typeMap name of Some (Definition d) \<Rightarrow> Definition d | _ \<Rightarrow> type)"

definition augmentEntry :: "config \<Rightarrow> string \<times> ast_node \<Rightarrow> type_map \<Rightarrow> error + type_map" where
  "augmentEntry cfg entry typeMap =
     (case entry of (name, type) \<Rightarrow>
        (if \<not> isTemporalType name then
           (let typeMap1 = setType typeMap name (augmentType (currentNode typeMap name type) typeMap cfg)
            in bindE (possiblyAddQuery (currentNode typeMap1 name type) typeMap1 cfg) (\<lambda>typeMap2.
               bindE (possiblyAddOrderingEnum (currentNode typeMap2 name type) typeMap2 cfg) (\<lambda>typeMap3.
               bindE (possiblyAddTypeInput (currentNode typeMap3 name type) typeMap3 cfg) (\<lambda>typeMap4.
               bindE (possiblyAddFilterInput (currentNode typeMap4 name type) typeMap4 cfg) (\<lambda>typeMap5.
               bindE (possiblyAddTypeMutations (currentNode typeMap5 name type) typeMap5 cfg) (\<lambda>typeMap6.
               handleRelationFields name (currentNode typeMap6 name type) typeMap6 cfg))))))
         else Inr typeMap))"

definition augmentTypeMap :: "type_map \<Rightarrow> config \<Rightarrow> error + type_map" where
  "augmentTypeMap typeMap cfg =
     (let typeMap1 = initializeOperationTypes typeMap cfg
      in bindE (addRelationTypeDirectives typeMap1) (\<lambda>typeMap2.
         (let typeMap3 = addTemporalTypes typeMap2 cfg
          in bindE (foldE (augmentEntry cfg) typeMap3 typeMap3) (\<lambda>typeMap4.
             Inr (addDirectiveDeclarations (augmentQueryArguments typeMap4 cfg) cfg)))))"

section \<open>Notions the properties are stated with\<close>



text \<open>
  The relation name the normalisation writes for a relationship type: the \<open>name\<close>
  argument of its relation directive or, without one, the name derived from the name of
  the type.  A relationship type with both endpoints is malformed when this name is not a
  name or number token.  The errors the normalisation raises of its own are the structural ones;
  \<open>stageError\<close> is the error an incomplete or malformed type ends the stage with.
\<close>

definition relationNameOf :: "type_def \<Rightarrow> string" where
  "relationNameOf astNode =
     (case findIndex (\<lambda>e. d_name e = ''relation'') (t_directives astNode) of
        Some typeDirectiveIndex \<Rightarrow>
          (case find (\<lambda>e. fst e = ''name'')
                  (d_arguments (t_directives astNode ! typeDirectiveIndex)) of
             Some nameArg \<Rightarrow> snd nameArg
           | None \<Rightarrow> transformRelationName astNode)
      | None \<Rightarrow> transformRelationName astNode)"




text \<open>A node type of the map that the policy permits for an operation.\<close>

definition permittedNodeType :: "config \<Rightarrow> root_type \<Rightarrow> ast_node \<Rightarrow> bool" where
  "permittedNodeType cfg rootType node =
     (isNodeType (Some node) \<and> shouldAugmentType cfg rootType (nodeName (Some node)))"

text \<open>Renaming the named leaf type under its wrapper layers.\<close>

fun mapNamedType :: "(string \<Rightarrow> string) \<Rightarrow> gtype \<Rightarrow> gtype" where
  "mapNamedType f (NamedType n) = NamedType (f n)"
| "mapNamedType f (ListType t) = ListType (mapNamedType f t)"
| "mapNamedType f (NonNullType t) = NonNullType (mapNamedType f t)"

definition temporalEnabled :: "temporal_config \<Rightarrow> string \<Rightarrow> bool" where
  "temporalEnabled cfg n =
     ((n = ''Time'' \<and> tc_time cfg) \<or> (n = ''Date'' \<and> tc_date cfg)
      \<or> (n = ''DateTime'' \<and> tc_datetime cfg) \<or> (n = ''LocalTime'' \<and> tc_localtime cfg)
      \<or> (n = ''LocalDateTime'' \<and> tc_localdatetime cfg))"

definition structuredName :: "temporal_config \<Rightarrow> bool \<Rightarrow> string \<Rightarrow> string" where
  "structuredName cfg isArgument n =
     (if temporalEnabled cfg n then ''_Neo4j'' @ n @ (if isArgument then ''Input'' else []) else n)"

definition allTemporal :: temporal_config where
  "allTemporal = \<lparr>tc_time = True, tc_date = True, tc_datetime = True, tc_localtime = True,
                  tc_localdatetime = True\<rparr>"

text \<open>The fields of a root operation type, and the names of a root field's arguments.\<close>

definition rootFields :: "type_map \<Rightarrow> string \<Rightarrow> field_def list" where
  "rootFields typeMap root =
     (case getType typeMap root of Some (Definition d) \<Rightarrow> t_fields d | _ \<Rightarrow> [])"

definition rootFieldArguments :: "type_map \<Rightarrow> string \<Rightarrow> string \<Rightarrow> string list list" where
  "rootFieldArguments typeMap root name =
     map (\<lambda>f. map iv_name (f_arguments f)) (filter (\<lambda>f. f_name f = name) (rootFields typeMap root))"

definition hasArgument :: "field_def \<Rightarrow> string \<Rightarrow> bool" where
  "hasArgument field name = (find (\<lambda>a. iv_name a = name) (f_arguments field) \<noteq> None)"

text \<open>Whether an entry of the type map defines a type of the given kind.\<close>

definition definesKind :: "ast_node \<Rightarrow> kind \<Rightarrow> bool" where
  "definesKind node k =
     (case node of Definition d \<Rightarrow> t_kind d = k | Document ds \<Rightarrow> list_ex (\<lambda>d. t_kind d = k) ds)"

definition argumentType :: "field_def \<Rightarrow> string \<Rightarrow> gtype option" where
  "argumentType field name =
     map_option iv_type (find (\<lambda>a. iv_name a = name) (f_arguments field))"

text \<open>
  The relationship mutation field the engine builds for an action, and the fields one call
  of \<open>possiblyAddRelationMutationField\<close> pushes: one per action whose mutation name is not
  taken.
\<close>

definition expectedRelationMutation ::
  "string \<Rightarrow> string \<Rightarrow> string \<Rightarrow> string \<Rightarrow> string \<Rightarrow> string \<Rightarrow> type_def \<Rightarrow> bool \<Rightarrow> config \<Rightarrow> field_def" where
  "expectedRelationMutation action typeName cap fromName toName relationName rel hasProps cfg =
     relationMutationField (action @ typeName @ cap) (''_'' @ (action @ typeName @ cap) @ ''Payload'')
       fromName toName relationName rel (hasProps \<and> hasSomePropertyField rel \<and> action = ''Add'')
       (authDirectives cfg ''relation'' action typeName (Some toName))"

definition relationMutationsAdded ::
  "string \<Rightarrow> string \<Rightarrow> string \<Rightarrow> string \<Rightarrow> (string \<times> field_def) list \<Rightarrow> string \<Rightarrow> type_def \<Rightarrow> bool \<Rightarrow> config \<Rightarrow> field_def list" where
  "relationMutationsAdded typeName cap fromName toName mm relationName rel hasProps cfg =
     (if map_of mm (''Add'' @ typeName @ cap) = None
      then [expectedRelationMutation ''Add'' typeName cap fromName toName relationName rel hasProps cfg]
      else []) @
     (if map_of mm (''Remove'' @ typeName @ cap) = None
      then [expectedRelationMutation ''Remove'' typeName cap fromName toName relationName rel hasProps cfg]
      else [])"

text \<open>
  A relationship type whose \<open>from\<close> and \<open>to\<close> name the same type, in its fields and in
  the arguments of its relation directive; and the directional wrapper type for a field
  of that value.
\<close>

definition reflexiveRelationType :: "type_def \<Rightarrow> directive \<Rightarrow> bool" where
  "reflexiveRelationType rel dir =
     (findDirective (t_directives rel) ''relation'' = Some dir
      \<and> (case lastFieldType (t_fields rel) ''from'' of
            None \<Rightarrow> False
          | Some a \<Rightarrow> a \<noteq> [] \<and> lastFieldType (t_fields rel) ''to'' = Some a
                       \<and> directiveArgument dir ''from'' = Inr a
                       \<and> directiveArgument dir ''to'' = Inr a))"

definition directionsType :: "string \<Rightarrow> type_def \<Rightarrow> field_def \<Rightarrow> ast_node" where
  "directionsType fieldTypeName rel field =
     Document [\<lparr>t_kind = ObjectTypeDefinition, t_name = fieldTypeName @ ''Directions'',
                t_fields =
                  [\<lparr>f_name = ''from'', f_arguments = f_arguments field,
                    f_type = wrapList (isListType (f_type field)) (NamedType fieldTypeName),
                    f_directives = []\<rparr>,
                   \<lparr>f_name = ''to'', f_arguments = f_arguments field,
                    f_type = wrapList (isListType (f_type field)) (NamedType fieldTypeName),
                    f_directives = []\<rparr>],
                t_directives = t_directives rel, t_values = []\<rparr>]"

text \<open>
  A type map as the parser hands it over: its keys are unique and every definition stands
  under its own name.
\<close>

definition wellKeyed :: "type_map \<Rightarrow> bool" where
  "wellKeyed typeMap =
     (distinct (map fst typeMap)
      \<and> list_all (\<lambda>e. case snd e of Definition d \<Rightarrow> t_name d = fst e | Document ds \<Rightarrow> True)
            typeMap)"

definition holdsKind :: "type_map \<Rightarrow> string \<Rightarrow> kind \<Rightarrow> bool" where
  "holdsKind typeMap name k =
     (case getType typeMap name of None \<Rightarrow> False | Some node \<Rightarrow> definesKind node k)"

definition rootFieldNames :: "type_map \<Rightarrow> string \<Rightarrow> string list" where
  "rootFieldNames typeMap root = map f_name (rootFields typeMap root)"

text \<open>
  What the stages may write, entry by entry, relative to the input map \<open>typeMap0\<close>: the
  names a root field may have, the keys under which an input type or an enum may appear,
  and the condition on an entry that every stage keeps.
\<close>

definition nodeFields :: "ast_node \<Rightarrow> field_def list" where
  "nodeFields node = (case node of Definition d \<Rightarrow> t_fields d | Document ds \<Rightarrow> [])"

definition allowedQueryField :: "config \<Rightarrow> type_map \<Rightarrow> string \<Rightarrow> bool" where
  "allowedQueryField cfg typeMap0 name =
     (name \<in> set (rootFieldNames typeMap0 ''Query'') \<or> shouldAugmentType cfg QueryOperation name)"

definition allowedMutationField :: "config \<Rightarrow> type_map \<Rightarrow> string \<Rightarrow> bool" where
  "allowedMutationField cfg typeMap0 name =
     (name \<in> set (rootFieldNames typeMap0 ''Mutation'')
      \<or> (\<exists>A. shouldAugmentType cfg MutationOperation A
               \<and> (name = ''Create'' @ A \<or> name = ''Update'' @ A \<or> name = ''Delete'' @ A))
      \<or> (\<exists>x. name = ''Add'' @ x) \<or> (\<exists>x. name = ''Remove'' @ x))"

definition allowedInput :: "config \<Rightarrow> string \<Rightarrow> bool" where
  "allowedInput cfg k =
     ((\<exists>A. shouldAugmentType cfg QueryOperation A \<and> k = ''_'' @ A @ ''Filter'')
      \<or> (\<exists>A. k = ''_'' @ A @ ''Input''))"

definition allowedEnum :: "config \<Rightarrow> string \<Rightarrow> bool" where
  "allowedEnum cfg k = (\<exists>A. shouldAugmentType cfg QueryOperation A \<and> k = ''_'' @ A @ ''Ordering'')"

definition okEntry :: "config \<Rightarrow> type_map \<Rightarrow> string \<Rightarrow> ast_node \<Rightarrow> bool" where
  "okEntry cfg typeMap0 k node =
     ((getType typeMap0 k = None \<longrightarrow>
         (k = ''Query'' \<longrightarrow> list_ex (\<lambda>e. permittedNodeType cfg QueryOperation (snd e)) typeMap0)
         \<and> (k = ''Mutation'' \<longrightarrow> list_ex (\<lambda>e. permittedNodeType cfg MutationOperation (snd e)) typeMap0)
         \<and> (definesKind node InputObjectTypeDefinition \<longrightarrow> allowedInput cfg k)
         \<and> (definesKind node EnumTypeDefinition \<longrightarrow> allowedEnum cfg k))
      \<and> (\<forall>d. node = Definition d \<longrightarrow> t_name d = k)
      \<and> (k = ''Query'' \<longrightarrow> (\<forall>f \<in> set (nodeFields node). allowedQueryField cfg typeMap0 (f_name f)))
      \<and> (k = ''Mutation'' \<longrightarrow> (\<forall>f \<in> set (nodeFields node). allowedMutationField cfg typeMap0 (f_name f))))"

definition allOK :: "config \<Rightarrow> type_map \<Rightarrow> type_map \<Rightarrow> bool" where
  "allOK cfg typeMap0 typeMap = (\<forall>e \<in> set typeMap. okEntry cfg typeMap0 (fst e) (snd e))"



text \<open>
  What a run adds to the input map: a root field of a name the input map has not, a type
  of a kind under a key the input map has not.
\<close>

definition addsRootField :: "type_map \<Rightarrow> type_map \<Rightarrow> string \<Rightarrow> string \<Rightarrow> bool" where
  "addsRootField typeMap typeMap' root name =
     (name \<in> set (rootFieldNames typeMap' root) \<and> name \<notin> set (rootFieldNames typeMap root))"

definition addsType :: "type_map \<Rightarrow> type_map \<Rightarrow> string \<Rightarrow> kind \<Rightarrow> bool" where
  "addsType typeMap typeMap' name k = (holdsKind typeMap' name k \<and> getType typeMap name = None)"

section \<open>Example schemas\<close>

definition objectType :: "string \<Rightarrow> field_def list \<Rightarrow> directive list \<Rightarrow> ast_node" where
  "objectType name flds directives =
     Definition \<lparr>t_kind = ObjectTypeDefinition, t_name = name, t_fields = flds,
                 t_directives = directives, t_values = []\<rparr>"



text \<open>\<open>type Person { id: ID!  name: String }\<close>\<close>

definition personSchema :: type_map where
  "personSchema =
     [(''Person'', objectType ''Person''
         [plainField ''id'' (NonNullType (NamedType ''ID'')),
          plainField ''name'' (NamedType ''String'')] [])]"

definition noAuth :: "string \<Rightarrow> string \<Rightarrow> string \<Rightarrow> string option \<Rightarrow> directive option" where
  "noAuth entityType operationType typeName relatedTypeName = None"

definition defaultConfig :: config where
  "defaultConfig = \<lparr>c_query = OperationExclude [], c_mutation = OperationExclude [],
                    c_temporal = TemporalBoolean False, possiblyAddScopeDirective = noAuth\<rparr>"

definition queryOnlyConfig :: config where
  "queryOnlyConfig = \<lparr>c_query = OperationBoolean True, c_mutation = OperationBoolean False,
                      c_temporal = TemporalBoolean False, possiblyAddScopeDirective = noAuth\<rparr>"

text \<open>
  The Person schema with a filter input type of the user's own, so that no stage stores a
  parsed document.
\<close>

definition userFilterSchema :: type_map where
  "userFilterSchema =
     personSchema @
     [(''_PersonFilter'',
       Definition \<lparr>t_kind = InputObjectTypeDefinition, t_name = ''_PersonFilter'',
                   t_fields = [plainField ''name'' (NamedType ''String'')],
                   t_directives = [], t_values = []\<rparr>)]"




text \<open>
  \<open>type Rated { from: User  to: Movie  rating: Int }\<close> used as the value of the field
  \<open>rated: [Rated]\<close> of the type \<open>owner\<close>.
\<close>

definition ratedSchema :: "string \<Rightarrow> type_map" where
  "ratedSchema owner =
     [(owner, objectType owner
         [plainField ''id'' (NonNullType (NamedType ''ID'')),
          plainField ''rated'' (ListType (NamedType ''Rated''))] []),
      (''User'', objectType ''User'' [plainField ''id'' (NonNullType (NamedType ''ID''))] []),
      (''Movie'', objectType ''Movie'' [plainField ''id'' (NonNullType (NamedType ''ID''))] []),
      (''Rated'', objectType ''Rated''
         [plainField ''from'' (NamedType ''User''), plainField ''to'' (NamedType ''Movie''),
          plainField ''rating'' (NamedType ''Int'')] [])]"

text \<open>
  \<open>type FriendOf { from: Person  to: Person  since: Int }\<close> used as the value of
  \<open>friends (since: Int): [FriendOf]!\<close> on \<open>Person\<close>.
\<close>

definition friendsField :: field_def where
  "friendsField =
     \<lparr>f_name = ''friends'', f_arguments = [namedInput ''since'' (NamedType ''Int'')],
      f_type = NonNullType (ListType (NamedType ''FriendOf'')), f_directives = []\<rparr>"

definition friendOfType :: type_def where
  "friendOfType =
     \<lparr>t_kind = ObjectTypeDefinition, t_name = ''FriendOf'',
      t_fields = [plainField ''from'' (NamedType ''Person''),
                  plainField ''to'' (NamedType ''Person''),
                  plainField ''since'' (NamedType ''Int'')],
      t_directives = [relationDirective ''FRIEND_OF'' ''Person'' ''Person''], t_values = []\<rparr>"

definition friendSchema :: type_map where
  "friendSchema =
     [(''Person'', objectType ''Person''
         [plainField ''id'' (NonNullType (NamedType ''ID'')), friendsField] []),
      (''FriendOf'', Definition friendOfType)]"

text \<open>
  The state in which the relationship resolver meets the field \<open>friends\<close> of \<open>Person\<close>,
  and what it returns.
\<close>

definition friendStage :: type_map where
  "friendStage =
     [(''Person'', objectType ''Person''
         [plainField ''id'' (NonNullType (NamedType ''ID'')), friendsField] []),
      (''FriendOf'', Definition friendOfType),
      (''Mutation'', objectType ''Mutation'' [] [])]"

definition friendsHandled :: "type_map \<times> field_def list" where
  "friendsHandled =
     projr (handleRelationTypeDirective friendOfType ''Person''
              [plainField ''id'' (NonNullType (NamedType ''ID'')), friendsField] 1 ''Friends''
              (relationDirective ''FRIEND_OF'' ''Person'' ''Person'') defaultConfig friendStage [])"

text \<open>
  \<open>type Movie { actors: [Person] @relation (name: "ACTED_IN", direction: "IN") }\<close>: the
  field-level notation, met on \<open>Movie\<close>.
\<close>

definition actedInDirective :: directive where
  "actedInDirective =
     \<lparr>d_name = ''relation'', d_arguments = [(''name'', ''ACTED_IN''), (''direction'', ''IN'')]\<rparr>"

definition personType :: type_def where
  "personType =
     \<lparr>t_kind = ObjectTypeDefinition, t_name = ''Person'',
      t_fields = [plainField ''id'' (NonNullType (NamedType ''ID'')),
                  plainField ''name'' (NamedType ''String'')],
      t_directives = [], t_values = []\<rparr>"

definition actorsStage :: type_map where
  "actorsStage =
     [(''Person'', Definition personType),
      (''Movie'', objectType ''Movie''
         [plainField ''id'' (NonNullType (NamedType ''ID'')),
          \<lparr>f_name = ''actors'', f_arguments = [], f_type = ListType (NamedType ''Person''),
           f_directives = [actedInDirective]\<rparr>] []),
      (''Mutation'', objectType ''Mutation'' [] [])]"

definition actorsHandled :: type_map where
  "actorsHandled =
     projr (handleRelationFieldDirective personType ''Movie'' ''Actors'' ''Person''
              actedInDirective [] actorsStage defaultConfig)"

text \<open>The friends schema with a type of the user's own under the payload name.\<close>

definition userPayloadSchema :: type_map where
  "userPayloadSchema =
     friendSchema @
     [(''_PersonFriends'',
       Definition \<lparr>t_kind = InterfaceTypeDefinition, t_name = ''_PersonFriends'',
                   t_fields = [plainField ''since'' (NamedType ''Int'')],
                   t_directives = [], t_values = []\<rparr>)]"

definition typeFields :: "type_map \<Rightarrow> string \<Rightarrow> field_def list" where
  "typeFields typeMap name =
     (case getType typeMap name of Some (Definition d) \<Rightarrow> t_fields d | _ \<Rightarrow> [])"

text \<open>
  \<open>Person\<close> and \<open>Hidden\<close>, the second excluded from queries and from mutations.
\<close>

definition hiddenSchema :: type_map where
  "hiddenSchema =
     [(''Person'', objectType ''Person''
         [plainField ''id'' (NonNullType (NamedType ''ID'')),
          plainField ''name'' (NamedType ''String'')] []),
      (''Hidden'', objectType ''Hidden''
         [plainField ''id'' (NonNullType (NamedType ''ID'')),
          plainField ''note'' (NamedType ''String'')] [])]"

definition hiddenConfig :: config where
  "hiddenConfig = \<lparr>c_query = OperationExclude [''Hidden''], c_mutation = OperationExclude [''Hidden''],
                   c_temporal = TemporalBoolean False, possiblyAddScopeDirective = noAuth\<rparr>"

definition hiddenAugmented :: type_map where
  "hiddenAugmented = projr (augmentTypeMap hiddenSchema hiddenConfig)"

text \<open>
  \<open>type User { id: ID!  groupFilter: [Membership] }\<close> with the relationship type
  \<open>Membership { from: User  to: UserGroup  role: String }\<close>; \<open>UserGroup\<close> is excluded
  from queries and no mutation is generated.
\<close>

definition groupSchema :: type_map where
  "groupSchema =
     [(''User'', objectType ''User''
         [plainField ''id'' (NonNullType (NamedType ''ID'')),
          plainField ''groupFilter'' (ListType (NamedType ''Membership''))] []),
      (''UserGroup'', objectType ''UserGroup''
         [plainField ''id'' (NonNullType (NamedType ''ID''))] []),
      (''Membership'', objectType ''Membership''
         [plainField ''from'' (NamedType ''User''), plainField ''to'' (NamedType ''UserGroup''),
          plainField ''role'' (NamedType ''String'')] [])]"

definition groupConfig :: config where
  "groupConfig = \<lparr>c_query = OperationExclude [''UserGroup''], c_mutation = OperationBoolean False,
                  c_temporal = TemporalBoolean False, possiblyAddScopeDirective = noAuth\<rparr>"

text \<open>The result of augmenting the Person schema for queries only.\<close>

definition queryOnlyAugmented :: type_map where
  "queryOnlyAugmented = projr (augmentTypeMap personSchema queryOnlyConfig)"

section \<open>Properties\<close>

subsection \<open>The type map\<close>

lemma getType_setType:
  "getType (setType typeMap k v) k' = (if k' = k then Some v else getType typeMap k')"
  by (induction typeMap) (auto simp: getType_def)




subsection \<open>Relationship types with one endpoint\<close>

lemma normalizeRelationType_result:
  "normalizeRelationType d fr t =
     (if isValueToken (relationNameOf d)
      then Inr (d\<lparr>t_directives :=
             (case findIndex (\<lambda>e. d_name e = ''relation'') (t_directives d) of
                Some i \<Rightarrow> (t_directives d)[i := relationDirective (relationNameOf d)
                                                    (getNamedType (f_type fr)) (getNamedType (f_type t))]
              | None \<Rightarrow> t_directives d @ [relationDirective (relationNameOf d)
                                              (getNamedType (f_type fr)) (getNamedType (f_type t))])\<rparr>)
      else Inl (SyntaxError (relationNameOf d)))"
  by (simp add: normalizeRelationType_def relationNameOf_def parseDirectiveSdl_def bindE_def Let_def
      split: option.splits)



















subsection \<open>Temporal substitution\<close>

lemma transformTemporalTypeName_output:
  "transformTemporalTypeName t cfg False = mapNamedType (structuredName cfg False) t"
  by (induction t) (auto simp: structuredName_def temporalEnabled_def temporalName_def)

lemma transformTemporalTypeName_named_argument:
  "transformTemporalTypeName (NamedType n) cfg True = NamedType (structuredName cfg True n)"
  by (auto simp: structuredName_def temporalEnabled_def temporalName_def)

lemma transformTemporalTypeName_below_wrapper:
  "transformTemporalTypeName (NonNullType t) cfg True
     = NonNullType (mapNamedType (structuredName cfg False) t)"
  "transformTemporalTypeName (ListType t) cfg True
     = ListType (mapNamedType (structuredName cfg False) t)"
  by (simp_all add: transformTemporalTypeName_output)

text \<open>
  C6.  The temporal injector on \<open>type Person { visits (since: DateTime!): [DateTime!]! }\<close>
  with every temporal type enabled: the field's type becomes \<open>[_Neo4jDateTime!]!\<close>, and the
  argument's type becomes \<open>_Neo4jDateTime!\<close>, the output type, where the claim has the
  input twin \<open>_Neo4jDateTimeInput!\<close>.
\<close>

theorem transformTemporalFields_wrapped_argument:
  "transformTemporalFields
     [(''Person'', objectType ''Person''
        [\<lparr>f_name = ''visits'',
          f_arguments = [namedInput ''since'' (NonNullType (NamedType ''DateTime''))],
          f_type = NonNullType (ListType (NonNullType (NamedType ''DateTime''))),
          f_directives = []\<rparr>] [])] allTemporal
   = [(''Person'', objectType ''Person''
        [\<lparr>f_name = ''visits'',
          f_arguments = [namedInput ''since'' (NonNullType (NamedType ''_Neo4jDateTime''))],
          f_type = NonNullType (ListType (NonNullType (NamedType ''_Neo4jDateTime''))),
          f_directives = []\<rparr>] [])]"
  by code_simp

subsection \<open>Root operation types\<close>

lemma getType_possiblyAddObjectType:
  "getType (possiblyAddObjectType tm n) k =
     (if k = n \<and> getType tm n = None
      then Some (Definition \<lparr>t_kind = ObjectTypeDefinition, t_name = n, t_fields = [],
                   t_directives = [], t_values = []\<rparr>)
      else getType tm k)"
  by (auto simp: possiblyAddObjectType_def getType_setType)

lemma getType_possiblyAddObjectType_other:
  "k \<noteq> n \<Longrightarrow> getType (possiblyAddObjectType tm n) k = getType tm k"
  by (simp add: getType_possiblyAddObjectType)

lemma getType_possiblyAddObjectType_unchanged:
  "getType (possiblyAddObjectType tm n) k \<noteq> getType tm k \<Longrightarrow> k = n \<and> getType tm n = None"
  by (simp add: getType_possiblyAddObjectType split: if_splits)

lemma isNodeType_root: "\<not> isNodeType (Some (Definition \<lparr>t_kind = ObjectTypeDefinition, t_name = ''Query'', t_fields = [],
                   t_directives = [], t_values = []\<rparr>))"
  by simp

lemma isNodeType_getType_possiblyAddObjectType:
  assumes "isNodeType (getType (possiblyAddObjectType tm ''Query'') k)"
  shows "getType (possiblyAddObjectType tm ''Query'') k = getType tm k"
proof (rule ccontr)
  assume "getType (possiblyAddObjectType tm ''Query'') k \<noteq> getType tm k"
  then have "k = ''Query'' \<and> getType tm ''Query'' = None"
    by (rule getType_possiblyAddObjectType_unchanged)
  then have "getType (possiblyAddObjectType tm ''Query'') k = Some (Definition \<lparr>t_kind = ObjectTypeDefinition, t_name = ''Query'', t_fields = [],
                   t_directives = [], t_values = []\<rparr>)"
    by (simp only: getType_possiblyAddObjectType if_True simp_thms)
  then show False using assms isNodeType_root by (simp only:)
qed

lemma hasNonExcludedNodeType_permitted:
  assumes "truthyKey (hasNonExcludedNodeType ks tm' rootType cfg)"
    and "\<And>k. isNodeType (getType tm' k) \<Longrightarrow> getType tm' k = getType tm k"
  shows "list_ex (\<lambda>e. permittedNodeType cfg rootType (snd e)) tm"
proof -
  from assms(1) obtain k where k: "hasNonExcludedNodeType ks tm' rootType cfg = Some k"
    by (auto simp: truthyKey_def split: option.splits)
  then have p: "isNodeType (getType tm' k)"
    "shouldAugmentType cfg rootType (nodeName (getType tm' k))"
    by (auto simp: hasNonExcludedNodeType_def find_Some_iff)
  then have eq: "getType tm' k = getType tm k" using assms(2) by simp
  then obtain node where node: "getType tm k = Some node" using p by (cases "getType tm k") auto
  then have "(k, node) \<in> set tm" by (auto simp: getType_def dest: map_of_SomeD)
  moreover have "permittedNodeType cfg rootType (snd (k, node))"
    using p node eq by (simp add: permittedNodeType_def)
  ultimately show ?thesis unfolding list_ex_iff by blast
qed

lemma initializeOperationTypes_permitted:
  "(getType typeMap ''Query'' = None
      \<and> getType (initializeOperationTypes typeMap cfg) ''Query'' \<noteq> None
    \<longrightarrow> list_ex (\<lambda>e. permittedNodeType cfg QueryOperation (snd e)) typeMap)
   \<and> (getType typeMap ''Mutation'' = None
      \<and> getType (initializeOperationTypes typeMap cfg) ''Mutation'' \<noteq> None
    \<longrightarrow> list_ex (\<lambda>e. permittedNodeType cfg MutationOperation (snd e)) typeMap)"
proof -
  define q where "q = truthyKey (hasNonExcludedNodeType (map fst typeMap) typeMap QueryOperation cfg)"
  define typeMap1 where "typeMap1 = (if q then possiblyAddObjectType typeMap ''Query'' else typeMap)"
  define m where "m = truthyKey (hasNonExcludedNodeType (map fst typeMap) typeMap1 MutationOperation cfg)"
  have init: "initializeOperationTypes typeMap cfg
           = (if m then possiblyAddObjectType typeMap1 ''Mutation'' else typeMap1)"
    unfolding initializeOperationTypes_def Let_def
    unfolding m_def
    unfolding typeMap1_def
    unfolding q_def
    by (rule refl)
  have ne: "''Query'' \<noteq> ''Mutation''" "''Mutation'' \<noteq> ''Query''" by simp_all
  have gq: "getType (initializeOperationTypes typeMap cfg) ''Query'' = getType typeMap1 ''Query''"
    unfolding init using getType_possiblyAddObjectType_other[OF ne(1)] by simp
  have g1m: "getType typeMap1 ''Mutation'' = getType typeMap ''Mutation''"
    unfolding typeMap1_def using getType_possiblyAddObjectType_other[OF ne(2)] by simp
  have node1: "getType typeMap1 k = getType typeMap k" if "isNodeType (getType typeMap1 k)" for k
  proof (cases q)
    case True
    then show ?thesis
      using that isNodeType_getType_possiblyAddObjectType[of typeMap k]
      by (simp only: typeMap1_def if_True)
  next
    case False
    then show ?thesis by (simp only: typeMap1_def if_False)
  qed
  show ?thesis
  proof (intro conjI impI)
    assume a: "getType typeMap ''Query'' = None
      \<and> getType (initializeOperationTypes typeMap cfg) ''Query'' \<noteq> None"
    then have "q" unfolding gq typeMap1_def by (auto split: if_splits)
    then show "list_ex (\<lambda>e. permittedNodeType cfg QueryOperation (snd e)) typeMap"
      unfolding q_def by (rule hasNonExcludedNodeType_permitted) simp
  next
    assume a: "getType typeMap ''Mutation'' = None
      \<and> getType (initializeOperationTypes typeMap cfg) ''Mutation'' \<noteq> None"
    then have "m" unfolding init using g1m by (auto split: if_splits)
    then show "list_ex (\<lambda>e. permittedNodeType cfg MutationOperation (snd e)) typeMap"
      unfolding m_def using node1 by (rule hasNonExcludedNodeType_permitted)
  qed
qed

subsection \<open>Relationship mutations and payload types\<close>

lemma bindE_Inr: "bindE m f = Inr y \<Longrightarrow> \<exists>x. m = Inr x \<and> f x = Inr y"
  by (cases m) (auto simp: bindE_def)

lemma rootFields_setType_other: "k \<noteq> root \<Longrightarrow> rootFields (setType tm k v) root = rootFields tm root"
  by (simp add: rootFields_def getType_setType)

lemma pushRootField_Inr:
  assumes "pushRootField tm root f = Inr tm'"
  shows "rootFields tm' root = rootFields tm root @ [f]"
    and "k \<noteq> root \<Longrightarrow> getType tm' k = getType tm k"
  using assms
  by (auto simp: pushRootField_def rootFields_def getType_setType split: option.splits ast_node.splits)

lemma parseTypeDefinition_Inr:
  "parseTypeDefinition k name ds flds = Inr node \<Longrightarrow>
     node = Document [\<lparr>t_kind = k, t_name = name, t_fields = flds, t_directives = ds, t_values = []\<rparr>] \<and> flds \<noteq> []"
  by (auto simp: parseTypeDefinition_def split: if_splits)

lemma underscore_not_Mutation: "''_'' @ x \<noteq> ''Mutation''"
  by simp

lemma addRelationMutation_Inr:
  assumes "addRelationMutation action typeName cap fromName toName mm relationName rel hasProps cfg tm = Inr tm'"
  shows "rootFields tm' ''Mutation'' = rootFields tm ''Mutation'' @
           (if map_of mm (action @ typeName @ cap) = None
            then [expectedRelationMutation action typeName cap fromName toName relationName rel hasProps cfg]
            else [])"
proof (cases "map_of mm (action @ typeName @ cap) = None")
  case False
  then show ?thesis using assms by (auto simp: addRelationMutation_def Let_def)
next
  case True
  define f where "f = expectedRelationMutation action typeName cap fromName toName relationName rel hasProps cfg"
  define p where "p = ''_'' @ (action @ typeName @ cap) @ ''Payload''"
  define payload where "payload = parseTypeDefinition ObjectTypeDefinition p
                               [relationDirective relationName fromName toName]
                               ([plainField ''from'' (NamedType fromName),
                                 plainField ''to'' (NamedType toName)]
                                @ (if hasProps \<and> hasSomePropertyField rel \<and> action = ''Add''
                                   then getRelationMutationPayloadFieldsFromAst rel
                                   else []))"
  have p: "p \<noteq> ''Mutation''" by (simp add: p_def)
  have unfold: "addRelationMutation action typeName cap fromName toName mm relationName rel hasProps cfg tm
    = bindE (pushRootField tm ''Mutation'' f)
        (\<lambda>tm1. if getType tm1 p = None then bindE payload (\<lambda>node. Inr (setType tm1 p node)) else Inr tm1)"
    unfolding addRelationMutation_def Let_def f_def p_def payload_def expectedRelationMutation_def
    by (simp only: True simp_thms if_True)
  from assms obtain tm1 where push: "pushRootField tm ''Mutation'' f = Inr tm1"
    and rest: "(if getType tm1 p = None then bindE payload (\<lambda>node. Inr (setType tm1 p node)) else Inr tm1) = Inr tm'"
    unfolding unfold by (auto dest!: bindE_Inr)
  have "rootFields tm' ''Mutation'' = rootFields tm1 ''Mutation''"
  proof (cases "getType tm1 p = None")
    case False
    then show ?thesis using rest by (auto split: if_splits)
  next
    case True
    then obtain node where "tm' = setType tm1 p node"
      using rest by (auto dest!: bindE_Inr)
    then show ?thesis using rootFields_setType_other[OF p] by simp
  qed
  then show ?thesis using pushRootField_Inr(1)[OF push] True by (simp add: f_def)
qed

lemma possiblyAddRelationMutationField_Inr:
  assumes "possiblyAddRelationMutationField typeName cap fromName toName mm tm relationName rel hasProps cfg = Inr tm'"
  shows "rootFields tm' ''Mutation'' = rootFields tm ''Mutation'' @
           (if map_of mm (''Add'' @ typeName @ cap) = None
            then [expectedRelationMutation ''Add'' typeName cap fromName toName relationName rel hasProps cfg]
            else []) @
           (if map_of mm (''Remove'' @ typeName @ cap) = None
            then [expectedRelationMutation ''Remove'' typeName cap fromName toName relationName rel hasProps cfg]
            else [])"
proof -
  from assms obtain tm1 where
    a: "addRelationMutation ''Add'' typeName cap fromName toName mm relationName rel hasProps cfg tm = Inr tm1"
    and r: "addRelationMutation ''Remove'' typeName cap fromName toName mm relationName rel hasProps cfg tm1 = Inr tm'"
    unfolding possiblyAddRelationMutationField_def
    by (auto split: sum.splits)
  show ?thesis
    unfolding addRelationMutation_Inr[OF r] addRelationMutation_Inr[OF a] by simp
qed


lemma addRelationMutation_frame:
  assumes "addRelationMutation action typeName cap fromName toName mm relationName rel hasProps cfg tm = Inr tm'"
    and "k \<noteq> ''Mutation''" and "k \<noteq> ''_'' @ (action @ typeName @ cap) @ ''Payload''"
  shows "getType tm' k = getType tm k"
proof (cases "map_of mm (action @ typeName @ cap) = None")
  case False
  then show ?thesis using assms by (auto simp: addRelationMutation_def Let_def)
next
  case True
  define f where "f = expectedRelationMutation action typeName cap fromName toName relationName rel hasProps cfg"
  define p where "p = ''_'' @ (action @ typeName @ cap) @ ''Payload''"
  define payload where "payload = parseTypeDefinition ObjectTypeDefinition p
                               [relationDirective relationName fromName toName]
                               ([plainField ''from'' (NamedType fromName),
                                 plainField ''to'' (NamedType toName)]
                                @ (if hasProps \<and> hasSomePropertyField rel \<and> action = ''Add''
                                   then getRelationMutationPayloadFieldsFromAst rel
                                   else []))"
  have unfold: "addRelationMutation action typeName cap fromName toName mm relationName rel hasProps cfg tm
    = bindE (pushRootField tm ''Mutation'' f)
        (\<lambda>tm1. if getType tm1 p = None then bindE payload (\<lambda>node. Inr (setType tm1 p node)) else Inr tm1)"
    unfolding addRelationMutation_def Let_def f_def p_def payload_def expectedRelationMutation_def
    by (simp only: True simp_thms if_True)
  from assms(1) obtain tm1 where push: "pushRootField tm ''Mutation'' f = Inr tm1"
    and rest: "(if getType tm1 p = None then bindE payload (\<lambda>node. Inr (setType tm1 p node)) else Inr tm1) = Inr tm'"
    unfolding unfold by (auto dest!: bindE_Inr)
  have kp: "k \<noteq> p" unfolding p_def by (rule assms(3))
  have "getType tm' k = getType tm1 k"
  proof (cases "getType tm1 p = None")
    case False
    then show ?thesis using rest by (auto split: if_splits)
  next
    case True
    then obtain node where "tm' = setType tm1 p node"
      using rest by (auto dest!: bindE_Inr)
    then show ?thesis using kp by (simp add: getType_setType)
  qed
  then show ?thesis using pushRootField_Inr(2)[OF push assms(2)] by simp
qed

lemma possiblyAddRelationMutationField_frame:
  assumes "possiblyAddRelationMutationField typeName cap fromName toName mm tm relationName rel hasProps cfg = Inr tm'"
    and "k \<noteq> ''Mutation''" and "k \<noteq> ''_'' @ (''Add'' @ typeName @ cap) @ ''Payload''"
    and "k \<noteq> ''_'' @ (''Remove'' @ typeName @ cap) @ ''Payload''"
  shows "getType tm' k = getType tm k"
proof -
  from assms(1) obtain tm1 where
    a: "addRelationMutation ''Add'' typeName cap fromName toName mm relationName rel hasProps cfg tm = Inr tm1"
    and r: "addRelationMutation ''Remove'' typeName cap fromName toName mm relationName rel hasProps cfg tm1 = Inr tm'"
    unfolding possiblyAddRelationMutationField_def
    by (auto split: sum.splits)
  show ?thesis
    using addRelationMutation_frame[OF r assms(2) assms(4)] addRelationMutation_frame[OF a assms(2) assms(3)]
    by simp
qed

lemma payload_name_differs:
  "''_'' @ typeName @ cap \<noteq> ''_'' @ (action @ typeName @ cap) @ ''Payload''"
proof
  assume "''_'' @ typeName @ cap = ''_'' @ (action @ typeName @ cap) @ ''Payload''"
  then have "length (''_'' @ typeName @ cap) = length (''_'' @ (action @ typeName @ cap) @ ''Payload'')"
    by (rule arg_cong)
  then show False by simp
qed

lemma possiblyAddRelationTypeFieldPayload_frame:
  assumes "possiblyAddRelationTypeFieldPayload rel cap typeName tm field = Inr (tm', field')"
    and "k \<noteq> ''_'' @ typeName @ cap" and "k \<noteq> (''_'' @ typeName @ cap) @ ''Directions''"
  shows "getType tm' k = getType tm k"
  using assms
  unfolding possiblyAddRelationTypeFieldPayload_def Let_def
  by (auto simp: getType_setType split: if_splits dest!: bindE_Inr)


lemma handleRelationTypeDirective_Inr:
  assumes "handleRelationTypeDirective rel typeName flds i cap dir cfg tm mm = Inr (tm', flds')"
  obtains n a b tm1 field' where
    "directiveArgument dir ''name'' = Inr n"
    "directiveArgument dir ''from'' = Inr a"
    "directiveArgument dir ''to'' = Inr b"
    "(if shouldAugmentRelationField cfg MutationOperation a b
      then bindE (validateRelationTypeDirectedFields typeName a b)
             (\<lambda>valid. possiblyAddRelationMutationField typeName cap a b mm tm n rel True cfg)
      else Inr tm) = Inr tm1"
    "possiblyAddRelationTypeFieldPayload rel cap typeName tm1 (flds ! i) = Inr (tm', field')"
    "flds' = flds[i := replaceRelationTypeValue a b field' cap typeName]"
  using assms unfolding handleRelationTypeDirective_def
  by (auto dest!: bindE_Inr)

lemma handleRelationTypeDirective_mutations:
  assumes "handleRelationTypeDirective rel typeName flds i cap dir cfg tm mm = Inr (tm', flds')"
  shows "\<exists>n a b. directiveArgument dir ''name'' = Inr n
           \<and> directiveArgument dir ''from'' = Inr a
           \<and> directiveArgument dir ''to'' = Inr b
           \<and> rootFields tm' ''Mutation'' = rootFields tm ''Mutation'' @
               (if shouldAugmentRelationField cfg MutationOperation a b
                then relationMutationsAdded typeName cap a b mm n rel True cfg else [])"
proof -
  from assms obtain n a b tm1 field' where
    n: "directiveArgument dir ''name'' = Inr n" and
    a: "directiveArgument dir ''from'' = Inr a" and
    b: "directiveArgument dir ''to'' = Inr b" and
    m: "(if shouldAugmentRelationField cfg MutationOperation a b
      then bindE (validateRelationTypeDirectedFields typeName a b)
             (\<lambda>valid. possiblyAddRelationMutationField typeName cap a b mm tm n rel True cfg)
      else Inr tm) = Inr tm1" and
    p: "possiblyAddRelationTypeFieldPayload rel cap typeName tm1 (flds ! i) = Inr (tm', field')"
    by (rule handleRelationTypeDirective_Inr)
  have k1: "''Mutation'' \<noteq> ''_'' @ typeName @ cap" "''Mutation'' \<noteq> (''_'' @ typeName @ cap) @ ''Directions''"
    by simp_all
  have "getType tm' ''Mutation'' = getType tm1 ''Mutation''"
    using possiblyAddRelationTypeFieldPayload_frame[OF p k1] .
  then have r1: "rootFields tm' ''Mutation'' = rootFields tm1 ''Mutation''"
    by (simp add: rootFields_def)
  have "rootFields tm1 ''Mutation'' = rootFields tm ''Mutation'' @
               (if shouldAugmentRelationField cfg MutationOperation a b
                then relationMutationsAdded typeName cap a b mm n rel True cfg else [])"
  proof (cases "shouldAugmentRelationField cfg MutationOperation a b")
    case False
    then show ?thesis using m by simp
  next
    case True
    then have "possiblyAddRelationMutationField typeName cap a b mm tm n rel True cfg = Inr tm1"
      using m by (auto dest!: bindE_Inr)
    from possiblyAddRelationMutationField_Inr[OF this] True
    show ?thesis by (simp add: relationMutationsAdded_def)
  qed
  then show ?thesis using n a b r1 by simp
qed

lemma handleRelationFieldDirective_mutations:
  assumes "handleRelationFieldDirective rel typeName cap fieldValueName dir mm tm cfg = Inr tm'"
  shows "rootFields tm' ''Mutation'' = rootFields tm ''Mutation'' @
           (if shouldAugmentRelationField cfg MutationOperation typeName fieldValueName
            then relationMutationsAdded typeName cap
                   (if getRelationDirection dir = Some ''IN'' \<or> getRelationDirection dir = Some ''in''
                    then fieldValueName else typeName)
                   (if getRelationDirection dir = Some ''IN'' \<or> getRelationDirection dir = Some ''in''
                    then typeName else fieldValueName)
                   mm (getRelationName dir) rel False cfg
            else [])"
proof (cases "shouldAugmentRelationField cfg MutationOperation typeName fieldValueName")
  case False
  then show ?thesis using assms by (simp add: handleRelationFieldDirective_def)
next
  case True
  then have "possiblyAddRelationMutationField typeName cap
                   (if getRelationDirection dir = Some ''IN'' \<or> getRelationDirection dir = Some ''in''
                    then fieldValueName else typeName)
                   (if getRelationDirection dir = Some ''IN'' \<or> getRelationDirection dir = Some ''in''
                    then typeName else fieldValueName)
                   mm tm (getRelationName dir) rel False cfg = Inr tm'"
    using assms unfolding handleRelationFieldDirective_def Let_def by (simp only: if_True)
  from possiblyAddRelationMutationField_Inr[OF this] True
  show ?thesis by (simp only: relationMutationsAdded_def if_True)
qed

lemma argumentType_expectedRelationMutation:
  "argumentType (expectedRelationMutation action typeName cap a b n rel hasProps cfg) ''data''
     = (if hasProps \<and> hasSomePropertyField rel \<and> action = ''Add''
        then Some (NonNullType (NamedType (''_'' @ t_name rel @ ''Input''))) else None)"
  by (simp add: argumentType_def expectedRelationMutation_def relationMutationField_def namedInput_def)

lemma f_name_expectedRelationMutation:
  "f_name (expectedRelationMutation action typeName cap a b n rel hasProps cfg) = action @ typeName @ cap"
  by (simp add: expectedRelationMutation_def relationMutationField_def)

lemma mutationMeta_expectedRelationMutation:
  "findDirective (f_directives (expectedRelationMutation action typeName cap a b n rel hasProps cfg)) ''MutationMeta''
     = Some \<lparr>d_name = ''MutationMeta'', d_arguments = [(''relationship'', n), (''from'', a), (''to'', b)]\<rparr>"
  by (simp add: findDirective_def expectedRelationMutation_def relationMutationField_def mutationMetaDirective_def)

lemma list_all_relationMutationsAdded:
  assumes "P (expectedRelationMutation ''Add'' typeName cap a b n rel hasProps cfg)"
    and "P (expectedRelationMutation ''Remove'' typeName cap a b n rel hasProps cfg)"
  shows "list_all P (relationMutationsAdded typeName cap a b mm n rel hasProps cfg)"
  using assms by (simp add: relationMutationsAdded_def)

text \<open>
  C7.  Of the relationship mutation fields a relationship-type-valued field generates, the
  \<open>Add\<close> field takes the argument \<open>data\<close>, of the relationship's input type, exactly when
  the relationship type declares a field other than \<open>from\<close> and \<open>to\<close>, and the \<open>Remove\<close>
  field takes none; the fields a field-level relation directive generates take none,
  there being no relationship type.  (The argument is optional in that it may be absent;
  where present its type is non-null.)
\<close>

theorem relation_mutation_data_argument:
  "(handleRelationTypeDirective rel typeName flds i cap dir cfg tm mm = Inr (tm', flds') \<longrightarrow>
      (\<exists>added. rootFields tm' ''Mutation'' = rootFields tm ''Mutation'' @ added
         \<and> list_all (\<lambda>f. (f_name f = ''Add'' @ typeName @ cap
                              \<and> argumentType f ''data''
                                  = (if hasSomePropertyField rel
                                     then Some (NonNullType (NamedType (''_'' @ t_name rel @ ''Input'')))
                                     else None))
                          \<or> (f_name f = ''Remove'' @ typeName @ cap
                              \<and> argumentType f ''data'' = None))
              added))
   \<and> (handleRelationFieldDirective node typeName cap fieldValueName fieldDir mm tm cfg = Inr tm'' \<longrightarrow>
      (\<exists>added. rootFields tm'' ''Mutation'' = rootFields tm ''Mutation'' @ added
         \<and> list_all (\<lambda>f. (f_name f = ''Add'' @ typeName @ cap \<or> f_name f = ''Remove'' @ typeName @ cap)
                          \<and> argumentType f ''data'' = None)
              added))"
proof (intro conjI impI)
  assume "handleRelationTypeDirective rel typeName flds i cap dir cfg tm mm = Inr (tm', flds')"
  from handleRelationTypeDirective_mutations[OF this] obtain n a b where
    eq: "rootFields tm' ''Mutation'' = rootFields tm ''Mutation'' @
               (if shouldAugmentRelationField cfg MutationOperation a b
                then relationMutationsAdded typeName cap a b mm n rel True cfg else [])"
    by blast
  have "list_all (\<lambda>f. (f_name f = ''Add'' @ typeName @ cap
                              \<and> argumentType f ''data''
                                  = (if hasSomePropertyField rel
                                     then Some (NonNullType (NamedType (''_'' @ t_name rel @ ''Input'')))
                                     else None))
                          \<or> (f_name f = ''Remove'' @ typeName @ cap
                              \<and> argumentType f ''data'' = None))
          (relationMutationsAdded typeName cap a b mm n rel True cfg)"
    by (rule list_all_relationMutationsAdded)
       (simp_all add: argumentType_expectedRelationMutation f_name_expectedRelationMutation)
  then show "\<exists>added. rootFields tm' ''Mutation'' = rootFields tm ''Mutation'' @ added
         \<and> list_all (\<lambda>f. (f_name f = ''Add'' @ typeName @ cap
                              \<and> argumentType f ''data''
                                  = (if hasSomePropertyField rel
                                     then Some (NonNullType (NamedType (''_'' @ t_name rel @ ''Input'')))
                                     else None))
                          \<or> (f_name f = ''Remove'' @ typeName @ cap
                              \<and> argumentType f ''data'' = None))
              added"
    using eq by (cases "shouldAugmentRelationField cfg MutationOperation a b") auto
next
  assume "handleRelationFieldDirective node typeName cap fieldValueName fieldDir mm tm cfg = Inr tm''"
  note eq = handleRelationFieldDirective_mutations[OF this]
  have "list_all (\<lambda>f. (f_name f = ''Add'' @ typeName @ cap \<or> f_name f = ''Remove'' @ typeName @ cap)
                          \<and> argumentType f ''data'' = None)
          (relationMutationsAdded typeName cap a b mm n node False cfg)" for a b n
    by (rule list_all_relationMutationsAdded)
       (simp_all add: argumentType_expectedRelationMutation f_name_expectedRelationMutation)
  then show "\<exists>added. rootFields tm'' ''Mutation'' = rootFields tm ''Mutation'' @ added
         \<and> list_all (\<lambda>f. (f_name f = ''Add'' @ typeName @ cap \<or> f_name f = ''Remove'' @ typeName @ cap)
                          \<and> argumentType f ''data'' = None)
              added"
    using eq by (cases "shouldAugmentRelationField cfg MutationOperation typeName fieldValueName") auto
qed

theorem relation_mutation_data_argument_witness:
  "handleRelationTypeDirective friendOfType ''Person''
       [plainField ''id'' (NonNullType (NamedType ''ID'')), friendsField] 1 ''Friends''
       (relationDirective ''FRIEND_OF'' ''Person'' ''Person'') defaultConfig friendStage []
     = Inr friendsHandled
   \<and> map (\<lambda>f. (f_name f, argumentType f ''data'')) (rootFields (fst friendsHandled) ''Mutation'')
       = [(''AddPersonFriends'', Some (NonNullType (NamedType ''_FriendOfInput''))),
          (''RemovePersonFriends'', None)]
   \<and> (\<exists>added. rootFields (fst friendsHandled) ''Mutation'' = rootFields friendStage ''Mutation'' @ added
         \<and> list_all (\<lambda>f. (f_name f = ''Add'' @ ''Person'' @ ''Friends''
                              \<and> argumentType f ''data''
                                  = (if hasSomePropertyField friendOfType
                                     then Some (NonNullType (NamedType (''_'' @ t_name friendOfType @ ''Input'')))
                                     else None))
                          \<or> (f_name f = ''Remove'' @ ''Person'' @ ''Friends''
                              \<and> argumentType f ''data'' = None))
              added)
   \<and> handleRelationFieldDirective personType ''Movie'' ''Actors'' ''Person'' actedInDirective []
       actorsStage defaultConfig = Inr actorsHandled
   \<and> map (\<lambda>f. (f_name f, argumentType f ''data'')) (rootFields actorsHandled ''Mutation'')
       = [(''AddMovieActors'', None), (''RemoveMovieActors'', None)]
   \<and> (\<exists>added. rootFields actorsHandled ''Mutation'' = rootFields actorsStage ''Mutation'' @ added
         \<and> list_all (\<lambda>f. (f_name f = ''Add'' @ ''Movie'' @ ''Actors''
                              \<or> f_name f = ''Remove'' @ ''Movie'' @ ''Actors'')
                          \<and> argumentType f ''data'' = None)
              added)"
proof -
  have h1: "handleRelationTypeDirective friendOfType ''Person''
       [plainField ''id'' (NonNullType (NamedType ''ID'')), friendsField] 1 ''Friends''
       (relationDirective ''FRIEND_OF'' ''Person'' ''Person'') defaultConfig friendStage []
     = Inr (fst friendsHandled, snd friendsHandled)"
    by code_simp
  have o1: "map (\<lambda>f. (f_name f, argumentType f ''data'')) (rootFields (fst friendsHandled) ''Mutation'')
       = [(''AddPersonFriends'', Some (NonNullType (NamedType ''_FriendOfInput''))),
          (''RemovePersonFriends'', None)]"
    by code_simp
  have h2: "handleRelationFieldDirective personType ''Movie'' ''Actors'' ''Person'' actedInDirective []
       actorsStage defaultConfig = Inr actorsHandled"
    by code_simp
  have o2: "map (\<lambda>f. (f_name f, argumentType f ''data'')) (rootFields actorsHandled ''Mutation'')
       = [(''AddMovieActors'', None), (''RemoveMovieActors'', None)]"
    by code_simp
  note t1 = relation_mutation_data_argument[where rel = friendOfType and typeName = "''Person''"
      and flds = "[plainField ''id'' (NonNullType (NamedType ''ID'')), friendsField]" and i = 1
      and cap = "''Friends''" and dir = "relationDirective ''FRIEND_OF'' ''Person'' ''Person''"
      and cfg = defaultConfig and tm = friendStage and mm = "[]"
      and tm' = "fst friendsHandled" and flds' = "snd friendsHandled", THEN conjunct1]
  note t2 = relation_mutation_data_argument[where node = personType and typeName = "''Movie''"
      and cap = "''Actors''" and fieldValueName = "''Person''" and fieldDir = actedInDirective
      and mm = "[]" and tm = actorsStage and cfg = defaultConfig and tm'' = actorsHandled,
      THEN conjunct2]
  show ?thesis using t1 t2 h1 h2 o1 o2 by simp
qed

text \<open>
  C8.  Every relationship mutation field the engine generates carries, first among its
  directives of that name, the directive \<open>MutationMeta\<close> with exactly the arguments
  \<open>relationship\<close>, \<open>from\<close> and \<open>to\<close>: for a relationship type these are the name, from
  and to arguments of its relation directive; for a field-level relation directive the
  relationship is the directive's name, and from and to are the owning type and the value
  type, exchanged when the direction is inbound.
\<close>

theorem relation_mutation_meta_directive:
  "(handleRelationTypeDirective rel typeName flds i cap dir cfg tm mm = Inr (tm', flds') \<longrightarrow>
      (\<exists>n a b added.
         directiveArgument dir ''name'' = Inr n \<and> directiveArgument dir ''from'' = Inr a
         \<and> directiveArgument dir ''to'' = Inr b
         \<and> rootFields tm' ''Mutation'' = rootFields tm ''Mutation'' @ added
         \<and> list_all (\<lambda>f. findDirective (f_directives f) ''MutationMeta''
                            = Some \<lparr>d_name = ''MutationMeta'',
                                    d_arguments = [(''relationship'', n), (''from'', a), (''to'', b)]\<rparr>)
              added))
   \<and> (handleRelationFieldDirective node typeName cap fieldValueName fieldDir mm tm cfg = Inr tm'' \<longrightarrow>
      (\<exists>added. rootFields tm'' ''Mutation'' = rootFields tm ''Mutation'' @ added
         \<and> list_all (\<lambda>f. findDirective (f_directives f) ''MutationMeta''
                            = Some \<lparr>d_name = ''MutationMeta'',
                                    d_arguments =
                                      [(''relationship'', getRelationName fieldDir),
                                       (''from'', if getRelationDirection fieldDir = Some ''IN''
                                                     \<or> getRelationDirection fieldDir = Some ''in''
                                                  then fieldValueName else typeName),
                                       (''to'', if getRelationDirection fieldDir = Some ''IN''
                                                   \<or> getRelationDirection fieldDir = Some ''in''
                                                then typeName else fieldValueName)]\<rparr>)
              added))"
proof (intro conjI impI)
  assume "handleRelationTypeDirective rel typeName flds i cap dir cfg tm mm = Inr (tm', flds')"
  from handleRelationTypeDirective_mutations[OF this] obtain n a b where
    args: "directiveArgument dir ''name'' = Inr n" "directiveArgument dir ''from'' = Inr a"
      "directiveArgument dir ''to'' = Inr b" and
    eq: "rootFields tm' ''Mutation'' = rootFields tm ''Mutation'' @
               (if shouldAugmentRelationField cfg MutationOperation a b
                then relationMutationsAdded typeName cap a b mm n rel True cfg else [])"
    by blast
  have "list_all (\<lambda>f. findDirective (f_directives f) ''MutationMeta''
                            = Some \<lparr>d_name = ''MutationMeta'',
                                    d_arguments = [(''relationship'', n), (''from'', a), (''to'', b)]\<rparr>)
          (relationMutationsAdded typeName cap a b mm n rel True cfg)"
    by (rule list_all_relationMutationsAdded) (simp_all only: mutationMeta_expectedRelationMutation)
  then have "list_all (\<lambda>f. findDirective (f_directives f) ''MutationMeta''
                            = Some \<lparr>d_name = ''MutationMeta'',
                                    d_arguments = [(''relationship'', n), (''from'', a), (''to'', b)]\<rparr>)
          (if shouldAugmentRelationField cfg MutationOperation a b
                then relationMutationsAdded typeName cap a b mm n rel True cfg else [])"
    by simp
  then show "\<exists>n a b added.
         directiveArgument dir ''name'' = Inr n \<and> directiveArgument dir ''from'' = Inr a
         \<and> directiveArgument dir ''to'' = Inr b
         \<and> rootFields tm' ''Mutation'' = rootFields tm ''Mutation'' @ added
         \<and> list_all (\<lambda>f. findDirective (f_directives f) ''MutationMeta''
                            = Some \<lparr>d_name = ''MutationMeta'',
                                    d_arguments = [(''relationship'', n), (''from'', a), (''to'', b)]\<rparr>)
              added"
    using args eq by blast
next
  assume "handleRelationFieldDirective node typeName cap fieldValueName fieldDir mm tm cfg = Inr tm''"
  note eq = handleRelationFieldDirective_mutations[OF this]
  define a where "a = (if getRelationDirection fieldDir = Some ''IN'' \<or> getRelationDirection fieldDir = Some ''in''
                       then fieldValueName else typeName)"
  define b where "b = (if getRelationDirection fieldDir = Some ''IN'' \<or> getRelationDirection fieldDir = Some ''in''
                       then typeName else fieldValueName)"
  have "list_all (\<lambda>f. findDirective (f_directives f) ''MutationMeta''
                            = Some \<lparr>d_name = ''MutationMeta'',
                                    d_arguments = [(''relationship'', getRelationName fieldDir), (''from'', a), (''to'', b)]\<rparr>)
          (relationMutationsAdded typeName cap a b mm (getRelationName fieldDir) node False cfg)"
    by (rule list_all_relationMutationsAdded) (simp_all only: mutationMeta_expectedRelationMutation)
  then have "list_all (\<lambda>f. findDirective (f_directives f) ''MutationMeta''
                            = Some \<lparr>d_name = ''MutationMeta'',
                                    d_arguments = [(''relationship'', getRelationName fieldDir), (''from'', a), (''to'', b)]\<rparr>)
          (if shouldAugmentRelationField cfg MutationOperation typeName fieldValueName
           then relationMutationsAdded typeName cap a b mm (getRelationName fieldDir) node False cfg else [])"
    by simp
  then show "\<exists>added. rootFields tm'' ''Mutation'' = rootFields tm ''Mutation'' @ added
         \<and> list_all (\<lambda>f. findDirective (f_directives f) ''MutationMeta''
                            = Some \<lparr>d_name = ''MutationMeta'',
                                    d_arguments =
                                      [(''relationship'', getRelationName fieldDir),
                                       (''from'', if getRelationDirection fieldDir = Some ''IN''
                                                     \<or> getRelationDirection fieldDir = Some ''in''
                                                  then fieldValueName else typeName),
                                       (''to'', if getRelationDirection fieldDir = Some ''IN''
                                                   \<or> getRelationDirection fieldDir = Some ''in''
                                                then typeName else fieldValueName)]\<rparr>)
              added"
    using eq unfolding a_def b_def by blast
qed


lemma possiblyAddRelationTypeFieldPayload_reflexive_unfold:
  "getType tm (''_'' @ typeName @ cap) = None \<Longrightarrow>
   findDirective (t_directives rel) ''relation'' = Some d \<Longrightarrow>
   lastFieldType (t_fields rel) ''from'' = Some a \<Longrightarrow>
   lastFieldType (t_fields rel) ''to'' = Some a \<Longrightarrow> a \<noteq> [] \<Longrightarrow>
   possiblyAddRelationTypeFieldPayload rel cap typeName tm field =
     bindE (parseTypeDefinition ObjectTypeDefinition ((''_'' @ typeName @ cap) @ ''Directions'')
              (t_directives rel)
              [\<lparr>f_name = ''from'', f_arguments = f_arguments field,
                f_type = wrapList (isListType (f_type field)) (NamedType (''_'' @ typeName @ cap)),
                f_directives = []\<rparr>,
               \<lparr>f_name = ''to'', f_arguments = f_arguments field,
                f_type = wrapList (isListType (f_type field)) (NamedType (''_'' @ typeName @ cap)),
                f_directives = []\<rparr>])
       (\<lambda>directions.
     bindE (parseTypeDefinition ObjectTypeDefinition (''_'' @ typeName @ cap)
              (t_directives rel)
              (filter (\<lambda>t. f_name t \<noteq> ''from'' \<and> f_name t \<noteq> ''to'') (t_fields rel)
               @ [plainField a (NamedType a)]))
       (\<lambda>payload.
     Inr (setType (setType tm ((''_'' @ typeName @ cap) @ ''Directions'') directions)
            (''_'' @ typeName @ cap) payload,
          field\<lparr>f_arguments := []\<rparr>)))"
  by (simp add: possiblyAddRelationTypeFieldPayload_def Let_def getFieldArgumentsFromAst_def printName_def)

lemma possiblyAddRelationTypeFieldPayload_reflexive:
  assumes "possiblyAddRelationTypeFieldPayload rel cap typeName tm field = Inr (tm', field')"
    and "getType tm (''_'' @ typeName @ cap) = None"
    and "findDirective (t_directives rel) ''relation'' = Some d"
    and "lastFieldType (t_fields rel) ''from'' = Some a" "lastFieldType (t_fields rel) ''to'' = Some a"
    and "a \<noteq> []"
  shows "getType tm' ((''_'' @ typeName @ cap) @ ''Directions'') = Some (directionsType (''_'' @ typeName @ cap) rel field)"
    and "getType tm' (''_'' @ typeName @ cap) \<noteq> None"
    and "field' = field\<lparr>f_arguments := []\<rparr>"
proof -
  define ftn where "ftn = ''_'' @ typeName @ cap"
  have ne: "ftn @ ''Directions'' \<noteq> ftn" by simp
  note u = possiblyAddRelationTypeFieldPayload_reflexive_unfold[OF assms(2-6), of field, folded ftn_def]
  from assms(1)[unfolded u] obtain directions payload where
    d: "parseTypeDefinition ObjectTypeDefinition (ftn @ ''Directions'')
                                 (t_directives rel)
                                 [\<lparr>f_name = ''from'', f_arguments = f_arguments field,
                                   f_type = wrapList (isListType (f_type field)) (NamedType ftn),
                                   f_directives = []\<rparr>,
                                  \<lparr>f_name = ''to'', f_arguments = f_arguments field,
                                   f_type = wrapList (isListType (f_type field)) (NamedType ftn),
                                   f_directives = []\<rparr>] = Inr directions"
    and res: "tm' = setType (setType tm (ftn @ ''Directions'') directions) ftn payload"
      "field' = field\<lparr>f_arguments := []\<rparr>"
    by (auto dest!: bindE_Inr)
  from parseTypeDefinition_Inr[OF d]
  have "directions = directionsType ftn rel field"
    by (simp add: directionsType_def)
  then show "getType tm' ((''_'' @ typeName @ cap) @ ''Directions'') = Some (directionsType (''_'' @ typeName @ cap) rel field)"
    using res(1) ne unfolding ftn_def[symmetric] by (simp add: getType_setType)
  show "getType tm' (''_'' @ typeName @ cap) \<noteq> None"
    using res(1) unfolding ftn_def[symmetric] by (simp add: getType_setType)
  show "field' = field\<lparr>f_arguments := []\<rparr>" by (rule res(2))
qed

text \<open>
  When the relationship resolver handles a field whose value is a relationship type
  with \<open>from\<close> equal to \<open>to\<close>, and no type of the payload name
  \<open>_<Type><Field>\<close> exists yet, it stores the directional wrapper type
  \<open>_<Type><Field>Directions\<close> with the sub-fields \<open>from\<close> and \<open>to\<close> of the payload type (a
  list of it when the field is a list), stores the payload type, and rewrites the field:
  its type is the wrapper, not in a list, and its argument list is empty.
\<close>

lemma reflexive_relation_directions:
  assumes "handleRelationTypeDirective rel typeName flds i cap dir cfg tm mm = Inr (tm', flds')"
    and "i < length flds"
    and "reflexiveRelationType rel dir"
    and "getType tm (''_'' @ typeName @ cap) = None"
  shows "getType tm' ((''_'' @ typeName @ cap) @ ''Directions'')
           = Some (directionsType (''_'' @ typeName @ cap) rel (flds ! i))
         \<and> getType tm' (''_'' @ typeName @ cap) \<noteq> None
         \<and> flds' ! i = (flds ! i)\<lparr>f_arguments := [],
                                  f_type := NamedType ((''_'' @ typeName @ cap) @ ''Directions'')\<rparr>"
proof -
  from assms(3) obtain a where a: "lastFieldType (t_fields rel) ''from'' = Some a"
      "lastFieldType (t_fields rel) ''to'' = Some a" "a \<noteq> []"
      "directiveArgument dir ''from'' = Inr a" "directiveArgument dir ''to'' = Inr a"
    and rd: "findDirective (t_directives rel) ''relation'' = Some dir"
    by (auto simp: reflexiveRelationType_def split: option.splits)
  from assms(1) obtain n a' b' tm1 field' where
    a': "directiveArgument dir ''from'' = Inr a'" and
    b': "directiveArgument dir ''to'' = Inr b'" and
    m: "(if shouldAugmentRelationField cfg MutationOperation a' b'
      then bindE (validateRelationTypeDirectedFields typeName a' b')
             (\<lambda>valid. possiblyAddRelationMutationField typeName cap a' b' mm tm n rel True cfg)
      else Inr tm) = Inr tm1" and
    p: "possiblyAddRelationTypeFieldPayload rel cap typeName tm1 (flds ! i) = Inr (tm', field')" and
    f: "flds' = flds[i := replaceRelationTypeValue a' b' field' cap typeName]"
    by (rule handleRelationTypeDirective_Inr)
  have ab: "a' = a" "b' = a" using a a' b' by simp_all
  have k: "''_'' @ typeName @ cap \<noteq> ''Mutation''" by simp
  have "getType tm1 (''_'' @ typeName @ cap) = getType tm (''_'' @ typeName @ cap)"
  proof (cases "shouldAugmentRelationField cfg MutationOperation a' b'")
    case False
    then show ?thesis using m by simp
  next
    case True
    then have "possiblyAddRelationMutationField typeName cap a' b' mm tm n rel True cfg = Inr tm1"
      using m by (auto dest!: bindE_Inr)
    from possiblyAddRelationMutationField_frame[OF this k payload_name_differs payload_name_differs]
    show ?thesis .
  qed
  then have none: "getType tm1 (''_'' @ typeName @ cap) = None" using assms(4) by simp
  note r = possiblyAddRelationTypeFieldPayload_reflexive[OF p none rd a(1) a(2) a(3)]
  have "flds' ! i = replaceRelationTypeValue a a ((flds ! i)\<lparr>f_arguments := []\<rparr>) cap typeName"
    using f assms(2) r(3) ab by simp
  then have "flds' ! i = (flds ! i)\<lparr>f_arguments := [],
                                  f_type := NamedType ((''_'' @ typeName @ cap) @ ''Directions'')\<rparr>"
    by (simp add: replaceRelationTypeValue_def Let_def)
  then show ?thesis using r(1) r(2) by simp
qed


lemma reflexive_relation_directions_example:
  "handleRelationTypeDirective friendOfType ''Person''
       [plainField ''id'' (NonNullType (NamedType ''ID'')), friendsField] 1 ''Friends''
       (relationDirective ''FRIEND_OF'' ''Person'' ''Person'') defaultConfig friendStage []
     = Inr friendsHandled
   \<and> reflexiveRelationType friendOfType (relationDirective ''FRIEND_OF'' ''Person'' ''Person'')
   \<and> getType friendStage ''_PersonFriends'' = None
   \<and> getType (fst friendsHandled) ''_PersonFriendsDirections''
       = Some (directionsType ''_PersonFriends'' friendOfType friendsField)
   \<and> getType (fst friendsHandled) ''_PersonFriends'' \<noteq> None
   \<and> snd friendsHandled ! 1
       = friendsField\<lparr>f_arguments := [], f_type := NamedType ''_PersonFriendsDirections''\<rparr>"
proof -
  have h: "handleRelationTypeDirective friendOfType ''Person''
       [plainField ''id'' (NonNullType (NamedType ''ID'')), friendsField] 1 ''Friends''
       (relationDirective ''FRIEND_OF'' ''Person'' ''Person'') defaultConfig friendStage []
     = Inr (fst friendsHandled, snd friendsHandled)"
    by code_simp
  have i: "(1::nat) < length [plainField ''id'' (NonNullType (NamedType ''ID'')), friendsField]"
    by simp
  have r: "reflexiveRelationType friendOfType (relationDirective ''FRIEND_OF'' ''Person'' ''Person'')"
    by code_simp
  have g: "getType friendStage (''_'' @ ''Person'' @ ''Friends'') = None"
    by code_simp
  show ?thesis
    using reflexive_relation_directions[OF h i r g] h r g by simp
qed

text \<open>
  C5.  On the friends schema with a type \<open>_PersonFriends\<close> of the user's own, the field
  \<open>friends\<close> of \<open>Person\<close> has the reflexive relationship type \<open>FriendOf\<close> as its value, and
  augmentation succeeds without the wrapper: the result holds no type
  \<open>_PersonFriendsDirections\<close>, the field keeps its argument \<open>since\<close>, and yet its type is
  rewritten to \<open>_PersonFriendsDirections\<close>, a type that the result does not define.
\<close>

theorem reflexive_relation_dangling_wrapper:
  "(case augmentTypeMap userPayloadSchema defaultConfig of
      Inl e \<Rightarrow> False
    | Inr typeMap \<Rightarrow>
        getType typeMap ''_PersonFriendsDirections'' = None
        \<and> map (\<lambda>f. (f_name f, f_type f, map iv_name (f_arguments f)))
              (filter (\<lambda>f. f_name f = ''friends'') (typeFields typeMap ''Person''))
            = [(''friends'', NamedType ''_PersonFriendsDirections'', [''since''])])"
  by code_simp

theorem relation_mutation_meta_directive_witness:
  "handleRelationTypeDirective friendOfType ''Person''
       [plainField ''id'' (NonNullType (NamedType ''ID'')), friendsField] 1 ''Friends''
       (relationDirective ''FRIEND_OF'' ''Person'' ''Person'') defaultConfig friendStage []
     = Inr friendsHandled
   \<and> map (\<lambda>f. (f_name f, findDirective (f_directives f) ''MutationMeta''))
         (rootFields (fst friendsHandled) ''Mutation'')
       = [(''AddPersonFriends'',
           Some \<lparr>d_name = ''MutationMeta'',
                 d_arguments = [(''relationship'', ''FRIEND_OF''), (''from'', ''Person''),
                                (''to'', ''Person'')]\<rparr>),
          (''RemovePersonFriends'',
           Some \<lparr>d_name = ''MutationMeta'',
                 d_arguments = [(''relationship'', ''FRIEND_OF''), (''from'', ''Person''),
                                (''to'', ''Person'')]\<rparr>)]
   \<and> (\<exists>n a b added.
         directiveArgument (relationDirective ''FRIEND_OF'' ''Person'' ''Person'') ''name'' = Inr n
         \<and> directiveArgument (relationDirective ''FRIEND_OF'' ''Person'' ''Person'') ''from'' = Inr a
         \<and> directiveArgument (relationDirective ''FRIEND_OF'' ''Person'' ''Person'') ''to'' = Inr b
         \<and> rootFields (fst friendsHandled) ''Mutation'' = rootFields friendStage ''Mutation'' @ added
         \<and> list_all (\<lambda>f. findDirective (f_directives f) ''MutationMeta''
                            = Some \<lparr>d_name = ''MutationMeta'',
                                    d_arguments = [(''relationship'', n), (''from'', a), (''to'', b)]\<rparr>)
              added)
   \<and> handleRelationFieldDirective personType ''Movie'' ''Actors'' ''Person'' actedInDirective []
       actorsStage defaultConfig = Inr actorsHandled
   \<and> map (\<lambda>f. (f_name f, findDirective (f_directives f) ''MutationMeta''))
         (rootFields actorsHandled ''Mutation'')
       = [(''AddMovieActors'',
           Some \<lparr>d_name = ''MutationMeta'',
                 d_arguments = [(''relationship'', ''ACTED_IN''), (''from'', ''Person''),
                                (''to'', ''Movie'')]\<rparr>),
          (''RemoveMovieActors'',
           Some \<lparr>d_name = ''MutationMeta'',
                 d_arguments = [(''relationship'', ''ACTED_IN''), (''from'', ''Person''),
                                (''to'', ''Movie'')]\<rparr>)]"
proof -
  have h1: "handleRelationTypeDirective friendOfType ''Person''
       [plainField ''id'' (NonNullType (NamedType ''ID'')), friendsField] 1 ''Friends''
       (relationDirective ''FRIEND_OF'' ''Person'' ''Person'') defaultConfig friendStage []
     = Inr (fst friendsHandled, snd friendsHandled)"
    by code_simp
  have o1: "map (\<lambda>f. (f_name f, findDirective (f_directives f) ''MutationMeta''))
         (rootFields (fst friendsHandled) ''Mutation'')
       = [(''AddPersonFriends'',
           Some \<lparr>d_name = ''MutationMeta'',
                 d_arguments = [(''relationship'', ''FRIEND_OF''), (''from'', ''Person''),
                                (''to'', ''Person'')]\<rparr>),
          (''RemovePersonFriends'',
           Some \<lparr>d_name = ''MutationMeta'',
                 d_arguments = [(''relationship'', ''FRIEND_OF''), (''from'', ''Person''),
                                (''to'', ''Person'')]\<rparr>)]"
    by code_simp
  have h2: "handleRelationFieldDirective personType ''Movie'' ''Actors'' ''Person'' actedInDirective []
       actorsStage defaultConfig = Inr actorsHandled"
    by code_simp
  have o2: "map (\<lambda>f. (f_name f, findDirective (f_directives f) ''MutationMeta''))
         (rootFields actorsHandled ''Mutation'')
       = [(''AddMovieActors'',
           Some \<lparr>d_name = ''MutationMeta'',
                 d_arguments = [(''relationship'', ''ACTED_IN''), (''from'', ''Person''),
                                (''to'', ''Movie'')]\<rparr>),
          (''RemoveMovieActors'',
           Some \<lparr>d_name = ''MutationMeta'',
                 d_arguments = [(''relationship'', ''ACTED_IN''), (''from'', ''Person''),
                                (''to'', ''Movie'')]\<rparr>)]"
    by code_simp
  note t1 = relation_mutation_meta_directive[where rel = friendOfType and typeName = "''Person''"
      and flds = "[plainField ''id'' (NonNullType (NamedType ''ID'')), friendsField]" and i = 1
      and cap = "''Friends''" and dir = "relationDirective ''FRIEND_OF'' ''Person'' ''Person''"
      and cfg = defaultConfig and tm = friendStage and mm = "[]"
      and tm' = "fst friendsHandled" and flds' = "snd friendsHandled", THEN conjunct1]
  show ?thesis using t1 h1 h2 o1 o2 by simp
qed

subsection \<open>Runs of the pipeline\<close>

text \<open>
  C1.  Two runs of the pipeline on the Person schema with a filter input of the user's
  own, queries enabled and mutations disabled: after the first run the root query field
  \<open>Person\<close> has one argument \<open>orderBy\<close>, after the second run it has two.
\<close>

theorem augmentTypeMap_twice_orderBy:
  "(case augmentTypeMap userFilterSchema queryOnlyConfig of
      Inl e \<Rightarrow> False
    | Inr once \<Rightarrow>
        rootFieldArguments once ''Query'' ''Person''
          = [[''id'', ''name'', ''_id'', ''first'', ''offset'', ''orderBy'', ''filter'']]
        \<and> (case augmentTypeMap once queryOnlyConfig of
             Inl e \<Rightarrow> False
           | Inr twice \<Rightarrow>
               rootFieldArguments twice ''Query'' ''Person''
                 = [[''id'', ''name'', ''_id'', ''first'', ''offset'', ''orderBy'', ''filter'',
                     ''orderBy'']]))"
  by code_simp

text \<open>
  C9.  On a schema where \<open>Person\<close> has a field whose value is the relationship type
  \<open>Rated\<close> from \<open>User\<close> to \<open>Movie\<close>, with mutations enabled, augmentation ends in the
  \<open>ReferenceError\<close> for the identifier \<open>field\<close>, raised while the message of the intended
  error is built; the error carries none of the type name, the field name and the from
  and to values.
\<close>

theorem augmentTypeMap_foreign_relation:
  "augmentTypeMap (ratedSchema ''Person'') defaultConfig = Inl (ReferenceError ''field'')"
  by code_simp


subsection \<open>What the stages write\<close>

lemma set_setType: "set (setType tm k n) \<subseteq> set tm \<union> {(k, n)}"
proof (induction tm)
  case Nil
  then show ?case by simp
next
  case (Cons a tm)
  obtain k' v' where a: "a = (k', v')" by (cases a)
  show ?case using Cons unfolding a by (cases "k' = k") auto
qed

lemma allOK_setType:
  assumes "allOK cfg tm0 tm" "okEntry cfg tm0 k n"
  shows "allOK cfg tm0 (setType tm k n)"
  unfolding allOK_def
proof
  fix e assume "e \<in> set (setType tm k n)"
  then have "e \<in> set tm \<or> e = (k, n)" using set_setType[of tm k n] by auto
  then show "okEntry cfg tm0 (fst e) (snd e)"
    using assms unfolding allOK_def by auto
qed

lemma getType_in_set: "getType tm k = Some n \<Longrightarrow> (k, n) \<in> set tm"
  by (auto simp: getType_def dest: map_of_SomeD)

lemma allOK_getType:
  assumes "allOK cfg tm0 tm" "getType tm k = Some n"
  shows "okEntry cfg tm0 k n"
  using assms(1) getType_in_set[OF assms(2)] unfolding allOK_def by fastforce

lemma in_set_getType_present: "(k, n) \<in> set tm \<Longrightarrow> getType tm k \<noteq> None"
  unfolding getType_def by (metis map_of_eq_None_iff fst_conv image_eqI)

lemma rootFields_in_set:
  assumes "f \<in> set (rootFields tm r)"
  shows "\<exists>d. getType tm r = Some (Definition d) \<and> f \<in> set (t_fields d)"
proof (cases "getType tm r")
  case None
  then show ?thesis using assms by (simp add: rootFields_def)
next
  case (Some n)
  then show ?thesis using assms by (cases n) (simp_all add: rootFields_def)
qed

lemma rootFields_Definition: "getType tm r = Some (Definition d) \<Longrightarrow> rootFields tm r = t_fields d"
  by (simp add: rootFields_def)

lemma allOK_initial:
  assumes "wellKeyed tm0"
  shows "allOK cfg tm0 tm0"
  unfolding allOK_def
proof
  fix e assume e: "e \<in> set tm0"
  obtain k n where kn: "e = (k, n)" by (cases e)
  have d: "distinct (map fst tm0)" using assms by (simp add: wellKeyed_def)
  have g: "getType tm0 k = Some n"
    using e kn d by (simp add: getType_def)
  have named: "\<forall>d. n = Definition d \<longrightarrow> t_name d = k"
    using assms e kn by (auto simp: wellKeyed_def list_all_iff)
  have roots: "f_name f \<in> set (rootFieldNames tm0 k)" if "f \<in> set (nodeFields n)" for f
  proof (cases n)
    case (Definition dd)
    then show ?thesis using that g by (simp add: rootFieldNames_def rootFields_def nodeFields_def)
  next
    case (Document ds)
    then show ?thesis using that by (simp add: nodeFields_def)
  qed
  show "okEntry cfg tm0 (fst e) (snd e)"
    unfolding okEntry_def kn fst_conv snd_conv
    using g named roots by (auto simp: allowedQueryField_def allowedMutationField_def)
qed

subsection \<open>Entries the stages may write\<close>

lemma okEntry_created:
  assumes "k \<noteq> ''Query''" "k \<noteq> ''Mutation''"
    and "definesKind n InputObjectTypeDefinition \<Longrightarrow> allowedInput cfg k"
    and "definesKind n EnumTypeDefinition \<Longrightarrow> allowedEnum cfg k"
    and "\<And>d. n = Definition d \<Longrightarrow> t_name d = k"
  shows "okEntry cfg tm0 k n"
  using assms unfolding okEntry_def by blast

lemma okEntry_document:
  assumes "k \<noteq> ''Query''" "k \<noteq> ''Mutation''"
    and "t_kind d = InputObjectTypeDefinition \<Longrightarrow> allowedInput cfg k"
    and "t_kind d \<noteq> EnumTypeDefinition"
  shows "okEntry cfg tm0 k (Document [d])"
  using assms by (intro okEntry_created) (simp_all add: definesKind_def)

lemma okEntry_modified:
  assumes "okEntry cfg tm0 k (Definition d)"
    and "t_kind d' = t_kind d" "t_name d' = t_name d"
    and "k = ''Query'' \<Longrightarrow> \<forall>f \<in> set (t_fields d'). allowedQueryField cfg tm0 (f_name f)"
    and "k = ''Mutation'' \<Longrightarrow> \<forall>f \<in> set (t_fields d'). allowedMutationField cfg tm0 (f_name f)"
  shows "okEntry cfg tm0 k (Definition d')"
  using assms unfolding okEntry_def by (auto simp: definesKind_def nodeFields_def)

lemma okEntry_same_field_names:
  assumes "okEntry cfg tm0 k (Definition d)"
    and "t_kind d' = t_kind d" "t_name d' = t_name d"
    and "set (map f_name (t_fields d')) \<subseteq> set (map f_name (t_fields d))"
  shows "okEntry cfg tm0 k (Definition d')"
proof (rule okEntry_modified[OF assms(1-3)])
  assume k: "k = ''Query''"
  show "\<forall>f \<in> set (t_fields d'). allowedQueryField cfg tm0 (f_name f)"
  proof
    fix f assume "f \<in> set (t_fields d')"
    then have "f_name f \<in> set (map f_name (t_fields d))" using assms(4) by auto
    then obtain g where "g \<in> set (t_fields d)" "f_name g = f_name f" by auto
    then show "allowedQueryField cfg tm0 (f_name f)"
      using assms(1) k unfolding okEntry_def by (auto simp: nodeFields_def)
  qed
next
  assume k: "k = ''Mutation''"
  show "\<forall>f \<in> set (t_fields d'). allowedMutationField cfg tm0 (f_name f)"
  proof
    fix f assume "f \<in> set (t_fields d')"
    then have "f_name f \<in> set (map f_name (t_fields d))" using assms(4) by auto
    then obtain g where "g \<in> set (t_fields d)" "f_name g = f_name f" by auto
    then show "allowedMutationField cfg tm0 (f_name f)"
      using assms(1) k unfolding okEntry_def by (auto simp: nodeFields_def)
  qed
qed

lemma okEntry_nonroot_fields:
  assumes "okEntry cfg tm0 k (Definition d)"
    and "t_name d \<noteq> ''Query''" "t_name d \<noteq> ''Mutation''"
  shows "okEntry cfg tm0 k (Definition (d\<lparr>t_fields := flds\<rparr>))"
proof -
  have k: "k = t_name d" using assms(1) unfolding okEntry_def by simp
  show ?thesis
    by (rule okEntry_modified[OF assms(1)]) (use assms(2,3) k in simp_all)
qed

lemma okEntry_pushed:
  assumes "okEntry cfg tm0 r (Definition d)"
    and "r = ''Query'' \<Longrightarrow> allowedQueryField cfg tm0 (f_name f)"
    and "r = ''Mutation'' \<Longrightarrow> allowedMutationField cfg tm0 (f_name f)"
  shows "okEntry cfg tm0 r (Definition (d\<lparr>t_fields := t_fields d @ [f]\<rparr>))"
proof (rule okEntry_modified[OF assms(1)])
  assume "r = ''Query''"
  then show "\<forall>g \<in> set (t_fields (d\<lparr>t_fields := t_fields d @ [f]\<rparr>)). allowedQueryField cfg tm0 (f_name g)"
    using assms(1,2) unfolding okEntry_def by (auto simp: nodeFields_def)
next
  assume "r = ''Mutation''"
  then show "\<forall>g \<in> set (t_fields (d\<lparr>t_fields := t_fields d @ [f]\<rparr>)). allowedMutationField cfg tm0 (f_name g)"
    using assms(1,3) unfolding okEntry_def by (auto simp: nodeFields_def)
qed simp_all

lemma allOK_pushRootField:
  assumes "allOK cfg tm0 tm" "pushRootField tm r f = Inr tm'"
    and "r = ''Query'' \<Longrightarrow> allowedQueryField cfg tm0 (f_name f)"
    and "r = ''Mutation'' \<Longrightarrow> allowedMutationField cfg tm0 (f_name f)"
  shows "allOK cfg tm0 tm'"
proof -
  from assms(2) obtain d where d: "getType tm r = Some (Definition d)"
    and tm': "tm' = setType tm r (Definition (d\<lparr>t_fields := t_fields d @ [f]\<rparr>))"
    by (auto simp: pushRootField_def split: option.splits ast_node.splits)
  have "okEntry cfg tm0 r (Definition d)" using allOK_getType[OF assms(1) d] .
  from okEntry_pushed[OF this assms(3,4)] show ?thesis
    unfolding tm' using allOK_setType[OF assms(1)] by blast
qed

lemma foldE_invariant:
  assumes "foldE f xs s = Inr s'" "P s"
    and "\<And>x s s'. x \<in> set xs \<Longrightarrow> P s \<Longrightarrow> f x s = Inr s' \<Longrightarrow> P s'"
  shows "P s'"
  using assms
proof (induction xs arbitrary: s)
  case Nil
  then show ?case by simp
next
  case (Cons x xs)
  from Cons.prems(1) obtain s1 where s1: "f x s = Inr s1" and rest: "foldE f xs s1 = Inr s'"
    by (auto split: sum.splits)
  have "P s1" using Cons.prems(3)[OF _ Cons.prems(2) s1] by simp
  show ?case
  proof (rule Cons.IH[OF rest \<open>P s1\<close>])
    fix y t t' assume "y \<in> set xs" "P t" "f y t = Inr t'"
    then show "P t'" using Cons.prems(3)[of y t t'] by simp
  qed
qed


subsection \<open>The stages before the loop\<close>

lemma okEntry_root:
  assumes "r = ''Query'' \<Longrightarrow> list_ex (\<lambda>e. permittedNodeType cfg QueryOperation (snd e)) tm0"
    and "r = ''Mutation'' \<Longrightarrow> list_ex (\<lambda>e. permittedNodeType cfg MutationOperation (snd e)) tm0"
  shows "okEntry cfg tm0 r (Definition \<lparr>t_kind = ObjectTypeDefinition, t_name = r, t_fields = [],
           t_directives = [], t_values = []\<rparr>)"
  using assms by (simp add: okEntry_def definesKind_def nodeFields_def)

lemma allOK_possiblyAddObjectType:
  assumes "allOK cfg tm0 tm"
    and "r = ''Query'' \<Longrightarrow> list_ex (\<lambda>e. permittedNodeType cfg QueryOperation (snd e)) tm0"
    and "r = ''Mutation'' \<Longrightarrow> list_ex (\<lambda>e. permittedNodeType cfg MutationOperation (snd e)) tm0"
  shows "allOK cfg tm0 (possiblyAddObjectType tm r)"
  unfolding possiblyAddObjectType_def
  using assms(1) allOK_setType[OF assms(1) okEntry_root[OF assms(2,3)]] by simp

lemma allOK_initializeOperationTypes:
  assumes "wellKeyed tm0"
  shows "allOK cfg tm0 (initializeOperationTypes tm0 cfg)"
proof -
  define q where "q = truthyKey (hasNonExcludedNodeType (map fst tm0) tm0 QueryOperation cfg)"
  define typeMap1 where "typeMap1 = (if q then possiblyAddObjectType tm0 ''Query'' else tm0)"
  define m where "m = truthyKey (hasNonExcludedNodeType (map fst tm0) typeMap1 MutationOperation cfg)"
  have init: "initializeOperationTypes tm0 cfg
           = (if m then possiblyAddObjectType typeMap1 ''Mutation'' else typeMap1)"
    unfolding initializeOperationTypes_def Let_def
    unfolding m_def
    unfolding typeMap1_def
    unfolding q_def
    by (rule refl)
  have node1: "getType typeMap1 k = getType tm0 k" if "isNodeType (getType typeMap1 k)" for k
  proof (cases q)
    case True
    then show ?thesis
      using that isNodeType_getType_possiblyAddObjectType[of tm0 k]
      by (simp only: typeMap1_def if_True)
  next
    case False
    then show ?thesis by (simp only: typeMap1_def if_False)
  qed
  have ok0: "allOK cfg tm0 tm0" using assms by (rule allOK_initial)
  have ok1: "allOK cfg tm0 typeMap1"
  proof (cases q)
    case True
    then have "list_ex (\<lambda>e. permittedNodeType cfg QueryOperation (snd e)) tm0"
      unfolding q_def by (rule hasNonExcludedNodeType_permitted) simp
    then have "allOK cfg tm0 (possiblyAddObjectType tm0 ''Query'')"
      by (intro allOK_possiblyAddObjectType[OF ok0]) simp_all
    then show ?thesis using True by (simp only: typeMap1_def if_True)
  next
    case False
    then show ?thesis using ok0 by (simp only: typeMap1_def if_False)
  qed
  show ?thesis
  proof (cases m)
    case True
    then have "list_ex (\<lambda>e. permittedNodeType cfg MutationOperation (snd e)) tm0"
      unfolding m_def using node1 by (rule hasNonExcludedNodeType_permitted)
    then have "allOK cfg tm0 (possiblyAddObjectType typeMap1 ''Mutation'')"
      by (intro allOK_possiblyAddObjectType[OF ok1]) simp_all
    then show ?thesis using True by (simp only: init if_True)
  next
    case False
    then show ?thesis using ok1 by (simp only: init if_False)
  qed
qed

lemma normalizeRelationType_same:
  assumes "normalizeRelationType d fr t = Inr d'"
  shows "t_kind d' = t_kind d" "t_name d' = t_name d" "t_fields d' = t_fields d"
  using assms by (auto simp: normalizeRelationType_result split: if_splits)

lemma allOK_addRelationTypeDirective:
  assumes "allOK cfg tm0 tm" "addRelationTypeDirective k tm = Inr tm'"
  shows "allOK cfg tm0 tm'"
proof (cases "tm' = tm")
  case True
  then show ?thesis using assms(1) by simp
next
  case False
  with assms(2) obtain d fr t d' where g: "getType tm k = Some (Definition d)"
    and n: "normalizeRelationType d fr t = Inr d'"
    and tm': "tm' = setType tm k (Definition d')"
    by (auto simp: addRelationTypeDirective_def bindE_def
        split: option.splits ast_node.splits if_splits sum.splits)
  have "okEntry cfg tm0 k (Definition d)" using allOK_getType[OF assms(1) g] .
  then have "okEntry cfg tm0 k (Definition d')"
    by (rule okEntry_same_field_names) (simp_all add: normalizeRelationType_same[OF n])
  then show ?thesis unfolding tm' by (rule allOK_setType[OF assms(1)])
qed

lemma allOK_addRelationTypeDirectives:
  assumes "allOK cfg tm0 tm" "addRelationTypeDirectives tm = Inr tm'"
  shows "allOK cfg tm0 tm'"
  using assms(2) unfolding addRelationTypeDirectives_def
  by (rule foldE_invariant[where P = "allOK cfg tm0"]) (use assms(1) allOK_addRelationTypeDirective in blast)+

lemma okEntry_temporalType:
  assumes "k = InputObjectTypeDefinition \<Longrightarrow> allowedInput cfg name"
    and "k \<noteq> EnumTypeDefinition" "name \<noteq> ''Query''" "name \<noteq> ''Mutation''"
  shows "okEntry cfg tm0 name (temporalType k name flds)"
  using assms unfolding temporalType_def
  by (intro okEntry_created) (auto simp: definesKind_def)

lemma allowedInput_Input: "allowedInput cfg (CHR ''_'' # A @ ''Input'')"
  unfolding allowedInput_def by auto

lemma allOK_addTemporalPair:
  assumes "allOK cfg tm0 tm" "name = CHR ''_'' # A"
  shows "allOK cfg tm0 (addTemporalPair enabled name flds inputFields tm)"
proof -
  have a: "okEntry cfg tm0 name (temporalType ObjectTypeDefinition name flds)"
    using assms(2) by (intro okEntry_temporalType) simp_all
  have b: "okEntry cfg tm0 (name @ ''Input'')
             (temporalType InputObjectTypeDefinition (name @ ''Input'') inputFields)"
    using assms(2) allowedInput_Input[of cfg A] by (intro okEntry_temporalType) simp_all
  show ?thesis unfolding addTemporalPair_def
    using assms(1) allOK_setType[OF allOK_setType[OF assms(1) a] b] by simp
qed

lemma allOK_temporalTypes:
  assumes "allOK cfg tm0 tm"
  shows "allOK cfg tm0 (temporalTypes tm types)"
  unfolding temporalTypes_def Let_def
  by (intro allOK_addTemporalPair assms) simp_all

lemma f_name_transformTemporalField: "f_name (transformTemporalField c f) = f_name f"
  by (simp add: transformTemporalField_def transformTemporalFieldArgs_def)

lemma okEntry_transformTemporalEntry:
  assumes "okEntry cfg tm0 (fst e) (snd e)"
  shows "okEntry cfg tm0 (fst (transformTemporalEntry c e)) (snd (transformTemporalEntry c e))"
proof (cases e)
  case (Pair t node)
  show ?thesis
  proof (cases node)
    case (Definition d)
    have "okEntry cfg tm0 t (Definition (d\<lparr>t_fields := map (transformTemporalField c) (t_fields d)\<rparr>))"
      using assms unfolding Pair Definition fst_conv snd_conv
      by (rule okEntry_same_field_names) (simp_all add: f_name_transformTemporalField comp_def)
    then show ?thesis using assms unfolding Pair Definition
      by (simp add: transformTemporalEntry_def)
  next
    case (Document ds)
    then show ?thesis using assms unfolding Pair by (simp add: transformTemporalEntry_def)
  qed
qed

lemma allOK_addTemporalTypes:
  assumes "allOK cfg tm0 tm"
  shows "allOK cfg tm0 (addTemporalTypes tm cfg)"
  using allOK_temporalTypes[OF assms] okEntry_transformTemporalEntry
  unfolding addTemporalTypes_def Let_def transformTemporalFields_def allOK_def
  by auto


subsection \<open>The stages of one round\<close>

lemma allowedMutationField_type:
  "shouldAugmentType cfg MutationOperation A \<Longrightarrow> allowedMutationField cfg tm0 (mutationTypeName m @ A)"
  unfolding allowedMutationField_def by (cases m) (auto simp: mutationTypeName_def)

lemma allowedMutationField_relation:
  "action = ''Add'' \<or> action = ''Remove'' \<Longrightarrow> allowedMutationField cfg tm0 (action @ x)"
  unfolding allowedMutationField_def by auto

lemma allOK_parsed:
  assumes "allOK cfg tm0 tm"
    and "bindE (parseTypeDefinition k name ds flds) (\<lambda>node. Inr (setType tm name node)) = Inr tm'"
    and "name \<noteq> ''Query''" "name \<noteq> ''Mutation''"
    and "k = InputObjectTypeDefinition \<Longrightarrow> allowedInput cfg name"
    and "k \<noteq> EnumTypeDefinition"
  shows "allOK cfg tm0 tm'"
proof -
  from bindE_Inr[OF assms(2)] obtain node where n: "parseTypeDefinition k name ds flds = Inr node"
    and tm': "tm' = setType tm name node" by auto
  from parseTypeDefinition_Inr[OF n]
  have node: "node = Document [\<lparr>t_kind = k, t_name = name, t_fields = flds, t_directives = ds, t_values = []\<rparr>]"
    by simp
  have "okEntry cfg tm0 name node" unfolding node
    using assms(3-6) by (intro okEntry_document) simp_all
  then show ?thesis unfolding tm' by (rule allOK_setType[OF assms(1)])
qed

lemma allOK_possiblyAddQuery:
  assumes "allOK cfg tm0 tm" "possiblyAddQuery node tm cfg = Inr tm'"
  shows "allOK cfg tm0 tm'"
proof (cases node)
  case (Document ds)
  then show ?thesis using assms(2) by simp
next
  case (Definition d)
  show ?thesis
  proof (cases "tm' = tm")
    case True
    then show ?thesis using assms(1) by simp
  next
    case False
    with assms(2) obtain f where push: "pushRootField tm ''Query'' f = Inr tm'"
      and f: "f_name f = t_name d" and s: "shouldAugmentType cfg QueryOperation (t_name d)"
      unfolding Definition by (auto simp: Let_def split: if_splits)
    show ?thesis
      by (rule allOK_pushRootField[OF assms(1) push]) (simp_all add: f s allowedQueryField_def)
  qed
qed

lemma allOK_possiblyAddOrderingEnum:
  assumes "allOK cfg tm0 tm" "possiblyAddOrderingEnum node tm cfg = Inr tm'"
  shows "allOK cfg tm0 tm'"
proof (cases node)
  case (Document ds)
  then show ?thesis using assms(2) by simp
next
  case (Definition d)
  show ?thesis
  proof (cases "tm' = tm")
    case True
    then show ?thesis using assms(1) by simp
  next
    case False
    define name where "name = ''_'' @ t_name d @ ''Ordering''"
    from False assms(2) obtain vs where tm': "tm' = setType tm name
        (Definition \<lparr>t_kind = EnumTypeDefinition, t_name = name, t_fields = [],
                            t_directives = [], t_values = vs\<rparr>)"
      and s: "shouldAugmentType cfg QueryOperation (t_name d)"
      unfolding Definition name_def by (auto simp: Let_def split: if_splits)
    have "allowedEnum cfg name" unfolding allowedEnum_def name_def using s by blast
    then have "okEntry cfg tm0 name (Definition \<lparr>t_kind = EnumTypeDefinition, t_name = name, t_fields = [],
                            t_directives = [], t_values = vs\<rparr>)"
      by (intro okEntry_created) (auto simp: definesKind_def name_def)
    then show ?thesis unfolding tm' by (rule allOK_setType[OF assms(1)])
  qed
qed

lemma allOK_possiblyAddTypeInput:
  assumes "allOK cfg tm0 tm" "possiblyAddTypeInput node tm cfg = Inr tm'"
  shows "allOK cfg tm0 tm'"
proof (cases node)
  case (Document ds)
  then show ?thesis using assms(2) by simp
next
  case (Definition d)
  show ?thesis
  proof (cases "tm' = tm")
    case True
    then show ?thesis using assms(1) by simp
  next
    case False
    define name where "name = ''_'' @ t_name d @ ''Input''"
    from False assms(2) obtain flds where
      b: "bindE (parseTypeDefinition InputObjectTypeDefinition name [] flds)
            (\<lambda>node. Inr (setType tm name node)) = Inr tm'"
      unfolding Definition name_def
      by (auto simp: Let_def split: if_splits option.splits)
    have a: "allowedInput cfg name" unfolding allowedInput_def name_def by blast
    show ?thesis
      by (rule allOK_parsed[OF assms(1) b]) (simp_all add: a, simp_all add: name_def)
  qed
qed

lemma allOK_possiblyAddFilterInput:
  assumes "allOK cfg tm0 tm" "possiblyAddFilterInput node tm cfg = Inr tm'"
  shows "allOK cfg tm0 tm'"
proof (cases node)
  case (Document ds)
  then show ?thesis using assms(2) by simp
next
  case (Definition d)
  show ?thesis
  proof (cases "tm' = tm")
    case True
    then show ?thesis using assms(1) by simp
  next
    case False
    define name where "name = ''_'' @ t_name d @ ''Filter''"
    from False assms(2) obtain flds where
      b: "bindE (parseTypeDefinition InputObjectTypeDefinition name [] flds)
            (\<lambda>node. Inr (setType tm name node)) = Inr tm'"
      and s: "shouldAugmentType cfg QueryOperation (t_name d)"
      unfolding Definition name_def
      by (auto simp: Let_def split: if_splits)
    have a: "allowedInput cfg name" unfolding allowedInput_def name_def using s by blast
    show ?thesis
      by (rule allOK_parsed[OF assms(1) b]) (simp_all add: a, simp_all add: name_def)
  qed
qed

lemma allOK_possiblyAddTypeMutation:
  assumes "allOK cfg tm0 tm" "possiblyAddTypeMutation m d tm mm cfg = Inr tm'"
    and "shouldAugmentType cfg MutationOperation (t_name d)"
  shows "allOK cfg tm0 tm'"
proof (cases "tm' = tm")
  case True
  then show ?thesis using assms(1) by simp
next
  case False
  with assms(2) obtain f where push: "pushRootField tm ''Mutation'' f = Inr tm'"
    and f: "f_name f = mutationTypeName m @ t_name d"
    by (auto simp: possiblyAddTypeMutation_def Let_def split: if_splits option.splits)
  show ?thesis
    by (rule allOK_pushRootField[OF assms(1) push])
       (simp_all add: f allowedMutationField_type[OF assms(3)])
qed

lemma allOK_possiblyAddTypeMutations:
  assumes "allOK cfg tm0 tm" "possiblyAddTypeMutations node tm cfg = Inr tm'"
  shows "allOK cfg tm0 tm'"
proof (cases node)
  case (Document ds)
  then show ?thesis using assms(2) by simp
next
  case (Definition d)
  show ?thesis
  proof (cases "tm' = tm")
    case True
    then show ?thesis using assms(1) by simp
  next
    case False
    define mm where "mm = createOperationMap (getType tm ''Mutation'')"
    from False assms(2) have s: "shouldAugmentType cfg MutationOperation (t_name d)"
      and b: "bindE (possiblyAddTypeMutation Create d tm mm cfg)
                      (\<lambda>typeMap1.
                    bindE (possiblyAddTypeMutation Update d typeMap1 mm cfg)
                      (\<lambda>typeMap2.
                    possiblyAddTypeMutation Delete d typeMap2 mm cfg)) = Inr tm'"
      unfolding Definition mm_def by (auto simp: Let_def split: if_splits)
    from bindE_Inr[OF b] obtain tm1 where 1: "possiblyAddTypeMutation Create d tm mm cfg = Inr tm1"
      and b2: "bindE (possiblyAddTypeMutation Update d tm1 mm cfg)
                      (\<lambda>typeMap2. possiblyAddTypeMutation Delete d typeMap2 mm cfg) = Inr tm'"
      by auto
    from bindE_Inr[OF b2] obtain tm2 where 2: "possiblyAddTypeMutation Update d tm1 mm cfg = Inr tm2"
      and 3: "possiblyAddTypeMutation Delete d tm2 mm cfg = Inr tm'"
      by auto
    have ok1: "allOK cfg tm0 tm1" by (rule allOK_possiblyAddTypeMutation[OF assms(1) 1 s])
    have ok2: "allOK cfg tm0 tm2" by (rule allOK_possiblyAddTypeMutation[OF ok1 2 s])
    show ?thesis by (rule allOK_possiblyAddTypeMutation[OF ok2 3 s])
  qed
qed


lemma allOK_addRelationMutation:
  assumes "allOK cfg tm0 tm"
    and "addRelationMutation action typeName cap fromName toName mm relationName rel hasProps cfg tm = Inr tm'"
    and "action = ''Add'' \<or> action = ''Remove''"
  shows "allOK cfg tm0 tm'"
proof (cases "tm' = tm")
  case True
  then show ?thesis using assms(1) by simp
next
  case False
  define p where "p = ''_'' @ (action @ typeName @ cap) @ ''Payload''"
  from False assms(2) obtain f ds flds where
    b: "bindE (pushRootField tm ''Mutation'' f)
          (\<lambda>typeMap1. if getType typeMap1 p = None
             then bindE (parseTypeDefinition ObjectTypeDefinition p ds flds)
                    (\<lambda>node. Inr (setType typeMap1 p node))
             else Inr typeMap1) = Inr tm'"
    and f: "f_name f = action @ typeName @ cap"
    unfolding addRelationMutation_def Let_def p_def
    by (auto simp: relationMutationField_def split: if_splits)
  from bindE_Inr[OF b] obtain tm1 where push: "pushRootField tm ''Mutation'' f = Inr tm1"
    and rest: "(if getType tm1 p = None
             then bindE (parseTypeDefinition ObjectTypeDefinition p ds flds)
                    (\<lambda>node. Inr (setType tm1 p node))
             else Inr tm1) = Inr tm'"
    by auto
  have ok1: "allOK cfg tm0 tm1"
    by (rule allOK_pushRootField[OF assms(1) push])
       (simp_all add: f allowedMutationField_relation[OF assms(3)])
  show ?thesis
  proof (cases "getType tm1 p = None")
    case True
    with rest have "bindE (parseTypeDefinition ObjectTypeDefinition p ds flds)
                    (\<lambda>node. Inr (setType tm1 p node)) = Inr tm'" by simp
    then show ?thesis
      by (rule allOK_parsed[OF ok1]) (simp_all add: p_def)
  next
    case False
    with rest ok1 show ?thesis by simp
  qed
qed

lemma allOK_possiblyAddRelationMutationField:
  assumes "allOK cfg tm0 tm"
    and "possiblyAddRelationMutationField typeName cap fromName toName mm tm relationName rel hasProps cfg = Inr tm'"
  shows "allOK cfg tm0 tm'"
  using assms(2) unfolding possiblyAddRelationMutationField_def
proof (rule foldE_invariant[where P = "allOK cfg tm0"])
  show "allOK cfg tm0 tm" by (rule assms(1))
next
  fix x s s'
  assume "x \<in> set [''Add'', ''Remove'']" "allOK cfg tm0 s"
    "addRelationMutation x typeName cap fromName toName mm relationName rel hasProps cfg s = Inr s'"
  then show "allOK cfg tm0 s'" using allOK_addRelationMutation[of cfg tm0 s x] by auto
qed

lemma allOK_possiblyAddRelationTypeFieldPayload:
  assumes "allOK cfg tm0 tm"
    and "possiblyAddRelationTypeFieldPayload rel cap typeName tm field = Inr (tm', field')"
  shows "allOK cfg tm0 tm'"
proof (cases "tm' = tm")
  case True
  then show ?thesis using assms(1) by simp
next
  case False
  define p where "p = ''_'' @ typeName @ cap"
  have p: "p \<noteq> ''Query''" "p \<noteq> ''Mutation''" "p @ ''Directions'' \<noteq> ''Query''"
    "p @ ''Directions'' \<noteq> ''Mutation''"
    by (simp_all add: p_def)
  have doc: "okEntry cfg tm0 k (Document [\<lparr>t_kind = ObjectTypeDefinition, t_name = n, t_fields = flds,
                t_directives = ds, t_values = []\<rparr>])"
    if "k \<noteq> ''Query''" "k \<noteq> ''Mutation''" for k n flds ds
    using that by (intro okEntry_document) simp_all
  from False assms(2) consider
    (both) d1 d2 where "tm' = setType (setType tm (p @ ''Directions'') d1) p d2"
      "\<exists>n flds ds. d1 = Document [\<lparr>t_kind = ObjectTypeDefinition, t_name = n, t_fields = flds,
                t_directives = ds, t_values = []\<rparr>]"
      "\<exists>n flds ds. d2 = Document [\<lparr>t_kind = ObjectTypeDefinition, t_name = n, t_fields = flds,
                t_directives = ds, t_values = []\<rparr>]"
  | (one) d2 where "tm' = setType tm p d2"
      "\<exists>n flds ds. d2 = Document [\<lparr>t_kind = ObjectTypeDefinition, t_name = n, t_fields = flds,
                t_directives = ds, t_values = []\<rparr>]"
    unfolding possiblyAddRelationTypeFieldPayload_def Let_def p_def
    by (auto simp: parseTypeDefinition_def bindE_def split: if_splits sum.splits)
  then show ?thesis
  proof cases
    case both
    then show ?thesis using doc p allOK_setType[OF allOK_setType[OF assms(1)]] by metis
  next
    case one
    then show ?thesis using doc p allOK_setType[OF assms(1)] by metis
  qed
qed

lemma allOK_handleRelationTypeDirective:
  assumes "allOK cfg tm0 tm"
    and "handleRelationTypeDirective rel typeName flds i cap dir cfg tm mm = Inr (tm', flds')"
  shows "allOK cfg tm0 tm'"
proof -
  from assms(2) obtain n a b tm1 field' where
    m: "(if shouldAugmentRelationField cfg MutationOperation a b
      then bindE (validateRelationTypeDirectedFields typeName a b)
             (\<lambda>valid. possiblyAddRelationMutationField typeName cap a b mm tm n rel True cfg)
      else Inr tm) = Inr tm1"
    and pl: "possiblyAddRelationTypeFieldPayload rel cap typeName tm1 (flds ! i) = Inr (tm', field')"
    by (rule handleRelationTypeDirective_Inr)
  have ok1: "allOK cfg tm0 tm1"
  proof (cases "shouldAugmentRelationField cfg MutationOperation a b")
    case True
    with m have "bindE (validateRelationTypeDirectedFields typeName a b)
             (\<lambda>valid. possiblyAddRelationMutationField typeName cap a b mm tm n rel True cfg) = Inr tm1"
      by simp
    from bindE_Inr[OF this] have
      "possiblyAddRelationMutationField typeName cap a b mm tm n rel True cfg = Inr tm1" by auto
    then show ?thesis by (rule allOK_possiblyAddRelationMutationField[OF assms(1)])
  next
    case False
    with m assms(1) show ?thesis by simp
  qed
  show ?thesis by (rule allOK_possiblyAddRelationTypeFieldPayload[OF ok1 pl])
qed

lemma allOK_handleRelationFieldDirective:
  assumes "allOK cfg tm0 tm"
    and "handleRelationFieldDirective rel typeName cap fieldValueName dir mm tm cfg = Inr tm'"
  shows "allOK cfg tm0 tm'"
proof (cases "shouldAugmentRelationField cfg MutationOperation typeName fieldValueName")
  case True
  with assms(2) obtain a b where
    "possiblyAddRelationMutationField typeName cap a b mm tm (getRelationName dir) rel False cfg = Inr tm'"
    by (simp add: handleRelationFieldDirective_def Let_def)
  then show ?thesis by (rule allOK_possiblyAddRelationMutationField[OF assms(1)])
next
  case False
  with assms show ?thesis by (simp add: handleRelationFieldDirective_def)
qed

lemma allOK_handleRelationField:
  assumes "allOK cfg tm0 (fst s)" "handleRelationField typeName mm cfg i s = Inr s'"
  shows "allOK cfg tm0 (fst s')"
proof (cases s)
  case (Pair tm flds)
  show ?thesis
  proof (cases "fst s' = tm")
    case True
    then show ?thesis using assms(1) Pair by simp
  next
    case False
    with assms(2) consider
      (field) rel cap v dir where
        "bindE (handleRelationFieldDirective rel typeName cap v dir mm tm cfg)
            (\<lambda>typeMap1. Inr (typeMap1, flds)) = Inr s'"
    | (type) rel cap dir where
        "handleRelationTypeDirective rel typeName flds i cap dir cfg tm mm = Inr s'"
      unfolding Pair handleRelationField_def Let_def
      by (auto split: if_splits option.splits ast_node.splits)
    then show ?thesis
    proof cases
      case field
      from bindE_Inr[OF field] obtain tm1 where
        "handleRelationFieldDirective rel typeName cap v dir mm tm cfg = Inr tm1" "s' = (tm1, flds)"
        by auto
      then show ?thesis using allOK_handleRelationFieldDirective[of cfg tm0 tm] assms(1) Pair
        by auto
    next
      case type
      then show ?thesis using allOK_handleRelationTypeDirective[of cfg tm0 tm] assms(1) Pair
        by (cases s') auto
    qed
  qed
qed

lemma allOK_storeFields:
  assumes "allOK cfg tm0 tm" "key \<noteq> ''Query''" "key \<noteq> ''Mutation''"
  shows "allOK cfg tm0 (storeFields tm key flds)"
proof (cases "storeFields tm key flds = tm")
  case True
  then show ?thesis using assms(1) by simp
next
  case False
  then obtain d where g: "getType tm key = Some (Definition d)"
    and s: "storeFields tm key flds = setType tm key (Definition (d\<lparr>t_fields := flds\<rparr>))"
    by (auto simp: storeFields_def split: option.splits ast_node.splits)
  have ok: "okEntry cfg tm0 key (Definition d)" using allOK_getType[OF assms(1) g] .
  then have "t_name d = key" unfolding okEntry_def by simp
  then have "okEntry cfg tm0 key (Definition (d\<lparr>t_fields := flds\<rparr>))"
    using assms(2,3) by (intro okEntry_nonroot_fields[OF ok]) simp_all
  then show ?thesis unfolding s by (rule allOK_setType[OF assms(1)])
qed

lemma allOK_handleRelationFields:
  assumes "allOK cfg tm0 tm" "handleRelationFields key node tm cfg = Inr tm'"
    and "okEntry cfg tm0 key node"
  shows "allOK cfg tm0 tm'"
proof (cases node)
  case (Document ds)
  then show ?thesis using assms(2) by simp
next
  case (Definition d)
  show ?thesis
  proof (cases "isNodeType (Some (Definition d))")
    case False
    then show ?thesis using assms(1,2) unfolding Definition
      by (simp add: Let_def del: isNodeType.simps)
  next
    case True
    define mm where "mm = createOperationMap (getType tm ''Mutation'')"
    from True assms(2) have
      b: "bindE (foldE (handleRelationField (t_name d) mm cfg) [0 ..< length (t_fields d)]
                    (tm, t_fields d))
             (\<lambda>(typeMap1, flds1). Inr (storeFields typeMap1 key flds1)) = Inr tm'"
      unfolding Definition mm_def by (simp add: Let_def del: isNodeType.simps)
    from bindE_Inr[OF b] obtain s1 where
      f: "foldE (handleRelationField (t_name d) mm cfg) [0 ..< length (t_fields d)] (tm, t_fields d) = Inr s1"
      and st: "tm' = storeFields (fst s1) key (snd s1)"
      by (auto split: prod.splits)
    have ok1: "allOK cfg tm0 (fst s1)"
      using f
    proof (rule foldE_invariant[where P = "\<lambda>s. allOK cfg tm0 (fst s)"])
      show "allOK cfg tm0 (fst (tm, t_fields d))" using assms(1) by simp
    next
      fix x s s'
      assume "allOK cfg tm0 (fst s)" "handleRelationField (t_name d) mm cfg x s = Inr s'"
      then show "allOK cfg tm0 (fst s')" by (rule allOK_handleRelationField)
    qed
    have "t_name d = key" using assms(3) unfolding Definition okEntry_def by simp
    then have "key \<noteq> ''Query''" "key \<noteq> ''Mutation''" using True by auto
    then show ?thesis unfolding st by (rule allOK_storeFields[OF ok1])
  qed
qed

lemma okEntry_currentNode:
  assumes "allOK cfg tm0 tm" "okEntry cfg tm0 name type"
  shows "okEntry cfg tm0 name (currentNode tm name type)"
proof (cases "currentNode tm name type = type")
  case True
  then show ?thesis using assms(2) by simp
next
  case False
  then obtain d where "getType tm name = Some (Definition d)" "currentNode tm name type = Definition d"
    by (auto simp: currentNode_def split: option.splits ast_node.splits)
  then show ?thesis using allOK_getType[OF assms(1)] by simp
qed

lemma okEntry_augmentType:
  assumes "okEntry cfg tm0 name node"
  shows "okEntry cfg tm0 name (augmentType node tm cfg)"
proof (cases node)
  case (Document ds)
  then show ?thesis using assms by simp
next
  case (Definition d)
  show ?thesis
  proof (cases "isNodeType (Some (Definition d))")
    case False
    then show ?thesis using assms unfolding Definition by (simp del: isNodeType.simps)
  next
    case True
    then have r: "t_name d \<noteq> ''Query''" "t_name d \<noteq> ''Mutation''" by auto
    obtain flds where "augmentType (Definition d) tm cfg = Definition (d\<lparr>t_fields := flds\<rparr>)"
      using True by (cases "shouldAugmentType cfg QueryOperation (t_name d)")
        (simp_all add: Let_def del: isNodeType.simps)
    then show ?thesis unfolding Definition
      using okEntry_nonroot_fields[OF assms[unfolded Definition] r] by simp
  qed
qed

lemma allOK_augmentEntry:
  assumes "allOK cfg tm0 tm" "augmentEntry cfg e tm = Inr tm'"
    and "okEntry cfg tm0 (fst e) (snd e)"
  shows "allOK cfg tm0 tm'"
proof (cases e)
  case (Pair name type)
  have ok: "okEntry cfg tm0 name type" using assms(3) Pair by simp
  show ?thesis
  proof (cases "isTemporalType name")
    case True
    then show ?thesis using assms(1,2) Pair by (simp add: augmentEntry_def)
  next
    case False
    define tm1 where "tm1 = setType tm name (augmentType (currentNode tm name type) tm cfg)"
    from False assms(2) have
      b: "bindE (possiblyAddQuery (currentNode tm1 name type) tm1 cfg) (\<lambda>typeMap2.
               bindE (possiblyAddOrderingEnum (currentNode typeMap2 name type) typeMap2 cfg) (\<lambda>typeMap3.
               bindE (possiblyAddTypeInput (currentNode typeMap3 name type) typeMap3 cfg) (\<lambda>typeMap4.
               bindE (possiblyAddFilterInput (currentNode typeMap4 name type) typeMap4 cfg) (\<lambda>typeMap5.
               bindE (possiblyAddTypeMutations (currentNode typeMap5 name type) typeMap5 cfg) (\<lambda>typeMap6.
               handleRelationFields name (currentNode typeMap6 name type) typeMap6 cfg))))) = Inr tm'"
      unfolding Pair augmentEntry_def tm1_def by (simp add: Let_def)
    from bindE_Inr[OF b] obtain tm2 where
      s2: "possiblyAddQuery (currentNode tm1 name type) tm1 cfg = Inr tm2"
      and b2: "bindE (possiblyAddOrderingEnum (currentNode tm2 name type) tm2 cfg) (\<lambda>typeMap3.
               bindE (possiblyAddTypeInput (currentNode typeMap3 name type) typeMap3 cfg) (\<lambda>typeMap4.
               bindE (possiblyAddFilterInput (currentNode typeMap4 name type) typeMap4 cfg) (\<lambda>typeMap5.
               bindE (possiblyAddTypeMutations (currentNode typeMap5 name type) typeMap5 cfg) (\<lambda>typeMap6.
               handleRelationFields name (currentNode typeMap6 name type) typeMap6 cfg)))) = Inr tm'"
      by auto
    from bindE_Inr[OF b2] obtain tm3 where
      s3: "possiblyAddOrderingEnum (currentNode tm2 name type) tm2 cfg = Inr tm3"
      and b3: "bindE (possiblyAddTypeInput (currentNode tm3 name type) tm3 cfg) (\<lambda>typeMap4.
               bindE (possiblyAddFilterInput (currentNode typeMap4 name type) typeMap4 cfg) (\<lambda>typeMap5.
               bindE (possiblyAddTypeMutations (currentNode typeMap5 name type) typeMap5 cfg) (\<lambda>typeMap6.
               handleRelationFields name (currentNode typeMap6 name type) typeMap6 cfg))) = Inr tm'"
      by auto
    from bindE_Inr[OF b3] obtain tm4 where
      s4: "possiblyAddTypeInput (currentNode tm3 name type) tm3 cfg = Inr tm4"
      and b4: "bindE (possiblyAddFilterInput (currentNode tm4 name type) tm4 cfg) (\<lambda>typeMap5.
               bindE (possiblyAddTypeMutations (currentNode typeMap5 name type) typeMap5 cfg) (\<lambda>typeMap6.
               handleRelationFields name (currentNode typeMap6 name type) typeMap6 cfg)) = Inr tm'"
      by auto
    from bindE_Inr[OF b4] obtain tm5 where
      s5: "possiblyAddFilterInput (currentNode tm4 name type) tm4 cfg = Inr tm5"
      and b5: "bindE (possiblyAddTypeMutations (currentNode tm5 name type) tm5 cfg) (\<lambda>typeMap6.
               handleRelationFields name (currentNode typeMap6 name type) typeMap6 cfg) = Inr tm'"
      by auto
    from bindE_Inr[OF b5] obtain tm6 where
      s6: "possiblyAddTypeMutations (currentNode tm5 name type) tm5 cfg = Inr tm6"
      and s7: "handleRelationFields name (currentNode tm6 name type) tm6 cfg = Inr tm'"
      by auto
    have ok1: "allOK cfg tm0 tm1" unfolding tm1_def
      by (rule allOK_setType[OF assms(1) okEntry_augmentType[OF okEntry_currentNode[OF assms(1) ok]]])
    have ok2: "allOK cfg tm0 tm2" by (rule allOK_possiblyAddQuery[OF ok1 s2])
    have ok3: "allOK cfg tm0 tm3" by (rule allOK_possiblyAddOrderingEnum[OF ok2 s3])
    have ok4: "allOK cfg tm0 tm4" by (rule allOK_possiblyAddTypeInput[OF ok3 s4])
    have ok5: "allOK cfg tm0 tm5" by (rule allOK_possiblyAddFilterInput[OF ok4 s5])
    have ok6: "allOK cfg tm0 tm6" by (rule allOK_possiblyAddTypeMutations[OF ok5 s6])
    show ?thesis
      by (rule allOK_handleRelationFields[OF ok6 s7 okEntry_currentNode[OF ok6 ok]])
  qed
qed

subsection \<open>The stages after the loop\<close>

lemma set_setOperation: "snd ` set (setOperation m n f) \<subseteq> snd ` set m \<union> {f}"
  by (induction m) (auto split: if_splits, force+)

lemma set_foldl_setOperation:
  "snd ` set (foldl (\<lambda>acc t. setOperation acc (f_name t) t) acc flds) \<subseteq> snd ` set acc \<union> set flds"
proof (induction flds arbitrary: acc)
  case Nil
  then show ?case by simp
next
  case (Cons a flds)
  show ?case using Cons.IH[of "setOperation acc (f_name a) a"] set_setOperation[of acc "f_name a" a]
    by auto
qed

lemma set_createOperationMap:
  "snd ` set (createOperationMap (Some (Definition d))) \<subseteq> set (t_fields d)"
  using set_foldl_setOperation[of "[]" "t_fields d"] by simp

lemma f_name_augmentQueryField: "f_name (augmentQueryField tm cfg f) = f_name f"
  by (simp add: augmentQueryField_def addListAndFilterArguments_def Let_def)

lemma allOK_augmentQueryArguments:
  assumes "allOK cfg tm0 tm"
  shows "allOK cfg tm0 (augmentQueryArguments tm cfg)"
proof (cases "augmentQueryArguments tm cfg = tm")
  case True
  then show ?thesis using assms by simp
next
  case False
  define qm where "qm = createOperationMap (getType tm ''Query'')"
  from False obtain d where g: "getType tm ''Query'' = Some (Definition d)"
    and a: "augmentQueryArguments tm cfg = setType tm ''Query''
              (Definition (d\<lparr>t_fields := map (\<lambda>e. augmentQueryField tm cfg (snd e)) qm\<rparr>))"
    unfolding augmentQueryArguments_def Let_def qm_def
    by (auto split: if_splits option.splits ast_node.splits)
  have sub: "snd ` set qm \<subseteq> set (t_fields d)" unfolding qm_def g by (rule set_createOperationMap)
  have ok: "okEntry cfg tm0 ''Query'' (Definition d)" using allOK_getType[OF assms g] .
  have "okEntry cfg tm0 ''Query''
          (Definition (d\<lparr>t_fields := map (\<lambda>e. augmentQueryField tm cfg (snd e)) qm\<rparr>))"
    using ok
  proof (rule okEntry_same_field_names)
    show "set (map f_name (t_fields (d\<lparr>t_fields := map (\<lambda>e. augmentQueryField tm cfg (snd e)) qm\<rparr>)))
            \<subseteq> set (map f_name (t_fields d))"
      using sub by (auto simp: f_name_augmentQueryField)
  qed simp_all
  then show ?thesis unfolding a by (rule allOK_setType[OF assms])
qed

lemma okEntry_directiveDeclaration:
  "name \<noteq> ''Query'' \<Longrightarrow> name \<noteq> ''Mutation'' \<Longrightarrow> okEntry cfg tm0 name (directiveDeclaration name)"
  unfolding directiveDeclaration_def by (intro okEntry_created) (auto simp: definesKind_def)

lemma allOK_addDirectiveDeclarations:
  assumes "allOK cfg tm0 tm"
  shows "allOK cfg tm0 (addDirectiveDeclarations tm cfg)"
  unfolding addDirectiveDeclarations_def foldl.simps
  by (intro allOK_setType assms okEntry_directiveDeclaration) simp_all

subsection \<open>The pipeline\<close>

lemma allOK_augmentTypeMap:
  assumes "augmentTypeMap tm0 cfg = Inr tm'" "wellKeyed tm0"
  shows "allOK cfg tm0 tm'"
proof -
  define tm1 where "tm1 = initializeOperationTypes tm0 cfg"
  from assms(1) have b: "bindE (addRelationTypeDirectives tm1) (\<lambda>typeMap2.
         bindE (foldE (augmentEntry cfg) (addTemporalTypes typeMap2 cfg) (addTemporalTypes typeMap2 cfg))
           (\<lambda>typeMap4. Inr (addDirectiveDeclarations (augmentQueryArguments typeMap4 cfg) cfg))) = Inr tm'"
    unfolding augmentTypeMap_def Let_def tm1_def .
  from bindE_Inr[OF b] obtain tm2 where s2: "addRelationTypeDirectives tm1 = Inr tm2"
    and b2: "bindE (foldE (augmentEntry cfg) (addTemporalTypes tm2 cfg) (addTemporalTypes tm2 cfg))
           (\<lambda>typeMap4. Inr (addDirectiveDeclarations (augmentQueryArguments typeMap4 cfg) cfg)) = Inr tm'"
    by auto
  define tm3 where "tm3 = addTemporalTypes tm2 cfg"
  from bindE_Inr[OF b2] obtain tm4 where s4: "foldE (augmentEntry cfg) tm3 tm3 = Inr tm4"
    and tm': "tm' = addDirectiveDeclarations (augmentQueryArguments tm4 cfg) cfg"
    unfolding tm3_def by auto
  have ok1: "allOK cfg tm0 tm1" unfolding tm1_def by (rule allOK_initializeOperationTypes[OF assms(2)])
  have ok2: "allOK cfg tm0 tm2" by (rule allOK_addRelationTypeDirectives[OF ok1 s2])
  have ok3: "allOK cfg tm0 tm3" unfolding tm3_def by (rule allOK_addTemporalTypes[OF ok2])
  have ok4: "allOK cfg tm0 tm4"
    using s4
  proof (rule foldE_invariant[where P = "allOK cfg tm0"])
    show "allOK cfg tm0 tm3" by (rule ok3)
  next
    fix x s s'
    assume x: "x \<in> set tm3" and s: "allOK cfg tm0 s" "augmentEntry cfg x s = Inr s'"
    have "okEntry cfg tm0 (fst x) (snd x)" using ok3 x unfolding allOK_def by blast
    then show "allOK cfg tm0 s'" by (rule allOK_augmentEntry[OF s])
  qed
  show ?thesis unfolding tm'
    by (intro allOK_addDirectiveDeclarations allOK_augmentQueryArguments ok4)
qed

subsection \<open>Types excluded by the configuration\<close>

lemma allOK_rootFieldNames:
  assumes "allOK cfg tm0 tm" "n \<in> set (rootFieldNames tm r)"
  shows "(r = ''Query'' \<longrightarrow> allowedQueryField cfg tm0 n)
       \<and> (r = ''Mutation'' \<longrightarrow> allowedMutationField cfg tm0 n)"
proof -
  from assms(2) obtain f where f: "f \<in> set (rootFields tm r)" "f_name f = n"
    by (auto simp: rootFieldNames_def)
  from rootFields_in_set[OF f(1)] obtain d where
    d: "getType tm r = Some (Definition d)" "f \<in> set (t_fields d)" by auto
  have "okEntry cfg tm0 r (Definition d)" using allOK_getType[OF assms(1) d(1)] .
  then show ?thesis using d(2) f(2) unfolding okEntry_def by (auto simp: nodeFields_def)
qed

lemma allOK_holdsKind:
  assumes "allOK cfg tm0 tm" "holdsKind tm k kd" "getType tm0 k = None"
  shows "(kd = InputObjectTypeDefinition \<longrightarrow> allowedInput cfg k)
       \<and> (kd = EnumTypeDefinition \<longrightarrow> allowedEnum cfg k)"
proof -
  from assms(2) obtain node where n: "getType tm k = Some node" "definesKind node kd"
    by (auto simp: holdsKind_def split: option.splits)
  have "okEntry cfg tm0 k node" using allOK_getType[OF assms(1) n(1)] .
  then show ?thesis using n(2) assms(3) unfolding okEntry_def by auto
qed

lemma Input_not_Filter: "A @ ''Input'' \<noteq> T @ ''Filter''"
proof
  assume "A @ ''Input'' = T @ ''Filter''"
  then have "last (A @ ''Input'') = last (T @ ''Filter'')" by simp
  then show False by simp
qed

lemma mutation_name_cases:
  assumes "allowedMutationField cfg tm0 (mutationTypeName m @ T)"
    and "\<not> shouldAugmentType cfg MutationOperation T"
  shows "mutationTypeName m @ T \<in> set (rootFieldNames tm0 ''Mutation'')"
  using assms unfolding allowedMutationField_def
  by (cases m) (auto simp: mutationTypeName_def)

text \<open>
  C4.  When augmentation of a well-keyed type map succeeds: for a type \<open>T\<close> that the
  configuration excludes from queries, the result has no root query field named \<open>T\<close>, no
  input type under \<open>_TFilter\<close> and no enum under \<open>_TOrdering\<close> beyond what the input map
  holds; for a type \<open>T\<close> excluded from mutations, the result has no root mutation field
  \<open>CreateT\<close>, \<open>UpdateT\<close> or \<open>DeleteT\<close> beyond those of the input map.
\<close>

theorem augmentTypeMap_excluded_type:
  assumes "augmentTypeMap typeMap cfg = Inr typeMap'" and "wellKeyed typeMap"
  shows "(\<not> shouldAugmentType cfg QueryOperation T \<longrightarrow>
            \<not> addsRootField typeMap typeMap' ''Query'' T
            \<and> \<not> addsType typeMap typeMap' (''_'' @ T @ ''Filter'') InputObjectTypeDefinition
            \<and> \<not> addsType typeMap typeMap' (''_'' @ T @ ''Ordering'') EnumTypeDefinition)
       \<and> (\<not> shouldAugmentType cfg MutationOperation T \<longrightarrow>
            \<not> addsRootField typeMap typeMap' ''Mutation'' (''Create'' @ T)
            \<and> \<not> addsRootField typeMap typeMap' ''Mutation'' (''Update'' @ T)
            \<and> \<not> addsRootField typeMap typeMap' ''Mutation'' (''Delete'' @ T))"
proof -
  have ok: "allOK cfg typeMap typeMap'" using assms by (rule allOK_augmentTypeMap)
  have q: "\<not> addsRootField typeMap typeMap' ''Query'' T"
    if "\<not> shouldAugmentType cfg QueryOperation T"
    using allOK_rootFieldNames[OF ok, of T "''Query''"] that
    unfolding addsRootField_def allowedQueryField_def by blast
  have f: "\<not> addsType typeMap typeMap' (''_'' @ T @ ''Filter'') InputObjectTypeDefinition"
    if x: "\<not> shouldAugmentType cfg QueryOperation T"
  proof
    assume "addsType typeMap typeMap' (''_'' @ T @ ''Filter'') InputObjectTypeDefinition"
    then have "allowedInput cfg (''_'' @ T @ ''Filter'')"
      using allOK_holdsKind[OF ok] unfolding addsType_def by blast
    then show False using x Input_not_Filter unfolding allowedInput_def by auto
  qed
  have e: "\<not> addsType typeMap typeMap' (''_'' @ T @ ''Ordering'') EnumTypeDefinition"
    if x: "\<not> shouldAugmentType cfg QueryOperation T"
  proof
    assume "addsType typeMap typeMap' (''_'' @ T @ ''Ordering'') EnumTypeDefinition"
    then have "allowedEnum cfg (''_'' @ T @ ''Ordering'')"
      using allOK_holdsKind[OF ok] unfolding addsType_def by blast
    then show False using x unfolding allowedEnum_def by auto
  qed
  have m: "\<not> addsRootField typeMap typeMap' ''Mutation'' (mutationTypeName mt @ T)"
    if x: "\<not> shouldAugmentType cfg MutationOperation T" for mt
  proof
    assume a: "addsRootField typeMap typeMap' ''Mutation'' (mutationTypeName mt @ T)"
    then have "allowedMutationField cfg typeMap (mutationTypeName mt @ T)"
      using allOK_rootFieldNames[OF ok] unfolding addsRootField_def by blast
    from mutation_name_cases[OF this x] a show False unfolding addsRootField_def by blast
  qed
  show ?thesis
    using q f e m[of Create] m[of Update] m[of Delete]
    by (simp add: mutationTypeName_def)
qed

theorem augmentTypeMap_excluded_type_witness:
  "augmentTypeMap hiddenSchema hiddenConfig = Inr hiddenAugmented
   \<and> wellKeyed hiddenSchema
   \<and> \<not> shouldAugmentType hiddenConfig QueryOperation ''Hidden''
   \<and> \<not> shouldAugmentType hiddenConfig MutationOperation ''Hidden''
   \<and> rootFieldNames hiddenAugmented ''Query'' = [''Person'']
   \<and> rootFieldNames hiddenAugmented ''Mutation'' = [''CreatePerson'', ''UpdatePerson'', ''DeletePerson'']
   \<and> \<not> addsRootField hiddenSchema hiddenAugmented ''Query'' ''Hidden''
   \<and> \<not> addsType hiddenSchema hiddenAugmented (''_'' @ ''Hidden'' @ ''Filter'') InputObjectTypeDefinition
   \<and> \<not> addsType hiddenSchema hiddenAugmented (''_'' @ ''Hidden'' @ ''Ordering'') EnumTypeDefinition
   \<and> \<not> addsRootField hiddenSchema hiddenAugmented ''Mutation'' (''Create'' @ ''Hidden'')
   \<and> \<not> addsRootField hiddenSchema hiddenAugmented ''Mutation'' (''Update'' @ ''Hidden'')
   \<and> \<not> addsRootField hiddenSchema hiddenAugmented ''Mutation'' (''Delete'' @ ''Hidden'')"
proof -
  have r: "augmentTypeMap hiddenSchema hiddenConfig = Inr hiddenAugmented" by code_simp
  have w: "wellKeyed hiddenSchema" by code_simp
  have q: "\<not> shouldAugmentType hiddenConfig QueryOperation ''Hidden''" by code_simp
  have m: "\<not> shouldAugmentType hiddenConfig MutationOperation ''Hidden''" by code_simp
  have fq: "rootFieldNames hiddenAugmented ''Query'' = [''Person'']" by code_simp
  have fm: "rootFieldNames hiddenAugmented ''Mutation''
              = [''CreatePerson'', ''UpdatePerson'', ''DeletePerson'']" by code_simp
  show ?thesis
    using augmentTypeMap_excluded_type[OF r w, of "''Hidden''"] r w q m fq fm
    by (simp only: simp_thms)
qed

text \<open>
  C4 as stated fails for the name \<open>_TFilter\<close>: with \<open>UserGroup\<close> excluded from queries,
  the relationship field \<open>groupFilter\<close> of \<open>User\<close> makes the engine store its payload type
  under \<open>_UserGroupFilter\<close>, a name the input map does not hold.
\<close>

theorem excluded_type_filter_name_taken:
  "\<not> shouldAugmentType groupConfig QueryOperation ''UserGroup''
   \<and> getType groupSchema ''_UserGroupFilter'' = None
   \<and> (case augmentTypeMap groupSchema groupConfig of
         Inl e \<Rightarrow> False
       | Inr typeMap' \<Rightarrow> holdsKind typeMap' ''_UserGroupFilter'' ObjectTypeDefinition)"
  by code_simp


subsection \<open>Root operation types in the result\<close>

lemma augmentTypeMap_root_permitted:
  assumes "augmentTypeMap typeMap cfg = Inr typeMap'" "wellKeyed typeMap"
  shows "(getType typeMap ''Query'' = None \<and> getType typeMap' ''Query'' \<noteq> None
            \<longrightarrow> list_ex (\<lambda>e. permittedNodeType cfg QueryOperation (snd e)) typeMap)
       \<and> (getType typeMap ''Mutation'' = None \<and> getType typeMap' ''Mutation'' \<noteq> None
            \<longrightarrow> list_ex (\<lambda>e. permittedNodeType cfg MutationOperation (snd e)) typeMap)"
proof -
  have ok: "allOK cfg typeMap typeMap'" using assms by (rule allOK_augmentTypeMap)
  have r: "list_ex (\<lambda>e. permittedNodeType cfg QueryOperation (snd e)) typeMap"
    if "getType typeMap ''Query'' = None" "getType typeMap' ''Query'' \<noteq> None"
  proof -
    from that(2) obtain node where "getType typeMap' ''Query'' = Some node" by auto
    from allOK_getType[OF ok this] that(1) show ?thesis unfolding okEntry_def by simp
  qed
  have m: "list_ex (\<lambda>e. permittedNodeType cfg MutationOperation (snd e)) typeMap"
    if "getType typeMap ''Mutation'' = None" "getType typeMap' ''Mutation'' \<noteq> None"
  proof -
    from that(2) obtain node where "getType typeMap' ''Mutation'' = Some node" by auto
    from allOK_getType[OF ok this] that(1) show ?thesis unfolding okEntry_def by simp
  qed
  show ?thesis using r m by blast
qed

text \<open>
  C10.  \<open>initializeOperationTypes\<close> adds the root type \<open>Query\<close> only to a map that holds a
  node type permitted for queries, and the root type \<open>Mutation\<close> only to a map that holds a
  node type permitted for mutations; and when the augmentation of a well-keyed map
  succeeds, its result has a root type the input map has not only under the same
  condition.
\<close>

theorem initializeOperationTypes_root_types:
  "(getType typeMap ''Query'' = None
      \<and> getType (initializeOperationTypes typeMap cfg) ''Query'' \<noteq> None
    \<longrightarrow> list_ex (\<lambda>e. permittedNodeType cfg QueryOperation (snd e)) typeMap)
   \<and> (getType typeMap ''Mutation'' = None
      \<and> getType (initializeOperationTypes typeMap cfg) ''Mutation'' \<noteq> None
    \<longrightarrow> list_ex (\<lambda>e. permittedNodeType cfg MutationOperation (snd e)) typeMap)
   \<and> (augmentTypeMap typeMap cfg = Inr typeMap' \<and> wellKeyed typeMap \<longrightarrow>
        (getType typeMap ''Query'' = None \<and> getType typeMap' ''Query'' \<noteq> None
            \<longrightarrow> list_ex (\<lambda>e. permittedNodeType cfg QueryOperation (snd e)) typeMap)
        \<and> (getType typeMap ''Mutation'' = None \<and> getType typeMap' ''Mutation'' \<noteq> None
            \<longrightarrow> list_ex (\<lambda>e. permittedNodeType cfg MutationOperation (snd e)) typeMap))"
  using initializeOperationTypes_permitted[of typeMap cfg]
    augmentTypeMap_root_permitted[of typeMap cfg typeMap']
  by blast

theorem initializeOperationTypes_root_types_witness:
  "getType personSchema ''Query'' = None
   \<and> getType (initializeOperationTypes personSchema queryOnlyConfig) ''Query'' \<noteq> None
   \<and> list_ex (\<lambda>e. permittedNodeType queryOnlyConfig QueryOperation (snd e)) personSchema
   \<and> getType (initializeOperationTypes personSchema queryOnlyConfig) ''Mutation'' = None
   \<and> augmentTypeMap personSchema queryOnlyConfig = Inr queryOnlyAugmented
   \<and> wellKeyed personSchema
   \<and> getType queryOnlyAugmented ''Query'' \<noteq> None
   \<and> getType queryOnlyAugmented ''Mutation'' = None"
proof -
  have a: "getType personSchema ''Query'' = None" by code_simp
  have b: "getType (initializeOperationTypes personSchema queryOnlyConfig) ''Query'' \<noteq> None"
    by code_simp
  have c: "getType (initializeOperationTypes personSchema queryOnlyConfig) ''Mutation'' = None"
    by code_simp
  have d: "augmentTypeMap personSchema queryOnlyConfig = Inr queryOnlyAugmented" by code_simp
  have e: "wellKeyed personSchema" by code_simp
  have f: "getType queryOnlyAugmented ''Query'' \<noteq> None" by code_simp
  have g: "getType queryOnlyAugmented ''Mutation'' = None" by code_simp
  show ?thesis
    using initializeOperationTypes_root_types[of personSchema queryOnlyConfig queryOnlyAugmented] a b c d e f g by simp
qed


subsection \<open>Node mutations and the primary key\<close>











lemma possiblyAddTypeMutation_no_key:
  assumes "getPrimaryKey d = None" and "mt = Update \<or> mt = Delete"
    and "map_of mm (mutationTypeName mt @ t_name d) = None"
  shows "possiblyAddTypeMutation mt d tm mm cfg = Inl (TypeError ''length'')"
  using assms by (auto simp: possiblyAddTypeMutation_def buildMutationArguments_def Let_def)




end
